theory Spec2Isabelle
  imports Main
begin

text \<open>
  A shallow embedding of the ElementTree bindings of the SAML 2.0 objects
  (\<^verbatim>\<open>saml/xml/etree.py\<close>) and of the authorisation decision callback of the service stub
  (\<^verbatim>\<open>test_soapauthzdecisioninterface.py\<close>). Every \<^verbatim>\<open>create\<close> and \<^verbatim>\<open>parse\<close> class method is a
  function of the same name; an exception is a value \<open>Inl\<close> of a sum type; the class
  maps of the attribute value factory, which the constructor of the factory mutates,
  are a state passed through every function that constructs a factory. The definitions
  come first, then the properties, one section for each.
\<close>

section \<open>Exceptions and ElementTree elements\<close>

text \<open>
  The exceptions the binding raises. \<open>XMLObjectParseError\<close> is the class imported from
  \<^verbatim>\<open>saml.xml\<close>; the others are Python built-ins. \<open>AttributeError\<close> is what Python raises
  for an attribute access on \<^verbatim>\<open>None\<close> (\<^verbatim>\<open>elem.text.strip()\<close> on an element without text)
  and for a class attribute that does not exist. Every \<^verbatim>\<open>raise\<close> of the source is an
  \<open>Inl\<close> branch of the model.
\<close>

datatype error =
    TypeError
  | XMLObjectParseError
  | NotImplementedError
  | AttributeError
  | ValueError

text \<open>
  An \<^verbatim>\<open>ElementTree.Element\<close>: tag in James Clark notation \<^verbatim>\<open>{namespace}local\<close>, the
  attribute dictionary (an association list read with \<open>map_of\<close>; its order is the
  order in which \<^verbatim>\<open>attrib.items()\<close> iterates), the text (\<^verbatim>\<open>None\<close> when absent) and
  the child elements in document order.
\<close>

datatype Element =
  Element (elem_tag: string) (elem_attrib: "(string \<times> string) list")
          (elem_text: "string option") (elem_children: "Element list")

text \<open>\<^verbatim>\<open>elem.set(key, value)\<close>: overwrite the entry of an existing key, or add one.\<close>

fun elem_set_attrib :: "string \<Rightarrow> string \<Rightarrow> (string \<times> string) list \<Rightarrow> (string \<times> string) list" where
  "elem_set_attrib k v [] = [(k, v)]"
| "elem_set_attrib k v ((k', v') # kvs) =
     (if k = k' then (k, v) # kvs else (k', v') # elem_set_attrib k v kvs)"

definition elem_set :: "string \<Rightarrow> string \<Rightarrow> Element \<Rightarrow> Element" where
  "elem_set k v e =
     Element (elem_tag e) (elem_set_attrib k v (elem_attrib e)) (elem_text e) (elem_children e)"

text \<open>
  \<^verbatim>\<open>QName.getLocalPart = lambda tag: tag.rsplit('}', 1)[-1]\<close>: what follows the last
  closing brace, the whole tag when there is none. (\<^verbatim>\<open>QName.getNs\<close>, a regular
  expression search that cannot fail, computes a namespace that no binding reads.)
\<close>

definition getLocalPart :: "string \<Rightarrow> string" where
  "getLocalPart t = rev (takeWhile (\<lambda>c. c \<noteq> CHR ''}'') (rev t))"

text \<open>
  \<^verbatim>\<open>str(QName.fromGeneric(name))\<close> for a generic qualified name with namespace URI and
  local part: \<^verbatim>\<open>ElementTree.QName\<close> renders \<^verbatim>\<open>"{%s}%s" % (uri, tag)\<close>.
\<close>

definition QName_str :: "string \<times> string \<Rightarrow> string" where
  "QName_str qn = ''{'' @ fst qn @ ''}'' @ snd qn"

text \<open>
  \<^verbatim>\<open>str.strip()\<close> of a Python 2 byte string: leading and trailing white space (space,
  tab, line feed, vertical tab, form feed, carriage return) is removed.
\<close>

definition isspace :: "char \<Rightarrow> bool" where
  "isspace c = (c \<in> set [CHR '' '', CHR 0x09, CHR 0x0A, CHR 0x0B, CHR 0x0C, CHR 0x0D])"

definition strip :: "string \<Rightarrow> string" where
  "strip s = rev (dropWhile isspace (rev (dropWhile isspace s)))"

section \<open>Constants of the SAML object model\<close>

text \<open>
  Modelled from the spec: the element and attribute names are class constants of
  \<^verbatim>\<open>saml.saml2.core\<close> and \<^verbatim>\<open>saml.common.xml.SAMLConstants\<close>, which are not among the
  sources. The spec fixes them as the vocabulary of the OASIS SAML 2.0 assertion and
  protocol schemas (section 6, and the names \<^verbatim>\<open>Format\<close>, \<^verbatim>\<open>Version\<close>, \<^verbatim>\<open>xsi:type\<close> of
  sections 3, 4 and 8); a qualified name is the pair of namespace URI and local part.
\<close>

definition SAML20_NS :: string where
  "SAML20_NS = ''urn:oasis:names:tc:SAML:2.0:assertion''"

definition SAML20P_NS :: string where
  "SAML20P_NS = ''urn:oasis:names:tc:SAML:2.0:protocol''"

definition XMLNS_PREFIX :: string where "XMLNS_PREFIX = ''xmlns''"
definition XSD_PREFIX :: string where "XSD_PREFIX = ''xs''"
definition XSI_PREFIX :: string where "XSI_PREFIX = ''xsi''"
definition XSD_NS :: string where "XSD_NS = ''http://www.w3.org/2001/XMLSchema''"
definition XSI_NS :: string where "XSI_NS = ''http://www.w3.org/2001/XMLSchema-instance''"

definition Issuer_DEFAULT_ELEMENT_LOCAL_NAME :: string where
  "Issuer_DEFAULT_ELEMENT_LOCAL_NAME = ''Issuer''"
definition Issuer_DEFAULT_ELEMENT_NAME :: "string \<times> string" where
  "Issuer_DEFAULT_ELEMENT_NAME = (SAML20_NS, Issuer_DEFAULT_ELEMENT_LOCAL_NAME)"
definition Issuer_FORMAT_ATTRIB_NAME :: string where
  "Issuer_FORMAT_ATTRIB_NAME = ''Format''"

definition NameID_DEFAULT_ELEMENT_LOCAL_NAME :: string where
  "NameID_DEFAULT_ELEMENT_LOCAL_NAME = ''NameID''"
definition NameID_DEFAULT_ELEMENT_NAME :: "string \<times> string" where
  "NameID_DEFAULT_ELEMENT_NAME = (SAML20_NS, NameID_DEFAULT_ELEMENT_LOCAL_NAME)"
definition NameID_FORMAT_ATTRIB_NAME :: string where
  "NameID_FORMAT_ATTRIB_NAME = ''Format''"

definition Subject_DEFAULT_ELEMENT_LOCAL_NAME :: string where
  "Subject_DEFAULT_ELEMENT_LOCAL_NAME = ''Subject''"
definition Subject_DEFAULT_ELEMENT_NAME :: "string \<times> string" where
  "Subject_DEFAULT_ELEMENT_NAME = (SAML20_NS, Subject_DEFAULT_ELEMENT_LOCAL_NAME)"

definition StatusCode_DEFAULT_ELEMENT_LOCAL_NAME :: string where
  "StatusCode_DEFAULT_ELEMENT_LOCAL_NAME = ''StatusCode''"
definition StatusCode_DEFAULT_ELEMENT_NAME :: "string \<times> string" where
  "StatusCode_DEFAULT_ELEMENT_NAME = (SAML20P_NS, StatusCode_DEFAULT_ELEMENT_LOCAL_NAME)"

definition Status_DEFAULT_ELEMENT_LOCAL_NAME :: string where
  "Status_DEFAULT_ELEMENT_LOCAL_NAME = ''Status''"
definition Status_DEFAULT_ELEMENT_NAME :: "string \<times> string" where
  "Status_DEFAULT_ELEMENT_NAME = (SAML20P_NS, Status_DEFAULT_ELEMENT_LOCAL_NAME)"

section \<open>Leaf bindings\<close>

text \<open>
  The objects of \<^verbatim>\<open>saml.saml2.core\<close> as records. A field that the binding writes to an
  XML attribute or to the element text is a string; a field that holds another object
  (the \<^verbatim>\<open>nameID\<close> of a subject, the \<^verbatim>\<open>statusCode\<close> of a status), that \<^verbatim>\<open>parse\<close> may leave
  unset, or that \<^verbatim>\<open>create\<close> tests against \<^verbatim>\<open>None\<close>, is an \<open>option\<close>, \<open>None\<close> until the caller
  assigns it. The argument of a \<^verbatim>\<open>create\<close> is an \<open>option\<close> too, so that the \<^verbatim>\<open>isinstance\<close>
  check of the source is a branch of the model: \<^verbatim>\<open>SubjectElementTree.create\<close> passes
  \<^verbatim>\<open>subject.nameID\<close> to \<^verbatim>\<open>NameIdElementTree.create\<close>, which raises \<^verbatim>\<open>TypeError\<close> when it is
  \<^verbatim>\<open>None\<close>, and likewise for the status code of a status.

  Every \<^verbatim>\<open>create\<close> also records the prefix of its namespace in the process-wide
  \<^verbatim>\<open>ElementTree._namespace_map\<close>. That table is read by serialisation to text only: it
  influences neither the element a \<^verbatim>\<open>create\<close> returns nor any \<^verbatim>\<open>parse\<close>, and is not part
  of the model.
\<close>

record Issuer =
  Issuer_format :: string
  Issuer_value :: string

record NameID =
  NameID_format :: string
  NameID_value :: string

record Subject =
  Subject_nameID :: "NameID option"

record StatusCode =
  StatusCode_value :: string

record StatusMessage =
  StatusMessage_value :: string

record Status =
  Status_statusCode :: "StatusCode option"
  Status_statusMessage :: "StatusMessage option"

definition IssuerElementTree_create :: "Issuer option \<Rightarrow> error + Element" where
  "IssuerElementTree_create issuer =
     (case issuer of
        None \<Rightarrow> Inl TypeError
      | Some i \<Rightarrow>
          Inr (Element (QName_str Issuer_DEFAULT_ELEMENT_NAME)
                 [(Issuer_FORMAT_ATTRIB_NAME, Issuer_format i)]
                 (Some (Issuer_value i)) []))"

definition IssuerElementTree_parse :: "Element \<Rightarrow> error + Issuer" where
  "IssuerElementTree_parse elem =
     (if getLocalPart (elem_tag elem) \<noteq> Issuer_DEFAULT_ELEMENT_LOCAL_NAME
      then Inl XMLObjectParseError
      else case map_of (elem_attrib elem) Issuer_FORMAT_ATTRIB_NAME of
             None \<Rightarrow> Inl XMLObjectParseError
           | Some issuerFormat \<Rightarrow>
               (case elem_text elem of
                  None \<Rightarrow> Inl AttributeError
                | Some t \<Rightarrow> Inr \<lparr>Issuer_format = issuerFormat, Issuer_value = strip t\<rparr>))"

definition NameIdElementTree_create :: "NameID option \<Rightarrow> error + Element" where
  "NameIdElementTree_create nameID =
     (case nameID of
        None \<Rightarrow> Inl TypeError
      | Some n \<Rightarrow>
          Inr (Element (QName_str NameID_DEFAULT_ELEMENT_NAME)
                 [(NameID_FORMAT_ATTRIB_NAME, NameID_format n)]
                 (Some (NameID_value n)) []))"

definition NameIdElementTree_parse :: "Element \<Rightarrow> error + NameID" where
  "NameIdElementTree_parse elem =
     (if getLocalPart (elem_tag elem) \<noteq> NameID_DEFAULT_ELEMENT_LOCAL_NAME
      then Inl XMLObjectParseError
      else case map_of (elem_attrib elem) NameID_FORMAT_ATTRIB_NAME of
             None \<Rightarrow> Inl XMLObjectParseError
           | Some format \<Rightarrow>
               (case elem_text elem of
                  None \<Rightarrow> Inl AttributeError
                | Some t \<Rightarrow> Inr \<lparr>NameID_format = format, NameID_value = strip t\<rparr>))"

definition SubjectElementTree_create :: "Subject option \<Rightarrow> error + Element" where
  "SubjectElementTree_create subject =
     (case subject of
        None \<Rightarrow> Inl TypeError
      | Some s \<Rightarrow>
          (case NameIdElementTree_create (Subject_nameID s) of
             Inl e \<Rightarrow> Inl e
           | Inr nameIdElem \<Rightarrow>
               Inr (Element (QName_str Subject_DEFAULT_ELEMENT_NAME) [] None [nameIdElem])))"

definition SubjectElementTree_parse :: "Element \<Rightarrow> error + Subject" where
  "SubjectElementTree_parse elem =
     (if getLocalPart (elem_tag elem) \<noteq> Subject_DEFAULT_ELEMENT_LOCAL_NAME
      then Inl XMLObjectParseError
      else if length (elem_children elem) \<noteq> 1 then Inl XMLObjectParseError
      else case NameIdElementTree_parse (hd (elem_children elem)) of
             Inl e \<Rightarrow> Inl e
           | Inr n \<Rightarrow> Inr \<lparr>Subject_nameID = Some n\<rparr>)"

definition StatusCodeElementTree_create :: "StatusCode option \<Rightarrow> error + Element" where
  "StatusCodeElementTree_create statusCode =
     (case statusCode of
        None \<Rightarrow> Inl TypeError
      | Some c \<Rightarrow>
          Inr (Element (QName_str StatusCode_DEFAULT_ELEMENT_NAME) []
                 (Some (StatusCode_value c)) []))"

definition StatusCodeElementTree_parse :: "Element \<Rightarrow> error + StatusCode" where
  "StatusCodeElementTree_parse elem =
     (if getLocalPart (elem_tag elem) \<noteq> StatusCode_DEFAULT_ELEMENT_LOCAL_NAME
      then Inl XMLObjectParseError
      else case elem_text elem of
             None \<Rightarrow> Inl AttributeError
           | Some t \<Rightarrow> Inr \<lparr>StatusCode_value = strip t\<rparr>)"

definition StatusElementTree_create :: "Status option \<Rightarrow> error + Element" where
  "StatusElementTree_create status =
     (case status of
        None \<Rightarrow> Inl TypeError
      | Some s \<Rightarrow>
          (case StatusCodeElementTree_create (Status_statusCode s) of
             Inl e \<Rightarrow> Inl e
           | Inr statusCodeElem \<Rightarrow>
               Inr (Element (QName_str Status_DEFAULT_ELEMENT_NAME) [] None [statusCodeElem])))"

definition StatusElementTree_parse :: "Element \<Rightarrow> error + Status" where
  "StatusElementTree_parse elem =
     (if getLocalPart (elem_tag elem) \<noteq> Status_DEFAULT_ELEMENT_LOCAL_NAME
      then Inl XMLObjectParseError
      else if length (elem_children elem) \<noteq> 1 then Inl XMLObjectParseError
      else case StatusCodeElementTree_parse (hd (elem_children elem)) of
             Inl e \<Rightarrow> Inl e
           | Inr c \<Rightarrow> Inr \<lparr>Status_statusCode = Some c, Status_statusMessage = None\<rparr>)"

section \<open>Versions and issue instants\<close>

text \<open>
  Modelled from the spec: \<^verbatim>\<open>SAMLVersion\<close> is a class of \<^verbatim>\<open>saml.saml2.core\<close>, not among
  the sources. The spec describes it as the tuple (major, minor), of which only 2.0 is
  accepted by the parse paths. The constructor reads the dotted decimal form of the
  \<^verbatim>\<open>Version\<close> attribute, \<^verbatim>\<open>str\<close> writes it; a string that is not two decimal numbers
  separated by a dot is a \<open>ValueError\<close>.
\<close>

type_synonym SAMLVersion = "nat \<times> nat"

definition SAMLVersion_VERSION_20 :: SAMLVersion where
  "SAMLVersion_VERSION_20 = (2, 0)"

definition SAMLVersion_VERSION_11 :: SAMLVersion where
  "SAMLVersion_VERSION_11 = (1, 1)"

definition isdigit :: "char \<Rightarrow> bool" where
  "isdigit c = (48 \<le> (of_char c :: nat) \<and> (of_char c :: nat) \<le> 57)"

definition int_of_str :: "string \<Rightarrow> error + nat" where
  "int_of_str s =
     (if s \<noteq> [] \<and> list_all isdigit s
      then Inr (foldl (\<lambda>n c. 10 * n + ((of_char c :: nat) - 48)) 0 s)
      else Inl ValueError)"

fun str_of_nat :: "nat \<Rightarrow> string" where
  "str_of_nat n =
     (if n < 10 then [char_of (48 + n)]
      else str_of_nat (n div 10) @ [char_of (48 + n mod 10)])"

text \<open>\<^verbatim>\<open>s.split(sep)\<close> of Python for a one-character separator.\<close>

fun split_on :: "char \<Rightarrow> string \<Rightarrow> string list" where
  "split_on sep [] = [[]]"
| "split_on sep (c # cs) =
     (if c = sep then [] # split_on sep cs
      else case split_on sep cs of
             [] \<Rightarrow> [[c]]
           | w # ws \<Rightarrow> (c # w) # ws)"

definition SAMLVersion_valueOf :: "string \<Rightarrow> error + SAMLVersion" where
  "SAMLVersion_valueOf s =
     (case split_on CHR ''.'' s of
        [a, b] \<Rightarrow>
          (case int_of_str a of
             Inl e \<Rightarrow> Inl e
           | Inr major \<Rightarrow>
               (case int_of_str b of
                  Inl e \<Rightarrow> Inl e
                | Inr minor \<Rightarrow> Inr (major, minor)))
      | _ \<Rightarrow> Inl ValueError)"

definition SAMLVersion_str :: "SAMLVersion \<Rightarrow> string" where
  "SAMLVersion_str v = str_of_nat (fst v) @ ''.'' @ str_of_nat (snd v)"

text \<open>
  \<^verbatim>\<open>IssueInstantXMLObject\<close> (in \<^verbatim>\<open>saml.xml\<close>, not among the sources) gives the bindings
  the class methods \<^verbatim>\<open>datetime2Str\<close> and \<^verbatim>\<open>str2Datetime\<close>. The spec does not fix the
  timestamp format, so the two methods are a parameter of every binding that inherits
  from the class: \<open>'dt\<close> is the type of the date-times the formatter accepts, and
  reading a string may fail.
\<close>

record 'dt IssueInstantXMLObject =
  datetime2Str :: "'dt \<Rightarrow> string"
  str2Datetime :: "string \<Rightarrow> error + 'dt"

section \<open>Attribute values and their factory\<close>

definition AttributeValue_DEFAULT_ELEMENT_LOCAL_NAME :: string where
  "AttributeValue_DEFAULT_ELEMENT_LOCAL_NAME = ''AttributeValue''"
definition AttributeValue_DEFAULT_ELEMENT_NAME :: "string \<times> string" where
  "AttributeValue_DEFAULT_ELEMENT_NAME = (SAML20_NS, AttributeValue_DEFAULT_ELEMENT_LOCAL_NAME)"
definition XSStringAttributeValue_TYPE_LOCAL_NAME :: string where
  "XSStringAttributeValue_TYPE_LOCAL_NAME = ''string''"

text \<open>
  The attribute values: the string value of the sources (its \<^verbatim>\<open>value\<close> stays \<^verbatim>\<open>None\<close>
  when the parsed element has no text), the group/role value with its group and role,
  and an instance of any further subclass of \<^verbatim>\<open>AttributeValue\<close> a deployment defines,
  given by the name of its class and its fields. \<open>pyclass\<close> are the Python classes that
  may be keys of the class map: \<open>Other_class\<close> is a class that does not derive from
  \<^verbatim>\<open>AttributeValue\<close>. The handler class of the group/role value is in neither default
  map, so the factory treats the value like that of any class without a registration.
\<close>

datatype AttributeValue =
    XSStringAttributeValue "string option"
  | XSGroupRoleAttributeValue string string
  | CustomAttributeValue string "(string \<times> string) list"

datatype pyclass =
    XSStringAttributeValue_class
  | XSGroupRoleAttributeValue_class
  | CustomAttributeValue_class string
  | Other_class string

fun class_of :: "AttributeValue \<Rightarrow> pyclass" where
  "class_of (XSStringAttributeValue v) = XSStringAttributeValue_class"
| "class_of (XSGroupRoleAttributeValue g r) = XSGroupRoleAttributeValue_class"
| "class_of (CustomAttributeValue c fs) = CustomAttributeValue_class c"

fun issubclass_AttributeValue :: "pyclass \<Rightarrow> bool" where
  "issubclass_AttributeValue (Other_class c) = False"
| "issubclass_AttributeValue c = True"

definition AttributeValueElementTreeBase_create :: "AttributeValue \<Rightarrow> error + Element" where
  "AttributeValueElementTreeBase_create attributeValue =
     Inr (Element (QName_str AttributeValue_DEFAULT_ELEMENT_NAME) [] None [])"

definition XSStringAttributeValueElementTree_create :: "AttributeValue \<Rightarrow> error + Element" where
  "XSStringAttributeValueElementTree_create attributeValue =
     (case AttributeValueElementTreeBase_create attributeValue of
        Inl e \<Rightarrow> Inl e
      | Inr elem \<Rightarrow>
          (case attributeValue of
             XSStringAttributeValue v \<Rightarrow>
               (let elem1 = elem_set (XMLNS_PREFIX @ '':'' @ XSD_PREFIX) XSD_NS elem;
                    elem2 = elem_set (XMLNS_PREFIX @ '':'' @ XSI_PREFIX) XSI_NS elem1;
                    elem3 = elem_set (XSI_PREFIX @ '':'' @ ''type'')
                              (XSD_PREFIX @ '':'' @ XSStringAttributeValue_TYPE_LOCAL_NAME) elem2
                in Inr (Element (elem_tag elem3) (elem_attrib elem3) v (elem_children elem3)))
           | _ \<Rightarrow> Inl TypeError))"

definition XSStringAttributeValueElementTree_parse :: "Element \<Rightarrow> error + AttributeValue" where
  "XSStringAttributeValueElementTree_parse elem =
     (if getLocalPart (elem_tag elem) \<noteq> AttributeValue_DEFAULT_ELEMENT_LOCAL_NAME
      then Inl XMLObjectParseError
      else
        (let typeValue = (case map_of (elem_attrib elem) (QName_str (XSI_NS, ''type'')) of
                            None \<Rightarrow> []
                          | Some v \<Rightarrow> v);
             typeValueLocalName = last (split_on CHR '':'' typeValue)
         in if typeValueLocalName \<noteq> XSStringAttributeValue_TYPE_LOCAL_NAME
            then Inl XMLObjectParseError
            else Inr (XSStringAttributeValue (map_option strip (elem_text elem)))))"

text \<open>
  An ElementTree handler class, as far as the factory and its callers use it: its
  \<^verbatim>\<open>create\<close> and its \<^verbatim>\<open>parse\<close>.
\<close>

record avCodec =
  av_create :: "AttributeValue \<Rightarrow> error + Element"
  av_parse :: "Element \<Rightarrow> error + AttributeValue"

definition XSStringAttributeValueElementTree :: avCodec where
  "XSStringAttributeValueElementTree =
     \<lparr>av_create = XSStringAttributeValueElementTree_create,
      av_parse = XSStringAttributeValueElementTree_parse\<rparr>"

text \<open>
  The class attributes \<^verbatim>\<open>classMap\<close> and \<^verbatim>\<open>idMap\<close> of the factory are dictionaries owned by
  the class: they are the state \<open>factory_state\<close>, threaded through every operation that
  constructs a factory. An operation returns its result or exception together with the
  state it leaves behind, since a dictionary entry written before an exception stays
  written.
\<close>

record factory_state =
  classMap :: "pyclass \<Rightarrow> avCodec option"
  idMap :: "string \<Rightarrow> avCodec option"

definition AttributeValueElementTreeFactory_classMap :: "pyclass \<Rightarrow> avCodec option" where
  "AttributeValueElementTreeFactory_classMap =
     [XSStringAttributeValue_class \<mapsto> XSStringAttributeValueElementTree]"

definition AttributeValueElementTreeFactory_idMap :: "string \<Rightarrow> avCodec option" where
  "AttributeValueElementTreeFactory_idMap = [''xs:string'' \<mapsto> XSStringAttributeValueElementTree]"

definition initial_factory_state :: factory_state where
  "initial_factory_state =
     \<lparr>classMap = AttributeValueElementTreeFactory_classMap,
      idMap = AttributeValueElementTreeFactory_idMap\<rparr>"

text \<open>
  The keyword arguments of the constructor. A key of \<^verbatim>\<open>customIdMap\<close> is any Python
  object: a string or something else. The lists are in the order \<^verbatim>\<open>items()\<close> iterates.
\<close>

datatype pykey = StrKey string | NonStrKey

record factory_kw =
  customClassMap :: "(pyclass \<times> avCodec) list"
  customIdMap :: "(pykey \<times> avCodec) list"

definition no_kw :: factory_kw where
  "no_kw = \<lparr>customClassMap = [], customIdMap = []\<rparr>"

fun register_classes ::
  "(pyclass \<times> avCodec) list \<Rightarrow> (pyclass \<Rightarrow> avCodec option) \<Rightarrow>
   (error + unit) \<times> (pyclass \<Rightarrow> avCodec option)" where
  "register_classes [] m = (Inr (), m)"
| "register_classes ((samlClass, etreeClass) # rest) m =
     (if \<not> issubclass_AttributeValue samlClass then (Inl TypeError, m)
      else register_classes rest (m(samlClass \<mapsto> etreeClass)))"

fun register_ids ::
  "(pykey \<times> avCodec) list \<Rightarrow> (string \<Rightarrow> avCodec option) \<Rightarrow>
   (error + unit) \<times> (string \<Rightarrow> avCodec option)" where
  "register_ids [] m = (Inr (), m)"
| "register_ids ((NonStrKey, etreeClass) # rest) m = (Inl TypeError, m)"
| "register_ids ((StrKey samlId, etreeClass) # rest) m =
     register_ids rest (m(samlId \<mapsto> etreeClass))"

definition AttributeValueElementTreeFactory_init ::
  "factory_kw \<Rightarrow> factory_state \<Rightarrow> (error + unit) \<times> factory_state" where
  "AttributeValueElementTreeFactory_init kw st =
     (case register_classes (customClassMap kw) (classMap st) of
        (Inl e, cm) \<Rightarrow> (Inl e, st\<lparr>classMap := cm\<rparr>)
      | (Inr u, cm) \<Rightarrow>
          (case register_ids (customIdMap kw) (idMap st) of
             (r, im) \<Rightarrow> (r, st\<lparr>classMap := cm, idMap := im\<rparr>)))"

datatype factory_input =
    AttributeValue_input AttributeValue
  | String_input string
  | Other_input

definition AttributeValueElementTreeFactory_call ::
  "factory_input \<Rightarrow> factory_state \<Rightarrow> error + avCodec" where
  "AttributeValueElementTreeFactory_call input st =
     (case input of
        AttributeValue_input v \<Rightarrow>
          (case classMap st (class_of v) of
             None \<Rightarrow> Inl TypeError
           | Some xmlObjectClass \<Rightarrow> Inr xmlObjectClass)
      | String_input s \<Rightarrow>
          (case idMap st s of
             None \<Rightarrow> Inl TypeError
           | Some xmlObjectClass \<Rightarrow> Inr xmlObjectClass)
      | Other_input \<Rightarrow> Inl TypeError)"

section \<open>Attributes\<close>

definition Attribute_DEFAULT_ELEMENT_LOCAL_NAME :: string where
  "Attribute_DEFAULT_ELEMENT_LOCAL_NAME = ''Attribute''"
definition Attribute_DEFAULT_ELEMENT_NAME :: "string \<times> string" where
  "Attribute_DEFAULT_ELEMENT_NAME = (SAML20_NS, Attribute_DEFAULT_ELEMENT_LOCAL_NAME)"
definition Attribute_NAME_ATTRIB_NAME :: string where
  "Attribute_NAME_ATTRIB_NAME = ''Name''"
definition Attribute_FRIENDLY_NAME_ATTRIB_NAME :: string where
  "Attribute_FRIENDLY_NAME_ATTRIB_NAME = ''FriendlyName''"
definition Attribute_NAME_FORMAT_ATTRIB_NAME :: string where
  "Attribute_NAME_FORMAT_ATTRIB_NAME = ''NameFormat''"

record Attribute =
  Attribute_name :: "string option"
  Attribute_friendlyName :: "string option"
  Attribute_nameFormat :: "string option"
  Attribute_attributeValues :: "AttributeValue list"

text \<open>\<^verbatim>\<open>elem.append(child)\<close>.\<close>

definition elem_append :: "Element \<Rightarrow> Element \<Rightarrow> Element" where
  "elem_append child e =
     Element (elem_tag e) (elem_attrib e) (elem_text e) (elem_children e @ [child])"

text \<open>
  \<^verbatim>\<open>if field: elem.set(name, field)\<close>: the attribute is written when the field is
  neither \<^verbatim>\<open>None\<close> nor the empty string.
\<close>

definition set_if_true :: "string \<Rightarrow> string option \<Rightarrow> Element \<Rightarrow> Element" where
  "set_if_true k field e =
     (case field of
        None \<Rightarrow> e
      | Some v \<Rightarrow> if v \<noteq> [] then elem_set k v e else e)"

text \<open>
  The loop \<^verbatim>\<open>for x in xs: elem.append(create(x))\<close> of every composite \<^verbatim>\<open>create\<close>: the
  children are appended in the order of the list, and the first exception ends the
  loop.
\<close>

fun append_each ::
  "('x \<Rightarrow> factory_state \<Rightarrow> (error + Element) \<times> factory_state) \<Rightarrow> 'x list \<Rightarrow> Element \<Rightarrow>
   factory_state \<Rightarrow> (error + Element) \<times> factory_state" where
  "append_each create [] elem st = (Inr elem, st)"
| "append_each create (x # rest) elem st =
     (case create x st of
        (Inl e, st') \<Rightarrow> (Inl e, st')
      | (Inr childElem, st') \<Rightarrow> append_each create rest (elem_append childElem elem) st')"

text \<open>
  One round of the loop over \<^verbatim>\<open>attribute.attributeValues\<close> of
  \<^verbatim>\<open>AttributeElementTree.create\<close>: it constructs a factory from the keyword arguments,
  asks it for the handler class of the value, and lets that class create the element.
\<close>

definition create_attributeValue ::
  "factory_kw \<Rightarrow> AttributeValue \<Rightarrow> factory_state \<Rightarrow> (error + Element) \<times> factory_state" where
  "create_attributeValue kw attributeValue st =
     (case AttributeValueElementTreeFactory_init kw st of
        (Inl e, st') \<Rightarrow> (Inl e, st')
      | (Inr u, st') \<Rightarrow>
          (case AttributeValueElementTreeFactory_call (AttributeValue_input attributeValue) st' of
             Inl e \<Rightarrow> (Inl e, st')
           | Inr attributeValueElementTree \<Rightarrow>
               (av_create attributeValueElementTree attributeValue, st')))"

definition AttributeElementTree_create ::
  "factory_kw \<Rightarrow> Attribute \<Rightarrow> factory_state \<Rightarrow> (error + Element) \<times> factory_state" where
  "AttributeElementTree_create kw attribute st =
     (let elem = Element (QName_str Attribute_DEFAULT_ELEMENT_NAME) [] None [];
          elem1 = set_if_true Attribute_FRIENDLY_NAME_ATTRIB_NAME (Attribute_friendlyName attribute) elem;
          elem2 = set_if_true Attribute_NAME_ATTRIB_NAME (Attribute_name attribute) elem1;
          elem3 = set_if_true Attribute_NAME_FORMAT_ATTRIB_NAME (Attribute_nameFormat attribute) elem2
      in append_each (create_attributeValue kw) (Attribute_attributeValues attribute) elem3 st)"

text \<open>
  The loop over the children of \<^verbatim>\<open>AttributeElementTree.parse\<close>. The type identifier is
  the value of the first attribute, in iteration order, whose name has the local part
  \<^verbatim>\<open>type\<close> (\<^verbatim>\<open>QName(attribName).localPart\<close> is \<open>getLocalPart\<close> of the name).
\<close>

fun parse_attributeValues ::
  "factory_kw \<Rightarrow> Element list \<Rightarrow> Attribute \<Rightarrow> factory_state \<Rightarrow>
   (error + Attribute) \<times> factory_state" where
  "parse_attributeValues kw [] attribute st = (Inr attribute, st)"
| "parse_attributeValues kw (childElem # rest) attribute st =
     (if getLocalPart (elem_tag childElem) \<noteq> AttributeValue_DEFAULT_ELEMENT_LOCAL_NAME
      then (Inl XMLObjectParseError, st)
      else case find (\<lambda>(attribName, attribVal). getLocalPart attribName = ''type'')
                  (elem_attrib childElem) of
             None \<Rightarrow> (Inl XMLObjectParseError, st)
           | Some (attribName, attributeValueTypeId) \<Rightarrow>
               (case AttributeValueElementTreeFactory_init kw st of
                  (Inl e, st') \<Rightarrow> (Inl e, st')
                | (Inr u, st') \<Rightarrow>
                    (case AttributeValueElementTreeFactory_call (String_input attributeValueTypeId) st' of
                       Inl e \<Rightarrow> (Inl e, st')
                     | Inr attributeValueElementTreeClass \<Rightarrow>
                         (case av_parse attributeValueElementTreeClass childElem of
                            Inl e \<Rightarrow> (Inl e, st')
                          | Inr attributeValue \<Rightarrow>
                              parse_attributeValues kw rest
                                (attribute\<lparr>Attribute_attributeValues :=
                                   Attribute_attributeValues attribute @ [attributeValue]\<rparr>) st'))))"

definition AttributeElementTree_parse ::
  "factory_kw \<Rightarrow> Element \<Rightarrow> factory_state \<Rightarrow> (error + Attribute) \<times> factory_state" where
  "AttributeElementTree_parse kw elem st =
     (if getLocalPart (elem_tag elem) \<noteq> Attribute_DEFAULT_ELEMENT_LOCAL_NAME
      then (Inl XMLObjectParseError, st)
      else parse_attributeValues kw (elem_children elem)
             \<lparr>Attribute_name = map_of (elem_attrib elem) Attribute_NAME_ATTRIB_NAME,
              Attribute_friendlyName = map_of (elem_attrib elem) Attribute_FRIENDLY_NAME_ATTRIB_NAME,
              Attribute_nameFormat = map_of (elem_attrib elem) Attribute_NAME_FORMAT_ATTRIB_NAME,
              Attribute_attributeValues = []\<rparr> st)"

definition AttributeStatement_DEFAULT_ELEMENT_LOCAL_NAME :: string where
  "AttributeStatement_DEFAULT_ELEMENT_LOCAL_NAME = ''AttributeStatement''"
definition AttributeStatement_DEFAULT_ELEMENT_NAME :: "string \<times> string" where
  "AttributeStatement_DEFAULT_ELEMENT_NAME =
     (SAML20_NS, AttributeStatement_DEFAULT_ELEMENT_LOCAL_NAME)"

record AttributeStatement =
  AttributeStatement_attributes :: "Attribute list"

definition AttributeStatementElementTree_create ::
  "factory_kw \<Rightarrow> AttributeStatement \<Rightarrow> factory_state \<Rightarrow> (error + Element) \<times> factory_state" where
  "AttributeStatementElementTree_create kw attributeStatement st =
     append_each (AttributeElementTree_create kw)
       (AttributeStatement_attributes attributeStatement)
       (Element (QName_str AttributeStatement_DEFAULT_ELEMENT_NAME) [] None []) st"

section \<open>Conditions and assertions\<close>

definition Conditions_DEFAULT_ELEMENT_LOCAL_NAME :: string where
  "Conditions_DEFAULT_ELEMENT_LOCAL_NAME = ''Conditions''"
definition Conditions_DEFAULT_ELEMENT_NAME :: "string \<times> string" where
  "Conditions_DEFAULT_ELEMENT_NAME = (SAML20_NS, Conditions_DEFAULT_ELEMENT_LOCAL_NAME)"
definition Conditions_NOT_BEFORE_ATTRIB_NAME :: string where
  "Conditions_NOT_BEFORE_ATTRIB_NAME = ''NotBefore''"
definition Conditions_NOT_ON_OR_AFTER_ATTRIB_NAME :: string where
  "Conditions_NOT_ON_OR_AFTER_ATTRIB_NAME = ''NotOnOrAfter''"

definition Assertion_DEFAULT_ELEMENT_LOCAL_NAME :: string where
  "Assertion_DEFAULT_ELEMENT_LOCAL_NAME = ''Assertion''"
definition Assertion_DEFAULT_ELEMENT_NAME :: "string \<times> string" where
  "Assertion_DEFAULT_ELEMENT_NAME = (SAML20_NS, Assertion_DEFAULT_ELEMENT_LOCAL_NAME)"
definition ID_ATTRIB_NAME :: string where
  "ID_ATTRIB_NAME = ''ID''"
definition ISSUE_INSTANT_ATTRIB_NAME :: string where
  "ISSUE_INSTANT_ATTRIB_NAME = ''IssueInstant''"
definition VERSION_ATTRIB_NAME :: string where
  "VERSION_ATTRIB_NAME = ''Version''"
definition IN_RESPONSE_TO_ATTRIB_NAME :: string where
  "IN_RESPONSE_TO_ATTRIB_NAME = ''InResponseTo''"

text \<open>
  The members of the collections whose serialisation is not implemented. The binding
  never looks inside a condition, an advice, a statement or an authentication
  statement, so these carry a label only; the authorisation decision statement has the
  fields the service stub of the tests fills in.
\<close>

datatype Condition = Condition string
datatype Advice = Advice string
datatype Statement = Statement string
datatype AuthnStatement = AuthnStatement string

datatype DecisionType = PERMIT | DENY | INDETERMINATE

record Action =
  Action_namespace :: string
  Action_value :: string

record AuthzDecisionStatement =
  AuthzDecisionStatement_decision :: DecisionType
  AuthzDecisionStatement_resource :: string
  AuthzDecisionStatement_actions :: "Action list"

record 'dt Conditions =
  Conditions_notBefore :: 'dt
  Conditions_notOnOrAfter :: 'dt
  Conditions_conditions :: "Condition list"

record 'dt Assertion =
  Assertion_id :: string
  Assertion_issueInstant :: 'dt
  Assertion_version :: SAMLVersion
  Assertion_issuer :: "Issuer option"
  Assertion_subject :: "Subject option"
  Assertion_advice :: "Advice option"
  Assertion_conditions :: "'dt Conditions option"
  Assertion_statements :: "Statement list"
  Assertion_authnStatements :: "AuthnStatement list"
  Assertion_authzDecisionStatements :: "AuthzDecisionStatement list"
  Assertion_attributeStatements :: "AttributeStatement list"

definition ConditionsElementTree_create ::
  "'dt IssueInstantXMLObject \<Rightarrow> 'dt Conditions \<Rightarrow> error + Element" where
  "ConditionsElementTree_create cls conditions =
     (let notBeforeStr = datetime2Str cls (Conditions_notBefore conditions);
          notOnOrAfterStr = datetime2Str cls (Conditions_notOnOrAfter conditions);
          elem = Element (QName_str Conditions_DEFAULT_ELEMENT_NAME)
                   [(Conditions_NOT_BEFORE_ATTRIB_NAME, notBeforeStr),
                    (Conditions_NOT_ON_OR_AFTER_ATTRIB_NAME, notOnOrAfterStr)] None []
      in if Conditions_conditions conditions \<noteq> [] then Inl NotImplementedError
         else Inr elem)"

text \<open>
  \<^verbatim>\<open>AssertionElementTree.create\<close>. The three optional children are appended behind
  \<^verbatim>\<open>is not None\<close> tests; an advice, and the first member of \<^verbatim>\<open>statements\<close>,
  \<^verbatim>\<open>authnStatements\<close> or \<^verbatim>\<open>authzDecisionStatements\<close>, raise.
\<close>

definition AssertionElementTree_create ::
  "'dt IssueInstantXMLObject \<Rightarrow> factory_kw \<Rightarrow> 'dt Assertion \<Rightarrow> factory_state \<Rightarrow>
   (error + Element) \<times> factory_state" where
  "AssertionElementTree_create cls kw assertion st =
     (let issueInstant = datetime2Str cls (Assertion_issueInstant assertion);
          elem = Element (QName_str Assertion_DEFAULT_ELEMENT_NAME)
                   [(ID_ATTRIB_NAME, Assertion_id assertion),
                    (ISSUE_INSTANT_ATTRIB_NAME, issueInstant),
                    (VERSION_ATTRIB_NAME, SAMLVersion_str (Assertion_version assertion))] None []
      in case (case Assertion_issuer assertion of
                 None \<Rightarrow> Inr elem
               | Some i \<Rightarrow> map_sum id (\<lambda>issuerElem. elem_append issuerElem elem)
                            (IssuerElementTree_create (Some i))) of
           Inl e \<Rightarrow> (Inl e, st)
         | Inr elem1 \<Rightarrow>
        (case (case Assertion_subject assertion of
                 None \<Rightarrow> Inr elem1
               | Some s \<Rightarrow> map_sum id (\<lambda>subjectElem. elem_append subjectElem elem1)
                            (SubjectElementTree_create (Some s))) of
           Inl e \<Rightarrow> (Inl e, st)
         | Inr elem2 \<Rightarrow>
        if Assertion_advice assertion \<noteq> None then (Inl NotImplementedError, st)
        else
        (case (case Assertion_conditions assertion of
                 None \<Rightarrow> Inr elem2
               | Some c \<Rightarrow> map_sum id (\<lambda>conditionsElem. elem_append conditionsElem elem2)
                            (ConditionsElementTree_create cls c)) of
           Inl e \<Rightarrow> (Inl e, st)
         | Inr elem3 \<Rightarrow>
        if Assertion_statements assertion \<noteq> [] then (Inl NotImplementedError, st)
        else if Assertion_authnStatements assertion \<noteq> [] then (Inl NotImplementedError, st)
        else if Assertion_authzDecisionStatements assertion \<noteq> [] then (Inl NotImplementedError, st)
        else append_each (AttributeStatementElementTree_create kw)
               (Assertion_attributeStatements assertion) elem3 st)))"

text \<open>
  Modelled from the spec: \<^verbatim>\<open>AssertionElementTree\<close> defines \<^verbatim>\<open>create\<close> only, and its base
  classes \<^verbatim>\<open>Assertion\<close> and \<^verbatim>\<open>IssueInstantXMLObject\<close> are not among the sources. The
  assertion binding has no parse operation, so the call
  \<^verbatim>\<open>AssertionElementTree.parse(childElem)\<close> of the response binding raises for every
  element.
\<close>

definition AssertionElementTree_parse :: "Element \<Rightarrow> error + 'dt Assertion" where
  "AssertionElementTree_parse elem = Inl AttributeError"

section \<open>Attribute queries\<close>

definition AttributeQuery_DEFAULT_ELEMENT_LOCAL_NAME :: string where
  "AttributeQuery_DEFAULT_ELEMENT_LOCAL_NAME = ''AttributeQuery''"
definition AttributeQuery_DEFAULT_ELEMENT_NAME :: "string \<times> string" where
  "AttributeQuery_DEFAULT_ELEMENT_NAME = (SAML20P_NS, AttributeQuery_DEFAULT_ELEMENT_LOCAL_NAME)"

record 'dt AttributeQuery =
  AttributeQuery_id :: string
  AttributeQuery_issueInstant :: 'dt
  AttributeQuery_version :: SAMLVersion
  AttributeQuery_issuer :: "Issuer option"
  AttributeQuery_subject :: "Subject option"
  AttributeQuery_attributes :: "Attribute list"

definition AttributeQueryElementTree_create ::
  "'dt IssueInstantXMLObject \<Rightarrow> factory_kw \<Rightarrow> 'dt AttributeQuery \<Rightarrow> factory_state \<Rightarrow>
   (error + Element) \<times> factory_state" where
  "AttributeQueryElementTree_create cls kw attributeQuery st =
     (let issueInstant = datetime2Str cls (AttributeQuery_issueInstant attributeQuery);
          elem = Element (QName_str AttributeQuery_DEFAULT_ELEMENT_NAME)
                   [(ID_ATTRIB_NAME, AttributeQuery_id attributeQuery),
                    (ISSUE_INSTANT_ATTRIB_NAME, issueInstant),
                    (VERSION_ATTRIB_NAME, SAMLVersion_str (AttributeQuery_version attributeQuery))]
                   None []
      in case IssuerElementTree_create (AttributeQuery_issuer attributeQuery) of
           Inl e \<Rightarrow> (Inl e, st)
         | Inr issuerElem \<Rightarrow>
             (case SubjectElementTree_create (AttributeQuery_subject attributeQuery) of
                Inl e \<Rightarrow> (Inl e, st)
              | Inr subjectElem \<Rightarrow>
                  append_each (AttributeElementTree_create kw)
                    (AttributeQuery_attributes attributeQuery)
                    (elem_append subjectElem (elem_append issuerElem elem)) st))"

text \<open>
  The loop over the children of \<^verbatim>\<open>AttributeQueryElementTree.parse\<close>. The attribute
  binding is called without keyword arguments.
\<close>

fun AttributeQuery_parse_children ::
  "Element list \<Rightarrow> 'dt AttributeQuery \<Rightarrow> factory_state \<Rightarrow>
   (error + 'dt AttributeQuery) \<times> factory_state" where
  "AttributeQuery_parse_children [] attributeQuery st = (Inr attributeQuery, st)"
| "AttributeQuery_parse_children (childElem # rest) attributeQuery st =
     (let localName = getLocalPart (elem_tag childElem)
      in if localName = Issuer_DEFAULT_ELEMENT_LOCAL_NAME then
           (case IssuerElementTree_parse childElem of
              Inl e \<Rightarrow> (Inl e, st)
            | Inr issuer \<Rightarrow>
                AttributeQuery_parse_children rest
                  (attributeQuery\<lparr>AttributeQuery_issuer := Some issuer\<rparr>) st)
         else if localName = Subject_DEFAULT_ELEMENT_LOCAL_NAME then
           (case SubjectElementTree_parse childElem of
              Inl e \<Rightarrow> (Inl e, st)
            | Inr subject \<Rightarrow>
                AttributeQuery_parse_children rest
                  (attributeQuery\<lparr>AttributeQuery_subject := Some subject\<rparr>) st)
         else if localName = Attribute_DEFAULT_ELEMENT_LOCAL_NAME then
           (case AttributeElementTree_parse no_kw childElem st of
              (Inl e, st') \<Rightarrow> (Inl e, st')
            | (Inr attribute, st') \<Rightarrow>
                AttributeQuery_parse_children rest
                  (attributeQuery\<lparr>AttributeQuery_attributes :=
                     AttributeQuery_attributes attributeQuery @ [attribute]\<rparr>) st')
         else (Inl XMLObjectParseError, st))"

text \<open>
  \<^verbatim>\<open>AttributeQueryElementTree.parse\<close>: the tag, then the presence of the three
  attributes in the order \<^verbatim>\<open>Version\<close>, \<^verbatim>\<open>IssueInstant\<close>, \<^verbatim>\<open>ID\<close>, then the version, the
  issue instant, and the children.
\<close>

definition AttributeQueryElementTree_parse ::
  "'dt IssueInstantXMLObject \<Rightarrow> Element \<Rightarrow> factory_state \<Rightarrow>
   (error + 'dt AttributeQuery) \<times> factory_state" where
  "AttributeQueryElementTree_parse cls elem st =
     (if getLocalPart (elem_tag elem) \<noteq> AttributeQuery_DEFAULT_ELEMENT_LOCAL_NAME
      then (Inl XMLObjectParseError, st)
      else case map_of (elem_attrib elem) VERSION_ATTRIB_NAME of
        None \<Rightarrow> (Inl XMLObjectParseError, st)
      | Some versionStr \<Rightarrow>
     (case map_of (elem_attrib elem) ISSUE_INSTANT_ATTRIB_NAME of
        None \<Rightarrow> (Inl XMLObjectParseError, st)
      | Some issueInstantStr \<Rightarrow>
     (case map_of (elem_attrib elem) ID_ATTRIB_NAME of
        None \<Rightarrow> (Inl XMLObjectParseError, st)
      | Some idStr \<Rightarrow>
     (case SAMLVersion_valueOf versionStr of
        Inl e \<Rightarrow> (Inl e, st)
      | Inr version \<Rightarrow>
     if version \<noteq> SAMLVersion_VERSION_20 then (Inl NotImplementedError, st)
     else
     (case str2Datetime cls issueInstantStr of
        Inl e \<Rightarrow> (Inl e, st)
      | Inr issueInstant \<Rightarrow>
          AttributeQuery_parse_children (elem_children elem)
            \<lparr>AttributeQuery_id = idStr,
             AttributeQuery_issueInstant = issueInstant,
             AttributeQuery_version = version,
             AttributeQuery_issuer = None,
             AttributeQuery_subject = None,
             AttributeQuery_attributes = []\<rparr> st)))))"

section \<open>Responses\<close>

definition Response_DEFAULT_ELEMENT_LOCAL_NAME :: string where
  "Response_DEFAULT_ELEMENT_LOCAL_NAME = ''Response''"
definition Response_DEFAULT_ELEMENT_NAME :: "string \<times> string" where
  "Response_DEFAULT_ELEMENT_NAME = (SAML20P_NS, Response_DEFAULT_ELEMENT_LOCAL_NAME)"

record 'dt Response =
  Response_id :: string
  Response_issueInstant :: 'dt
  Response_version :: SAMLVersion
  Response_inResponseTo :: string
  Response_issuer :: "Issuer option"
  Response_status :: "Status option"
  Response_subject :: "Subject option"
  Response_assertions :: "'dt Assertion list"

text \<open>
  \<^verbatim>\<open>ResponseElementTree.create\<close>: the issuer and the status are created without a test
  against \<^verbatim>\<open>None\<close>; the subject is not written.
\<close>

definition ResponseElementTree_create ::
  "'dt IssueInstantXMLObject \<Rightarrow> factory_kw \<Rightarrow> 'dt Response \<Rightarrow> factory_state \<Rightarrow>
   (error + Element) \<times> factory_state" where
  "ResponseElementTree_create cls kw response st =
     (let issueInstant = datetime2Str cls (Response_issueInstant response);
          elem = Element (QName_str Response_DEFAULT_ELEMENT_NAME)
                   [(ID_ATTRIB_NAME, Response_id response),
                    (ISSUE_INSTANT_ATTRIB_NAME, issueInstant),
                    (IN_RESPONSE_TO_ATTRIB_NAME, Response_inResponseTo response),
                    (VERSION_ATTRIB_NAME, SAMLVersion_str (Response_version response))]
                   None []
      in case IssuerElementTree_create (Response_issuer response) of
           Inl e \<Rightarrow> (Inl e, st)
         | Inr issuerElem \<Rightarrow>
             (case StatusElementTree_create (Response_status response) of
                Inl e \<Rightarrow> (Inl e, st)
              | Inr statusElem \<Rightarrow>
                  append_each (AssertionElementTree_create cls kw)
                    (Response_assertions response)
                    (elem_append statusElem (elem_append issuerElem elem)) st))"

fun Response_parse_children ::
  "Element list \<Rightarrow> 'dt Response \<Rightarrow> error + 'dt Response" where
  "Response_parse_children [] response = Inr response"
| "Response_parse_children (childElem # rest) response =
     (let localName = getLocalPart (elem_tag childElem)
      in if localName = Issuer_DEFAULT_ELEMENT_LOCAL_NAME then
           (case IssuerElementTree_parse childElem of
              Inl e \<Rightarrow> Inl e
            | Inr issuer \<Rightarrow>
                Response_parse_children rest (response\<lparr>Response_issuer := Some issuer\<rparr>))
         else if localName = Status_DEFAULT_ELEMENT_LOCAL_NAME then
           (case StatusElementTree_parse childElem of
              Inl e \<Rightarrow> Inl e
            | Inr status \<Rightarrow>
                Response_parse_children rest (response\<lparr>Response_status := Some status\<rparr>))
         else if localName = Subject_DEFAULT_ELEMENT_LOCAL_NAME then
           (case SubjectElementTree_parse childElem of
              Inl e \<Rightarrow> Inl e
            | Inr subject \<Rightarrow>
                Response_parse_children rest (response\<lparr>Response_subject := Some subject\<rparr>))
         else if localName = Assertion_DEFAULT_ELEMENT_LOCAL_NAME then
           (case AssertionElementTree_parse childElem of
              Inl e \<Rightarrow> Inl e
            | Inr assertion \<Rightarrow>
                Response_parse_children rest
                  (response\<lparr>Response_assertions := Response_assertions response @ [assertion]\<rparr>))
         else Inl XMLObjectParseError)"

text \<open>
  \<^verbatim>\<open>ResponseElementTree.parse\<close>: the tag, then the presence of the four attributes in
  the order \<^verbatim>\<open>Version\<close>, \<^verbatim>\<open>IssueInstant\<close>, \<^verbatim>\<open>ID\<close>, \<^verbatim>\<open>InResponseTo\<close>, then the version,
  the issue instant, and the children. No factory is constructed on this path.
\<close>

definition ResponseElementTree_parse ::
  "'dt IssueInstantXMLObject \<Rightarrow> Element \<Rightarrow> error + 'dt Response" where
  "ResponseElementTree_parse cls elem =
     (if getLocalPart (elem_tag elem) \<noteq> Response_DEFAULT_ELEMENT_LOCAL_NAME
      then Inl XMLObjectParseError
      else case map_of (elem_attrib elem) VERSION_ATTRIB_NAME of
        None \<Rightarrow> Inl XMLObjectParseError
      | Some versionStr \<Rightarrow>
     (case map_of (elem_attrib elem) ISSUE_INSTANT_ATTRIB_NAME of
        None \<Rightarrow> Inl XMLObjectParseError
      | Some issueInstantStr \<Rightarrow>
     (case map_of (elem_attrib elem) ID_ATTRIB_NAME of
        None \<Rightarrow> Inl XMLObjectParseError
      | Some idStr \<Rightarrow>
     (case map_of (elem_attrib elem) IN_RESPONSE_TO_ATTRIB_NAME of
        None \<Rightarrow> Inl XMLObjectParseError
      | Some inResponseToStr \<Rightarrow>
     (case SAMLVersion_valueOf versionStr of
        Inl e \<Rightarrow> Inl e
      | Inr version \<Rightarrow>
     if version \<noteq> SAMLVersion_VERSION_20 then Inl NotImplementedError
     else
     (case str2Datetime cls issueInstantStr of
        Inl e \<Rightarrow> Inl e
      | Inr issueInstant \<Rightarrow>
          Response_parse_children (elem_children elem)
            \<lparr>Response_id = idStr,
             Response_issueInstant = issueInstant,
             Response_version = version,
             Response_inResponseTo = inResponseToStr,
             Response_issuer = None,
             Response_status = None,
             Response_subject = None,
             Response_assertions = []\<rparr>))))))"

section \<open>The authorisation decision callback of the service stub\<close>

text \<open>
  Modelled from the spec: the constants \<^verbatim>\<open>StatusCode.SUCCESS_URI\<close>, \<^verbatim>\<open>Issuer.X509_SUBJECT\<close>,
  \<^verbatim>\<open>Action.GHPP_NS_URI\<close> and \<^verbatim>\<open>Action.HTTP_GET_ACTION\<close> belong to \<^verbatim>\<open>ndg.saml.saml2.core\<close>, not
  among the sources; they are the SAML 2.0 success status, the X.509 subject name
  format, and the HTTP GET action of the glossary.
\<close>

definition StatusCode_SUCCESS_URI :: string where
  "StatusCode_SUCCESS_URI = ''urn:oasis:names:tc:SAML:2.0:status:Success''"
definition Issuer_X509_SUBJECT :: string where
  "Issuer_X509_SUBJECT = ''urn:oasis:names:tc:SAML:1.1:nameid-format:X509SubjectName''"
definition Action_GHPP_NS_URI :: string where
  "Action_GHPP_NS_URI = ''urn:oasis:names:tc:SAML:1.0:action:ghpp''"
definition Action_HTTP_GET_ACTION :: string where
  "Action_HTTP_GET_ACTION = ''GET''"

definition RESOURCE_URI :: string where
  "RESOURCE_URI = ''http://localhost/dap/data/''"
definition ISSUER_DN :: string where
  "ISSUER_DN = ''/O=Test/OU=Authorisation/CN=Service Stub''"

record 'dt AuthzDecisionQuery =
  AuthzDecisionQuery_id :: string
  AuthzDecisionQuery_issueInstant :: 'dt
  AuthzDecisionQuery_version :: SAMLVersion
  AuthzDecisionQuery_issuer :: "Issuer option"
  AuthzDecisionQuery_subject :: "Subject option"
  AuthzDecisionQuery_resource :: string
  AuthzDecisionQuery_actions :: "Action list"

text \<open>
  What the callback takes from its environment: the clock (\<^verbatim>\<open>datetime.utcnow()\<close>),
  the addition of a number of seconds to a date-time (\<^verbatim>\<open>now + timedelta(seconds=n)\<close>),
  and the strings of the two identifiers \<^verbatim>\<open>uuid4()\<close> draws, first the one for the
  response and then the one for the assertion.
\<close>

record 'dt callback_env =
  env_utcnow :: 'dt
  env_add_seconds :: "'dt \<Rightarrow> nat \<Rightarrow> 'dt"
  env_uuid4_first :: string
  env_uuid4_second :: string

text \<open>
  \<^verbatim>\<open>uuid4\<close> belongs to the standard library. What its callers rely on is that an
  identifier it draws is fresh: it is none of the identifiers already in circulation
  (\<open>issued\<close>: those of the queries received and of the objects built so far), and a
  later draw is none of the earlier ones.
\<close>

definition uuid4_fresh :: "'dt callback_env \<Rightarrow> string list \<Rightarrow> bool" where
  "uuid4_fresh env issued =
     (env_uuid4_first env \<notin> set issued \<and>
      env_uuid4_second env \<notin> set (env_uuid4_first env # issued))"

text \<open>
  The function \<^verbatim>\<open>authzDecisionQuery(query, response)\<close> that
  \<^verbatim>\<open>TestAuthorisationServiceMiddleware.authzDecisionQueryFactory\<close> returns. It fills in the
  response it is given and returns it; reading the name identifier of a query that has
  no subject, or whose subject has none, raises.
\<close>

definition authzDecisionQuery ::
  "'dt callback_env \<Rightarrow> 'dt AuthzDecisionQuery \<Rightarrow> 'dt Response \<Rightarrow> error + 'dt Response" where
  "authzDecisionQuery env query response =
     (let now = env_utcnow env;
          response1 = response\<lparr>Response_issueInstant := now,
                               Response_inResponseTo := AuthzDecisionQuery_id query,
                               Response_id := env_uuid4_first env,
                               Response_version := SAMLVersion_VERSION_20,
                               Response_status :=
                                 Some \<lparr>Status_statusCode =
                                         Some \<lparr>StatusCode_value = StatusCode_SUCCESS_URI\<rparr>,
                                       Status_statusMessage =
                                         Some \<lparr>StatusMessage_value = ''Response created successfully''\<rparr>\<rparr>\<rparr>;
          authzDecisionStatement =
            \<lparr>AuthzDecisionStatement_decision = PERMIT,
             AuthzDecisionStatement_resource = RESOURCE_URI,
             AuthzDecisionStatement_actions =
               [\<lparr>Action_namespace = Action_GHPP_NS_URI, Action_value = Action_HTTP_GET_ACTION\<rparr>]\<rparr>;
          conditions =
            \<lparr>Conditions_notBefore = now,
             Conditions_notOnOrAfter = env_add_seconds env now (60 * 60 * 8),
             Conditions_conditions = []\<rparr>
      in case AuthzDecisionQuery_subject query of
           None \<Rightarrow> Inl AttributeError
         | Some querySubject \<Rightarrow>
             (case Subject_nameID querySubject of
                None \<Rightarrow> Inl AttributeError
              | Some queryNameID \<Rightarrow>
                  (let assertion =
                         \<lparr>Assertion_id = env_uuid4_second env,
                          Assertion_issueInstant = now,
                          Assertion_version = SAMLVersion_VERSION_20,
                          Assertion_issuer =
                            Some \<lparr>Issuer_format = Issuer_X509_SUBJECT, Issuer_value = ISSUER_DN\<rparr>,
                          Assertion_subject =
                            Some \<lparr>Subject_nameID =
                                    Some \<lparr>NameID_format = NameID_format queryNameID,
                                          NameID_value = NameID_value queryNameID\<rparr>\<rparr>,
                          Assertion_advice = None,
                          Assertion_conditions = Some conditions,
                          Assertion_statements = [],
                          Assertion_authnStatements = [],
                          Assertion_authzDecisionStatements = [authzDecisionStatement],
                          Assertion_attributeStatements = []\<rparr>
                   in Inr (response1\<lparr>Response_assertions :=
                                    Response_assertions response1 @ [assertion]\<rparr>))))"

section \<open>Concrete inputs\<close>

text \<open>
  An instance of the date-time methods for evaluating the bindings on concrete
  elements: a date-time is a number of seconds, written in decimal.
\<close>

definition example_IssueInstantXMLObject :: "nat IssueInstantXMLObject" where
  "example_IssueInstantXMLObject = \<lparr>datetime2Str = str_of_nat, str2Datetime = int_of_str\<rparr>"

text \<open>
  Objects as a caller builds them: an attribute with one string value, an assertion
  that uses only what the binding implements, an attribute query and a response.
\<close>

definition example_attribute :: Attribute where
  "example_attribute =
     \<lparr>Attribute_name = Some ''urn:esg:email:address'',
      Attribute_friendlyName = Some ''email'',
      Attribute_nameFormat = None,
      Attribute_attributeValues = [XSStringAttributeValue (Some ''alice@example.org'')]\<rparr>"

definition example_issuer :: Issuer where
  "example_issuer = \<lparr>Issuer_format = Issuer_X509_SUBJECT, Issuer_value = ''/O=Site A/CN=PEP''\<rparr>"

definition example_subject :: Subject where
  "example_subject =
     \<lparr>Subject_nameID =
        Some \<lparr>NameID_format = ''urn:esg:openid'',
              NameID_value = ''https://openid.localhost/philip.kershaw''\<rparr>\<rparr>"

definition example_assertion :: "nat Assertion" where
  "example_assertion =
     \<lparr>Assertion_id = ''a1'',
      Assertion_issueInstant = 1267000000,
      Assertion_version = SAMLVersion_VERSION_20,
      Assertion_issuer = Some example_issuer,
      Assertion_subject = None,
      Assertion_advice = None,
      Assertion_conditions =
        Some \<lparr>Conditions_notBefore = 1267000000, Conditions_notOnOrAfter = 1267028800,
              Conditions_conditions = []\<rparr>,
      Assertion_statements = [],
      Assertion_authnStatements = [],
      Assertion_authzDecisionStatements = [],
      Assertion_attributeStatements =
        [\<lparr>AttributeStatement_attributes = [example_attribute]\<rparr>]\<rparr>"

definition example_query :: "nat AttributeQuery" where
  "example_query =
     \<lparr>AttributeQuery_id = ''q1'',
      AttributeQuery_issueInstant = 1267000000,
      AttributeQuery_version = SAMLVersion_VERSION_20,
      AttributeQuery_issuer = Some example_issuer,
      AttributeQuery_subject = Some example_subject,
      AttributeQuery_attributes =
        [\<lparr>Attribute_name = Some ''urn:esg:first:name'', Attribute_friendlyName = Some ''firstName'',
          Attribute_nameFormat = None, Attribute_attributeValues = []\<rparr>,
         \<lparr>Attribute_name = Some ''urn:esg:email:address'', Attribute_friendlyName = None,
          Attribute_nameFormat = Some ''urn:format'', Attribute_attributeValues = []\<rparr>]\<rparr>"

definition example_role_query :: "nat AttributeQuery" where
  "example_role_query =
     example_query\<lparr>AttributeQuery_attributes :=
       [\<lparr>Attribute_name = Some ''urn:esg:role'', Attribute_friendlyName = None,
         Attribute_nameFormat = None,
         Attribute_attributeValues =
           [CustomAttributeValue ''GroupRole'' [(''group'', ''staff''), (''role'', ''admin'')],
            CustomAttributeValue ''GroupRole'' [(''group'', ''cmip5''), (''role'', ''user'')]]\<rparr>,
        \<lparr>Attribute_name = Some ''urn:esg:first:name'', Attribute_friendlyName = Some ''firstName'',
         Attribute_nameFormat = None, Attribute_attributeValues = []\<rparr>]\<rparr>"

definition example_response :: "nat Response" where
  "example_response =
     \<lparr>Response_id = ''r1'',
      Response_issueInstant = 1267000000,
      Response_version = SAMLVersion_VERSION_20,
      Response_inResponseTo = ''q1'',
      Response_issuer = Some example_issuer,
      Response_status =
        Some \<lparr>Status_statusCode = Some \<lparr>StatusCode_value = StatusCode_SUCCESS_URI\<rparr>,
              Status_statusMessage = None\<rparr>,
      Response_subject = None,
      Response_assertions = []\<rparr>"

text \<open>
  The inputs of the callback: an authorisation decision query as the test case builds
  it, the response object the service hands to the callback, and an environment.
\<close>

definition example_authz_query :: "nat AuthzDecisionQuery" where
  "example_authz_query =
     \<lparr>AuthzDecisionQuery_id = ''0f8fad5b-d9cb-469f-a165-70867728950e'',
      AuthzDecisionQuery_issueInstant = 1267000000,
      AuthzDecisionQuery_version = SAMLVersion_VERSION_20,
      AuthzDecisionQuery_issuer = Some example_issuer,
      AuthzDecisionQuery_subject = Some example_subject,
      AuthzDecisionQuery_resource = RESOURCE_URI,
      AuthzDecisionQuery_actions =
        [\<lparr>Action_namespace = Action_GHPP_NS_URI, Action_value = Action_HTTP_GET_ACTION\<rparr>]\<rparr>"

definition empty_response :: "nat Response" where
  "empty_response =
     \<lparr>Response_id = [],
      Response_issueInstant = 0,
      Response_version = SAMLVersion_VERSION_20,
      Response_inResponseTo = [],
      Response_issuer = None,
      Response_status = None,
      Response_subject = None,
      Response_assertions = []\<rparr>"

definition example_env :: "nat callback_env" where
  "example_env =
     \<lparr>env_utcnow = 1267000001,
      env_add_seconds = (+),
      env_uuid4_first = ''7c9e6679-7425-40de-944b-e07fc1f90ae7'',
      env_uuid4_second = ''e4eaaaf2-d142-11e1-b3e4-080027620cdd''\<rparr>"

text \<open>
  A codec a deployment registers for its own attribute value class \<^verbatim>\<open>GroupRole\<close>,
  under the type identifier \<^verbatim>\<open>esg:groupRole\<close>: the fields of the value are the
  attributes of the element, beside the type attribute.
\<close>

definition GroupRole_create :: "AttributeValue \<Rightarrow> error + Element" where
  "GroupRole_create attributeValue =
     (case attributeValue of
        CustomAttributeValue c fs \<Rightarrow>
          if c = ''GroupRole''
          then Inr (Element (QName_str AttributeValue_DEFAULT_ELEMENT_NAME)
                      ((QName_str (XSI_NS, ''type''), ''esg:groupRole'') # fs) None [])
          else Inl TypeError
      | _ \<Rightarrow> Inl TypeError)"

definition GroupRole_parse :: "Element \<Rightarrow> error + AttributeValue" where
  "GroupRole_parse elem =
     (if getLocalPart (elem_tag elem) \<noteq> AttributeValue_DEFAULT_ELEMENT_LOCAL_NAME
      then Inl XMLObjectParseError
      else Inr (CustomAttributeValue ''GroupRole'' (tl (elem_attrib elem))))"

definition GroupRoleElementTree :: avCodec where
  "GroupRoleElementTree = \<lparr>av_create = GroupRole_create, av_parse = GroupRole_parse\<rparr>"

definition GroupRole_kw :: factory_kw where
  "GroupRole_kw =
     \<lparr>customClassMap = [(CustomAttributeValue_class ''GroupRole'', GroupRoleElementTree)],
      customIdMap = [(StrKey ''esg:groupRole'', GroupRoleElementTree)]\<rparr>"

section \<open>Notions used to state and prove the properties\<close>

text \<open>
  The states a \<^verbatim>\<open>create\<close> with keyword arguments \<open>kw\<close>, started in \<open>st0\<close>, can be in while
  it runs: \<open>st0\<close> itself, until the first factory is constructed, and from then on the
  state that construction leaves. A creation function is \<open>coherent\<close> when, on these
  states, a success stays among them and yields the same element from each of them.
\<close>

definition same_or_registered :: "factory_kw \<Rightarrow> factory_state \<Rightarrow> factory_state \<Rightarrow> bool" where
  "same_or_registered kw st0 s =
     (s = st0 \<or> AttributeValueElementTreeFactory_init kw st0 = (Inr (), s))"

definition coherent ::
  "factory_kw \<Rightarrow> factory_state \<Rightarrow>
   ('x \<Rightarrow> factory_state \<Rightarrow> (error + Element) \<times> factory_state) \<Rightarrow> bool" where
  "coherent kw st0 f =
     (\<forall>x s t c s2. same_or_registered kw st0 s \<longrightarrow> same_or_registered kw st0 t \<longrightarrow>
        f x s = (Inr c, s2) \<longrightarrow> same_or_registered kw st0 s2 \<and> fst (f x t) = Inr c)"


text \<open>
  The element \<^verbatim>\<open>AttributeElementTree.create\<close> has built when it reaches the loop over
  the attribute values.
\<close>

definition Attribute_head :: "Attribute \<Rightarrow> Element" where
  "Attribute_head attribute =
     set_if_true Attribute_NAME_FORMAT_ATTRIB_NAME (Attribute_nameFormat attribute)
       (set_if_true Attribute_NAME_ATTRIB_NAME (Attribute_name attribute)
          (set_if_true Attribute_FRIENDLY_NAME_ATTRIB_NAME (Attribute_friendlyName attribute)
             (Element (QName_str Attribute_DEFAULT_ELEMENT_NAME) [] None [])))"

text \<open>
  The attributes, queries and responses for which \<^verbatim>\<open>parse\<close> inverts \<^verbatim>\<open>create\<close>. A text
  value must be free of leading and trailing white space, since \<^verbatim>\<open>parse\<close> strips it;
  a name of an attribute must not be the empty string, which \<^verbatim>\<open>create\<close> does not
  write; the version is 2.0; the issue instant is one the date-time format preserves;
  the issuer and the subject with its name identifier (or the status with its status
  code, without a message) are present; a response has no subject and no assertions. An attribute value must round-trip in the state of the
  class maps: the codec of its class creates an \<^verbatim>\<open>AttributeValue\<close> element, the first
  attribute of that element whose local part (after a closing brace) is \<^verbatim>\<open>type\<close> holds
  a type identifier, and the codec of that identifier parses the element into the
  value.
\<close>

definition stripped :: "string \<Rightarrow> bool" where
  "stripped s = (strip s = s)"

definition parses_back :: "factory_state \<Rightarrow> AttributeValue \<Rightarrow> Element \<Rightarrow> bool" where
  "parses_back st v el =
     (getLocalPart (elem_tag el) = AttributeValue_DEFAULT_ELEMENT_LOCAL_NAME \<and>
      (case find (\<lambda>(attribName, attribVal). getLocalPart attribName = ''type'')
              (elem_attrib el) of
         None \<Rightarrow> False
       | Some (attribName, typeId) \<Rightarrow>
           (case idMap st typeId of
              None \<Rightarrow> False
            | Some c \<Rightarrow> av_parse c el = Inr v)))"

definition roundtrip_value :: "factory_state \<Rightarrow> AttributeValue \<Rightarrow> bool" where
  "roundtrip_value st v =
     (case classMap st (class_of v) of
        None \<Rightarrow> False
      | Some c \<Rightarrow>
          (case av_create c v of
             Inl e \<Rightarrow> False
           | Inr el \<Rightarrow> parses_back st v el))"

definition roundtrip_Attribute :: "factory_state \<Rightarrow> Attribute \<Rightarrow> bool" where
  "roundtrip_Attribute st a =
     (list_all (roundtrip_value st) (Attribute_attributeValues a) \<and>
      Attribute_name a \<noteq> Some [] \<and> Attribute_friendlyName a \<noteq> Some [] \<and>
      Attribute_nameFormat a \<noteq> Some [])"

definition roundtrip_AttributeQuery ::
  "'dt IssueInstantXMLObject \<Rightarrow> factory_state \<Rightarrow> 'dt AttributeQuery \<Rightarrow> bool" where
  "roundtrip_AttributeQuery cls st q =
     (AttributeQuery_version q = SAMLVersion_VERSION_20 \<and>
      str2Datetime cls (datetime2Str cls (AttributeQuery_issueInstant q)) =
        Inr (AttributeQuery_issueInstant q) \<and>
      (case AttributeQuery_issuer q of None \<Rightarrow> False | Some i \<Rightarrow> stripped (Issuer_value i)) \<and>
      (case AttributeQuery_subject q of
         None \<Rightarrow> False
       | Some s \<Rightarrow>
           (case Subject_nameID s of None \<Rightarrow> False | Some n \<Rightarrow> stripped (NameID_value n))) \<and>
      list_all (roundtrip_Attribute st) (AttributeQuery_attributes q))"

definition roundtrip_Response :: "'dt IssueInstantXMLObject \<Rightarrow> 'dt Response \<Rightarrow> bool" where
  "roundtrip_Response cls r =
     (Response_version r = SAMLVersion_VERSION_20 \<and>
      str2Datetime cls (datetime2Str cls (Response_issueInstant r)) =
        Inr (Response_issueInstant r) \<and>
      (case Response_issuer r of None \<Rightarrow> False | Some i \<Rightarrow> stripped (Issuer_value i)) \<and>
      (case Response_status r of
         None \<Rightarrow> False
       | Some s \<Rightarrow>
           (case Status_statusCode s of None \<Rightarrow> False | Some c \<Rightarrow> stripped (StatusCode_value c)) \<and>
           Status_statusMessage s = None) \<and>
      Response_subject r = None \<and> Response_assertions r = [])"

text \<open>
  The element \<^verbatim>\<open>AssertionElementTree.create\<close> has built when it reaches the loop over
  the attribute statements, or the exception it has raised before: the part of the
  function that does not touch the factory.
\<close>

definition Assertion_head :: "'dt IssueInstantXMLObject \<Rightarrow> 'dt Assertion \<Rightarrow> error + Element" where
  "Assertion_head cls assertion =
     fst (AssertionElementTree_create cls no_kw
            (assertion\<lparr>Assertion_attributeStatements := []\<rparr>) initial_factory_state)"

section \<open>Basic facts\<close>

declare str_of_nat.simps [simp del]

lemma getLocalPart_QName_str:
  "CHR ''}'' \<notin> set l \<Longrightarrow> getLocalPart (QName_str (ns, l)) = l"
proof -
  assume l: "CHR ''}'' \<notin> set l"
  have "takeWhile (\<lambda>c. c \<noteq> CHR ''}'') (rev l @ ys) =
          rev l @ takeWhile (\<lambda>c. c \<noteq> CHR ''}'') ys" for ys
    by (rule takeWhile_append2) (use l in auto)
  then show ?thesis
    by (simp add: getLocalPart_def QName_str_def)
qed

lemmas local_names =
  Issuer_DEFAULT_ELEMENT_LOCAL_NAME_def NameID_DEFAULT_ELEMENT_LOCAL_NAME_def
  Subject_DEFAULT_ELEMENT_LOCAL_NAME_def StatusCode_DEFAULT_ELEMENT_LOCAL_NAME_def
  Status_DEFAULT_ELEMENT_LOCAL_NAME_def AttributeValue_DEFAULT_ELEMENT_LOCAL_NAME_def
  Attribute_DEFAULT_ELEMENT_LOCAL_NAME_def AttributeStatement_DEFAULT_ELEMENT_LOCAL_NAME_def
  Conditions_DEFAULT_ELEMENT_LOCAL_NAME_def Assertion_DEFAULT_ELEMENT_LOCAL_NAME_def
  AttributeQuery_DEFAULT_ELEMENT_LOCAL_NAME_def Response_DEFAULT_ELEMENT_LOCAL_NAME_def

lemmas element_names =
  Issuer_DEFAULT_ELEMENT_NAME_def NameID_DEFAULT_ELEMENT_NAME_def
  Subject_DEFAULT_ELEMENT_NAME_def StatusCode_DEFAULT_ELEMENT_NAME_def
  Status_DEFAULT_ELEMENT_NAME_def AttributeValue_DEFAULT_ELEMENT_NAME_def
  Attribute_DEFAULT_ELEMENT_NAME_def AttributeStatement_DEFAULT_ELEMENT_NAME_def
  Conditions_DEFAULT_ELEMENT_NAME_def Assertion_DEFAULT_ELEMENT_NAME_def
  AttributeQuery_DEFAULT_ELEMENT_NAME_def Response_DEFAULT_ELEMENT_NAME_def

lemmas attrib_names =
  Issuer_FORMAT_ATTRIB_NAME_def NameID_FORMAT_ATTRIB_NAME_def
  Attribute_NAME_ATTRIB_NAME_def Attribute_FRIENDLY_NAME_ATTRIB_NAME_def
  Attribute_NAME_FORMAT_ATTRIB_NAME_def Conditions_NOT_BEFORE_ATTRIB_NAME_def
  Conditions_NOT_ON_OR_AFTER_ATTRIB_NAME_def ID_ATTRIB_NAME_def
  ISSUE_INSTANT_ATTRIB_NAME_def VERSION_ATTRIB_NAME_def IN_RESPONSE_TO_ATTRIB_NAME_def

lemma local_part_of_names:
  "getLocalPart (QName_str Issuer_DEFAULT_ELEMENT_NAME) = Issuer_DEFAULT_ELEMENT_LOCAL_NAME"
  "getLocalPart (QName_str NameID_DEFAULT_ELEMENT_NAME) = NameID_DEFAULT_ELEMENT_LOCAL_NAME"
  "getLocalPart (QName_str Subject_DEFAULT_ELEMENT_NAME) = Subject_DEFAULT_ELEMENT_LOCAL_NAME"
  "getLocalPart (QName_str StatusCode_DEFAULT_ELEMENT_NAME) = StatusCode_DEFAULT_ELEMENT_LOCAL_NAME"
  "getLocalPart (QName_str Status_DEFAULT_ELEMENT_NAME) = Status_DEFAULT_ELEMENT_LOCAL_NAME"
  "getLocalPart (QName_str AttributeValue_DEFAULT_ELEMENT_NAME) =
     AttributeValue_DEFAULT_ELEMENT_LOCAL_NAME"
  "getLocalPart (QName_str Attribute_DEFAULT_ELEMENT_NAME) = Attribute_DEFAULT_ELEMENT_LOCAL_NAME"
  "getLocalPart (QName_str AttributeQuery_DEFAULT_ELEMENT_NAME) =
     AttributeQuery_DEFAULT_ELEMENT_LOCAL_NAME"
  "getLocalPart (QName_str Response_DEFAULT_ELEMENT_NAME) = Response_DEFAULT_ELEMENT_LOCAL_NAME"
  "getLocalPart (QName_str Assertion_DEFAULT_ELEMENT_NAME) = Assertion_DEFAULT_ELEMENT_LOCAL_NAME"
  by (simp_all add: element_names getLocalPart_QName_str local_names)

section \<open>Subject and Status: exactly one child\<close>

lemma Subject_parse_cardinality:
  "length (elem_children e) \<noteq> 1 \<Longrightarrow> SubjectElementTree_parse e = Inl XMLObjectParseError"
  by (simp add: SubjectElementTree_parse_def)

lemma Status_parse_cardinality:
  "length (elem_children e) \<noteq> 1 \<Longrightarrow> StatusElementTree_parse e = Inl XMLObjectParseError"
  by (simp add: StatusElementTree_parse_def)

lemma Subject_parse_single:
  "getLocalPart (elem_tag e) = Subject_DEFAULT_ELEMENT_LOCAL_NAME \<Longrightarrow> elem_children e = [c] \<Longrightarrow>
   SubjectElementTree_parse e =
     map_sum id (\<lambda>n. \<lparr>Subject_nameID = Some n\<rparr>) (NameIdElementTree_parse c)"
  by (simp add: SubjectElementTree_parse_def split: sum.splits)

lemma Status_parse_single:
  "getLocalPart (elem_tag e) = Status_DEFAULT_ELEMENT_LOCAL_NAME \<Longrightarrow> elem_children e = [c] \<Longrightarrow>
   StatusElementTree_parse e =
     map_sum id (\<lambda>sc. \<lparr>Status_statusCode = Some sc, Status_statusMessage = None\<rparr>)
       (StatusCodeElementTree_parse c)"
  by (simp add: StatusElementTree_parse_def split: sum.splits)

lemma Subject_parse_NameID:
  assumes "getLocalPart (elem_tag e) = Subject_DEFAULT_ELEMENT_LOCAL_NAME" and "elem_children e = [c]"
    and "getLocalPart (elem_tag c) = NameID_DEFAULT_ELEMENT_LOCAL_NAME"
    and "map_of (elem_attrib c) NameID_FORMAT_ATTRIB_NAME = Some f" and "elem_text c = Some t"
  shows "SubjectElementTree_parse e =
           Inr \<lparr>Subject_nameID = Some \<lparr>NameID_format = f, NameID_value = strip t\<rparr>\<rparr>"
  using assms by (simp add: Subject_parse_single NameIdElementTree_parse_def)

lemma Subject_parse_not_NameID:
  assumes "elem_children e = [c]"
    and "getLocalPart (elem_tag c) \<noteq> NameID_DEFAULT_ELEMENT_LOCAL_NAME \<or>
         map_of (elem_attrib c) NameID_FORMAT_ATTRIB_NAME = None"
  shows "SubjectElementTree_parse e = Inl XMLObjectParseError"
  using assms by (auto simp: SubjectElementTree_parse_def NameIdElementTree_parse_def)

lemma Status_parse_StatusCode:
  assumes "getLocalPart (elem_tag e) = Status_DEFAULT_ELEMENT_LOCAL_NAME" and "elem_children e = [c]"
    and "getLocalPart (elem_tag c) = StatusCode_DEFAULT_ELEMENT_LOCAL_NAME"
    and "elem_text c = Some t"
  shows "StatusElementTree_parse e =
           Inr \<lparr>Status_statusCode = Some \<lparr>StatusCode_value = strip t\<rparr>,
                Status_statusMessage = None\<rparr>"
  using assms by (simp add: Status_parse_single StatusCodeElementTree_parse_def)

lemma Status_parse_not_StatusCode:
  assumes "elem_children e = [c]"
    and "getLocalPart (elem_tag c) \<noteq> StatusCode_DEFAULT_ELEMENT_LOCAL_NAME"
  shows "StatusElementTree_parse e = Inl XMLObjectParseError"
  using assms by (auto simp: StatusElementTree_parse_def StatusCodeElementTree_parse_def)

text \<open>
  Claim C6, as amended. Parsing a Subject element, or a Status element, whose number of
  child elements is not one fails with \<open>XMLObjectParseError\<close>. With exactly one child,
  a Subject element is parsed into the subject whose name identifier has the \<open>Format\<close>
  attribute of the child as its format and the stripped text of the child as its value,
  when the child is a \<open>NameID\<close> element that has a \<open>Format\<close> attribute and a text; when
  the child is not a \<open>NameID\<close> element, or has no \<open>Format\<close> attribute, the parse fails
  with \<open>XMLObjectParseError\<close>. With exactly one child, a Status element is parsed into
  the status whose status code has the stripped text of the child as its value and that
  has no status message, when the child is a \<open>StatusCode\<close> element that has a text; when
  the child is not a \<open>StatusCode\<close> element, the parse fails with \<open>XMLObjectParseError\<close>.
\<close>

theorem Subject_Status_exactly_one_child:
  "(length (elem_children e) \<noteq> 1 \<longrightarrow>
      SubjectElementTree_parse e = Inl XMLObjectParseError \<and>
      StatusElementTree_parse e = Inl XMLObjectParseError) \<and>
   (elem_children e = [c] \<longrightarrow>
      (getLocalPart (elem_tag e) = Subject_DEFAULT_ELEMENT_LOCAL_NAME \<and>
       getLocalPart (elem_tag c) = NameID_DEFAULT_ELEMENT_LOCAL_NAME \<and>
       map_of (elem_attrib c) NameID_FORMAT_ATTRIB_NAME = Some f \<and> elem_text c = Some t \<longrightarrow>
         SubjectElementTree_parse e =
           Inr \<lparr>Subject_nameID = Some \<lparr>NameID_format = f, NameID_value = strip t\<rparr>\<rparr>) \<and>
      (getLocalPart (elem_tag c) \<noteq> NameID_DEFAULT_ELEMENT_LOCAL_NAME \<or>
       map_of (elem_attrib c) NameID_FORMAT_ATTRIB_NAME = None \<longrightarrow>
         SubjectElementTree_parse e = Inl XMLObjectParseError) \<and>
      (getLocalPart (elem_tag e) = Status_DEFAULT_ELEMENT_LOCAL_NAME \<and>
       getLocalPart (elem_tag c) = StatusCode_DEFAULT_ELEMENT_LOCAL_NAME \<and>
       elem_text c = Some t \<longrightarrow>
         StatusElementTree_parse e =
           Inr \<lparr>Status_statusCode = Some \<lparr>StatusCode_value = strip t\<rparr>,
                Status_statusMessage = None\<rparr>) \<and>
      (getLocalPart (elem_tag c) \<noteq> StatusCode_DEFAULT_ELEMENT_LOCAL_NAME \<longrightarrow>
         StatusElementTree_parse e = Inl XMLObjectParseError))"
proof (intro conjI impI)
  assume "length (elem_children e) \<noteq> 1"
  then show "SubjectElementTree_parse e = Inl XMLObjectParseError"
    by (rule Subject_parse_cardinality)
next
  assume "length (elem_children e) \<noteq> 1"
  then show "StatusElementTree_parse e = Inl XMLObjectParseError"
    by (rule Status_parse_cardinality)
next
  assume "elem_children e = [c]"
    and "getLocalPart (elem_tag e) = Subject_DEFAULT_ELEMENT_LOCAL_NAME \<and>
       getLocalPart (elem_tag c) = NameID_DEFAULT_ELEMENT_LOCAL_NAME \<and>
       map_of (elem_attrib c) NameID_FORMAT_ATTRIB_NAME = Some f \<and> elem_text c = Some t"
  then show "SubjectElementTree_parse e =
           Inr \<lparr>Subject_nameID = Some \<lparr>NameID_format = f, NameID_value = strip t\<rparr>\<rparr>"
    by (simp add: Subject_parse_NameID)
next
  assume "elem_children e = [c]"
    and "getLocalPart (elem_tag c) \<noteq> NameID_DEFAULT_ELEMENT_LOCAL_NAME \<or>
       map_of (elem_attrib c) NameID_FORMAT_ATTRIB_NAME = None"
  then show "SubjectElementTree_parse e = Inl XMLObjectParseError"
    by (rule Subject_parse_not_NameID)
next
  assume "elem_children e = [c]"
    and "getLocalPart (elem_tag e) = Status_DEFAULT_ELEMENT_LOCAL_NAME \<and>
       getLocalPart (elem_tag c) = StatusCode_DEFAULT_ELEMENT_LOCAL_NAME \<and>
       elem_text c = Some t"
  then show "StatusElementTree_parse e =
           Inr \<lparr>Status_statusCode = Some \<lparr>StatusCode_value = strip t\<rparr>,
                Status_statusMessage = None\<rparr>"
    by (simp add: Status_parse_StatusCode)
next
  assume "elem_children e = [c]"
    and "getLocalPart (elem_tag c) \<noteq> StatusCode_DEFAULT_ELEMENT_LOCAL_NAME"
  then show "StatusElementTree_parse e = Inl XMLObjectParseError"
    by (rule Status_parse_not_StatusCode)
qed

theorem Subject_Status_exactly_one_child_witness:
  "SubjectElementTree_parse (Element ''{urn:oasis:names:tc:SAML:2.0:assertion}Subject'' [] None []) =
     Inl XMLObjectParseError \<and>
   StatusElementTree_parse
     (Element ''{urn:oasis:names:tc:SAML:2.0:protocol}Status'' [] None
        [Element ''{urn:oasis:names:tc:SAML:2.0:protocol}StatusCode'' [] (Some ''a'') [],
         Element ''{urn:oasis:names:tc:SAML:2.0:protocol}StatusCode'' [] (Some ''b'') []]) =
     Inl XMLObjectParseError \<and>
   SubjectElementTree_parse
     (Element ''{urn:oasis:names:tc:SAML:2.0:assertion}Subject'' [] None
        [Element ''{urn:oasis:names:tc:SAML:2.0:assertion}NameID'' [(''Format'', ''urn:f'')]
           (Some '' alice '') []]) =
     Inr \<lparr>Subject_nameID = Some \<lparr>NameID_format = ''urn:f'', NameID_value = ''alice''\<rparr>\<rparr> \<and>
   SubjectElementTree_parse
     (Element ''{urn:oasis:names:tc:SAML:2.0:assertion}Subject'' [] None
        [Element ''{urn:oasis:names:tc:SAML:2.0:assertion}Issuer'' [(''Format'', ''urn:f'')]
           (Some ''alice'') []]) =
     Inl XMLObjectParseError \<and>
   StatusElementTree_parse
     (Element ''{urn:oasis:names:tc:SAML:2.0:protocol}Status'' [] None
        [Element ''{urn:oasis:names:tc:SAML:2.0:protocol}StatusCode'' [] (Some ''urn:ok '') []]) =
     Inr \<lparr>Status_statusCode = Some \<lparr>StatusCode_value = ''urn:ok''\<rparr>,
          Status_statusMessage = None\<rparr> \<and>
   StatusElementTree_parse
     (Element ''{urn:oasis:names:tc:SAML:2.0:protocol}Status'' [] None
        [Element ''{urn:oasis:names:tc:SAML:2.0:protocol}StatusMessage'' [] (Some ''fine'') []]) =
     Inl XMLObjectParseError"
  using
    Subject_Status_exactly_one_child [of "Element ''{urn:oasis:names:tc:SAML:2.0:assertion}Subject'' [] None []"]
    Subject_Status_exactly_one_child [of "Element ''{urn:oasis:names:tc:SAML:2.0:protocol}Status'' [] None
        [Element ''{urn:oasis:names:tc:SAML:2.0:protocol}StatusCode'' [] (Some ''a'') [],
         Element ''{urn:oasis:names:tc:SAML:2.0:protocol}StatusCode'' [] (Some ''b'') []]"]
    Subject_Status_exactly_one_child [of "Element ''{urn:oasis:names:tc:SAML:2.0:assertion}Subject'' [] None
        [Element ''{urn:oasis:names:tc:SAML:2.0:assertion}NameID'' [(''Format'', ''urn:f'')]
           (Some '' alice '') []]"
        "Element ''{urn:oasis:names:tc:SAML:2.0:assertion}NameID'' [(''Format'', ''urn:f'')]
           (Some '' alice '') []" "''urn:f''" "'' alice ''"]
    Subject_Status_exactly_one_child [of "Element ''{urn:oasis:names:tc:SAML:2.0:assertion}Subject'' [] None
        [Element ''{urn:oasis:names:tc:SAML:2.0:assertion}Issuer'' [(''Format'', ''urn:f'')]
           (Some ''alice'') []]"
        "Element ''{urn:oasis:names:tc:SAML:2.0:assertion}Issuer'' [(''Format'', ''urn:f'')]
           (Some ''alice'') []"]
    Subject_Status_exactly_one_child [of "Element ''{urn:oasis:names:tc:SAML:2.0:protocol}Status'' [] None
        [Element ''{urn:oasis:names:tc:SAML:2.0:protocol}StatusCode'' [] (Some ''urn:ok '') []]"
        "Element ''{urn:oasis:names:tc:SAML:2.0:protocol}StatusCode'' [] (Some ''urn:ok '') []"
        _ "''urn:ok ''"]
    Subject_Status_exactly_one_child [of "Element ''{urn:oasis:names:tc:SAML:2.0:protocol}Status'' [] None
        [Element ''{urn:oasis:names:tc:SAML:2.0:protocol}StatusMessage'' [] (Some ''fine'') []]"
        "Element ''{urn:oasis:names:tc:SAML:2.0:protocol}StatusMessage'' [] (Some ''fine'') []"]
  by (simp add: getLocalPart_def local_names attrib_names strip_def isspace_def)

theorem Subject_with_unreadable_child_counterexample:
  "length (elem_children
     (Element ''{urn:oasis:names:tc:SAML:2.0:assertion}Subject'' [] None
        [Element ''{urn:oasis:names:tc:SAML:2.0:assertion}NameID'' [] (Some ''alice'') []])) = 1 \<and>
   SubjectElementTree_parse
     (Element ''{urn:oasis:names:tc:SAML:2.0:assertion}Subject'' [] None
        [Element ''{urn:oasis:names:tc:SAML:2.0:assertion}NameID'' [] (Some ''alice'') []]) =
     Inl XMLObjectParseError"
  by (simp add: SubjectElementTree_parse_def getLocalPart_def local_names attrib_names
      NameIdElementTree_parse_def)

section \<open>Responses that carry assertions\<close>

lemma Response_parse_children_append:
  "Response_parse_children (pre @ rest) r =
     (case Response_parse_children pre r of
        Inl e \<Rightarrow> Inl e
      | Inr r' \<Rightarrow> Response_parse_children rest r')"
  by (induction pre arbitrary: r) (simp_all add: Let_def split: sum.splits)

lemma Response_parse_children_unrecognised:
  "getLocalPart (elem_tag c) \<notin> {Issuer_DEFAULT_ELEMENT_LOCAL_NAME, Status_DEFAULT_ELEMENT_LOCAL_NAME,
      Subject_DEFAULT_ELEMENT_LOCAL_NAME, Assertion_DEFAULT_ELEMENT_LOCAL_NAME} \<Longrightarrow>
   Response_parse_children (c # post) r = Inl XMLObjectParseError"
  by (simp add: Let_def)

lemma Response_parse_children_Assertion:
  "getLocalPart (elem_tag c) = Assertion_DEFAULT_ELEMENT_LOCAL_NAME \<Longrightarrow>
   Response_parse_children (c # post) r = Inl AttributeError"
  by (simp add: Let_def AssertionElementTree_parse_def local_names)

lemma Response_parse_children_fails_at:
  assumes "\<And>r' :: 'dt Response. \<exists>err. Response_parse_children (c # post) r' = Inl err"
  shows "\<exists>err. Response_parse_children (pre @ c # post) (r :: 'dt Response) = Inl err"
proof (cases "Response_parse_children pre r")
  case (Inl e)
  then show ?thesis
    by (simp only: Response_parse_children_append sum.case) blast
next
  case (Inr r')
  then show ?thesis
    using assms by (simp only: Response_parse_children_append sum.case)
qed

lemma Response_parse_children_fails:
  assumes "\<exists>c\<in>set cs. getLocalPart (elem_tag c) \<notin>
             {Issuer_DEFAULT_ELEMENT_LOCAL_NAME, Status_DEFAULT_ELEMENT_LOCAL_NAME,
              Subject_DEFAULT_ELEMENT_LOCAL_NAME}"
  shows "\<exists>err. Response_parse_children cs (r :: 'dt Response) = Inl err"
proof -
  from assms obtain c where c: "c \<in> set cs"
    "getLocalPart (elem_tag c) \<notin> {Issuer_DEFAULT_ELEMENT_LOCAL_NAME,
       Status_DEFAULT_ELEMENT_LOCAL_NAME, Subject_DEFAULT_ELEMENT_LOCAL_NAME}"
    by blast
  from c(1) obtain pre post where cs: "cs = pre @ c # post"
    by (auto simp: in_set_conv_decomp)
  have "\<exists>err. Response_parse_children (c # post) r' = Inl err" for r' :: "'dt Response"
  proof (cases "getLocalPart (elem_tag c) = Assertion_DEFAULT_ELEMENT_LOCAL_NAME")
    case True
    then show ?thesis by (blast intro: Response_parse_children_Assertion)
  next
    case False
    with c(2) have "Response_parse_children (c # post) r' = Inl XMLObjectParseError"
      by (intro Response_parse_children_unrecognised) simp
    then show ?thesis by blast
  qed
  then show ?thesis
    unfolding cs by (rule Response_parse_children_fails_at)
qed

lemma ResponseElementTree_parse_Inr_children:
  assumes "ResponseElementTree_parse cls e = Inr r"
  obtains r0 where "Response_parse_children (elem_children e) r0 = Inr r"
  using assms
  by (auto simp: ResponseElementTree_parse_def split: if_splits option.splits sum.splits)

lemma ResponseElementTree_parse_child_fails:
  assumes "\<exists>c\<in>set (elem_children e). getLocalPart (elem_tag c) \<notin>
             {Issuer_DEFAULT_ELEMENT_LOCAL_NAME, Status_DEFAULT_ELEMENT_LOCAL_NAME,
              Subject_DEFAULT_ELEMENT_LOCAL_NAME}"
  shows "\<exists>err. ResponseElementTree_parse cls e = Inl err"
proof (cases "ResponseElementTree_parse cls e")
  case (Inl err)
  then show ?thesis by blast
next
  case (Inr r)
  then obtain r0 where "Response_parse_children (elem_children e) r0 = Inr r"
    by (rule ResponseElementTree_parse_Inr_children)
  with Response_parse_children_fails[OF assms, of r0] show ?thesis by simp
qed

text \<open>
  Claim C9. A Response element with at least one child whose local name is
  \<open>Assertion\<close> is never parsed: \<open>ResponseElementTree_parse\<close> returns an error, whatever
  the other attributes and children are, because the assertion binding has no parse.
\<close>

theorem Response_with_Assertion_never_parses:
  assumes "\<exists>c\<in>set (elem_children e).
             getLocalPart (elem_tag c) = Assertion_DEFAULT_ELEMENT_LOCAL_NAME"
  shows "\<exists>err. ResponseElementTree_parse cls e = Inl err"
proof (rule ResponseElementTree_parse_child_fails)
  from assms show "\<exists>c\<in>set (elem_children e). getLocalPart (elem_tag c) \<notin>
             {Issuer_DEFAULT_ELEMENT_LOCAL_NAME, Status_DEFAULT_ELEMENT_LOCAL_NAME,
              Subject_DEFAULT_ELEMENT_LOCAL_NAME}"
    by (force simp: local_names)
qed

lemma SAMLVersion_valueOf_20: "SAMLVersion_valueOf ''2.0'' = Inr SAMLVersion_VERSION_20"
  by (simp add: SAMLVersion_valueOf_def int_of_str_def isdigit_def SAMLVersion_VERSION_20_def)

lemma SAMLVersion_valueOf_11: "SAMLVersion_valueOf ''1.1'' = Inr SAMLVersion_VERSION_11"
  by (simp add: SAMLVersion_valueOf_def int_of_str_def isdigit_def SAMLVersion_VERSION_11_def)

lemma SAMLVersion_str_20: "SAMLVersion_str SAMLVersion_VERSION_20 = ''2.0''"
  by code_simp

theorem Response_with_Assertion_never_parses_witness:
  "(\<exists>c\<in>set (elem_children
       (Element ''{urn:oasis:names:tc:SAML:2.0:protocol}Response''
          [(''ID'', ''r1''), (''IssueInstant'', ''0''), (''InResponseTo'', ''q1''), (''Version'', ''2.0'')]
          None
          [Element ''{urn:oasis:names:tc:SAML:2.0:assertion}Issuer'' [(''Format'', ''urn:f'')]
             (Some ''issuer'') [],
           Element ''{urn:oasis:names:tc:SAML:2.0:assertion}Assertion''
             [(''ID'', ''a1''), (''IssueInstant'', ''0''), (''Version'', ''2.0'')] None []])).
       getLocalPart (elem_tag c) = Assertion_DEFAULT_ELEMENT_LOCAL_NAME) \<and>
   ResponseElementTree_parse example_IssueInstantXMLObject
     (Element ''{urn:oasis:names:tc:SAML:2.0:protocol}Response''
        [(''ID'', ''r1''), (''IssueInstant'', ''0''), (''InResponseTo'', ''q1''), (''Version'', ''2.0'')]
        None
        [Element ''{urn:oasis:names:tc:SAML:2.0:assertion}Issuer'' [(''Format'', ''urn:f'')]
           (Some ''issuer'') [],
         Element ''{urn:oasis:names:tc:SAML:2.0:assertion}Assertion''
           [(''ID'', ''a1''), (''IssueInstant'', ''0''), (''Version'', ''2.0'')] None []]) =
     Inl AttributeError"
  using Response_with_Assertion_never_parses
    [of "Element ''{urn:oasis:names:tc:SAML:2.0:protocol}Response''
          [(''ID'', ''r1''), (''IssueInstant'', ''0''), (''InResponseTo'', ''q1''), (''Version'', ''2.0'')]
          None
          [Element ''{urn:oasis:names:tc:SAML:2.0:assertion}Issuer'' [(''Format'', ''urn:f'')]
             (Some ''issuer'') [],
           Element ''{urn:oasis:names:tc:SAML:2.0:assertion}Assertion''
             [(''ID'', ''a1''), (''IssueInstant'', ''0''), (''Version'', ''2.0'')] None []]"
        example_IssueInstantXMLObject]
  by (simp add: ResponseElementTree_parse_def getLocalPart_def local_names attrib_names
      SAMLVersion_valueOf_20 example_IssueInstantXMLObject_def int_of_str_def isdigit_def
      Let_def IssuerElementTree_parse_def AssertionElementTree_parse_def strip_def isspace_def)

section \<open>The order of the checks of the query and response parsers\<close>

lemma ResponseElementTree_parse_missing_attribute:
  assumes "map_of (elem_attrib e) VERSION_ATTRIB_NAME = None \<or>
           map_of (elem_attrib e) ISSUE_INSTANT_ATTRIB_NAME = None \<or>
           map_of (elem_attrib e) ID_ATTRIB_NAME = None \<or>
           map_of (elem_attrib e) IN_RESPONSE_TO_ATTRIB_NAME = None"
  shows "ResponseElementTree_parse cls e = Inl XMLObjectParseError"
  using assms by (auto simp: ResponseElementTree_parse_def split: option.splits)

lemma ResponseElementTree_parse_version:
  assumes "getLocalPart (elem_tag e) = Response_DEFAULT_ELEMENT_LOCAL_NAME"
    and "map_of (elem_attrib e) VERSION_ATTRIB_NAME = Some v"
    and "map_of (elem_attrib e) ISSUE_INSTANT_ATTRIB_NAME \<noteq> None"
    and "map_of (elem_attrib e) ID_ATTRIB_NAME \<noteq> None"
    and "map_of (elem_attrib e) IN_RESPONSE_TO_ATTRIB_NAME \<noteq> None"
    and "SAMLVersion_valueOf v = Inr version"
    and "version \<noteq> SAMLVersion_VERSION_20"
  shows "ResponseElementTree_parse cls e = Inl NotImplementedError"
  using assms by (auto simp: ResponseElementTree_parse_def split: option.splits)

lemma AttributeQueryElementTree_parse_missing_attribute:
  assumes "map_of (elem_attrib e) VERSION_ATTRIB_NAME = None \<or>
           map_of (elem_attrib e) ISSUE_INSTANT_ATTRIB_NAME = None \<or>
           map_of (elem_attrib e) ID_ATTRIB_NAME = None"
  shows "AttributeQueryElementTree_parse cls e st = (Inl XMLObjectParseError, st)"
  using assms by (auto simp: AttributeQueryElementTree_parse_def split: option.splits)

lemma AttributeQueryElementTree_parse_version:
  assumes "getLocalPart (elem_tag e) = AttributeQuery_DEFAULT_ELEMENT_LOCAL_NAME"
    and "map_of (elem_attrib e) VERSION_ATTRIB_NAME = Some v"
    and "map_of (elem_attrib e) ISSUE_INSTANT_ATTRIB_NAME \<noteq> None"
    and "map_of (elem_attrib e) ID_ATTRIB_NAME \<noteq> None"
    and "SAMLVersion_valueOf v = Inr version"
    and "version \<noteq> SAMLVersion_VERSION_20"
  shows "AttributeQueryElementTree_parse cls e st = (Inl NotImplementedError, st)"
  using assms by (auto simp: AttributeQueryElementTree_parse_def split: option.splits)

text \<open>
  Claim C4, as amended. A Response element (local name \<open>Response\<close>) that carries the four
  attributes \<open>Version\<close>, \<open>IssueInstant\<close>, \<open>ID\<close> and \<open>InResponseTo\<close> and whose \<open>Version\<close>
  denotes a version other than 2.0 is rejected with \<open>NotImplementedError\<close>, the
  version error of the code (it is not an \<open>XMLObjectParseError\<close>), whatever the
  \<open>IssueInstant\<close> string and the children are: the version is checked before the issue
  instant is converted and before any child is parsed. The check follows the presence
  check of the four attributes: when one of them is missing the parse fails with
  \<open>XMLObjectParseError\<close>, whatever the version. The attribute query parser does the
  same with its three attributes.
\<close>

theorem version_check_after_attribute_presence:
  "(getLocalPart (elem_tag e) = Response_DEFAULT_ELEMENT_LOCAL_NAME \<and>
    map_of (elem_attrib e) VERSION_ATTRIB_NAME = Some v \<and>
    map_of (elem_attrib e) ISSUE_INSTANT_ATTRIB_NAME \<noteq> None \<and>
    map_of (elem_attrib e) ID_ATTRIB_NAME \<noteq> None \<and>
    map_of (elem_attrib e) IN_RESPONSE_TO_ATTRIB_NAME \<noteq> None \<and>
    SAMLVersion_valueOf v = Inr version \<and> version \<noteq> SAMLVersion_VERSION_20 \<longrightarrow>
      ResponseElementTree_parse cls e = Inl NotImplementedError) \<and>
   (map_of (elem_attrib e) VERSION_ATTRIB_NAME = None \<or>
    map_of (elem_attrib e) ISSUE_INSTANT_ATTRIB_NAME = None \<or>
    map_of (elem_attrib e) ID_ATTRIB_NAME = None \<or>
    map_of (elem_attrib e) IN_RESPONSE_TO_ATTRIB_NAME = None \<longrightarrow>
      ResponseElementTree_parse cls e = Inl XMLObjectParseError) \<and>
   (getLocalPart (elem_tag e) = AttributeQuery_DEFAULT_ELEMENT_LOCAL_NAME \<and>
    map_of (elem_attrib e) VERSION_ATTRIB_NAME = Some v \<and>
    map_of (elem_attrib e) ISSUE_INSTANT_ATTRIB_NAME \<noteq> None \<and>
    map_of (elem_attrib e) ID_ATTRIB_NAME \<noteq> None \<and>
    SAMLVersion_valueOf v = Inr version \<and> version \<noteq> SAMLVersion_VERSION_20 \<longrightarrow>
      AttributeQueryElementTree_parse cls e st = (Inl NotImplementedError, st)) \<and>
   (map_of (elem_attrib e) VERSION_ATTRIB_NAME = None \<or>
    map_of (elem_attrib e) ISSUE_INSTANT_ATTRIB_NAME = None \<or>
    map_of (elem_attrib e) ID_ATTRIB_NAME = None \<longrightarrow>
      AttributeQueryElementTree_parse cls e st = (Inl XMLObjectParseError, st))"
  using ResponseElementTree_parse_version [of e v version cls]
    ResponseElementTree_parse_missing_attribute [of e cls]
    AttributeQueryElementTree_parse_version [of e v version cls st]
    AttributeQueryElementTree_parse_missing_attribute [of e cls st]
  by blast

theorem version_check_after_attribute_presence_witness:
  "SAMLVersion_valueOf ''1.1'' = Inr SAMLVersion_VERSION_11 \<and>
   SAMLVersion_VERSION_11 \<noteq> SAMLVersion_VERSION_20 \<and>
   ResponseElementTree_parse example_IssueInstantXMLObject
     (Element ''{urn:oasis:names:tc:SAML:2.0:protocol}Response''
        [(''ID'', ''r1''), (''IssueInstant'', ''not a date''), (''InResponseTo'', ''q1''),
         (''Version'', ''1.1'')] None
        [Element ''{urn:oasis:names:tc:SAML:2.0:assertion}Bogus'' [] None []]) =
     Inl NotImplementedError \<and>
   ResponseElementTree_parse example_IssueInstantXMLObject
     (Element ''{urn:oasis:names:tc:SAML:2.0:protocol}Response''
        [(''ID'', ''r1''), (''IssueInstant'', ''0''), (''Version'', ''2.0'')] None []) =
     Inl XMLObjectParseError \<and>
   fst (AttributeQueryElementTree_parse example_IssueInstantXMLObject
     (Element ''{urn:oasis:names:tc:SAML:2.0:protocol}AttributeQuery''
        [(''ID'', ''q1''), (''IssueInstant'', ''not a date''), (''Version'', ''1.1'')] None [])
     initial_factory_state) = Inl NotImplementedError \<and>
   fst (AttributeQueryElementTree_parse example_IssueInstantXMLObject
     (Element ''{urn:oasis:names:tc:SAML:2.0:protocol}AttributeQuery''
        [(''IssueInstant'', ''0''), (''Version'', ''2.0'')] None [])
     initial_factory_state) = Inl XMLObjectParseError"
  using
    version_check_after_attribute_presence
      [of "Element ''{urn:oasis:names:tc:SAML:2.0:protocol}Response''
        [(''ID'', ''r1''), (''IssueInstant'', ''not a date''), (''InResponseTo'', ''q1''),
         (''Version'', ''1.1'')] None
        [Element ''{urn:oasis:names:tc:SAML:2.0:assertion}Bogus'' [] None []]"
        "''1.1''" SAMLVersion_VERSION_11 example_IssueInstantXMLObject initial_factory_state]
    version_check_after_attribute_presence
      [of "Element ''{urn:oasis:names:tc:SAML:2.0:protocol}Response''
        [(''ID'', ''r1''), (''IssueInstant'', ''0''), (''Version'', ''2.0'')] None []"
        "''2.0''" SAMLVersion_VERSION_20 example_IssueInstantXMLObject initial_factory_state]
    version_check_after_attribute_presence
      [of "Element ''{urn:oasis:names:tc:SAML:2.0:protocol}AttributeQuery''
        [(''ID'', ''q1''), (''IssueInstant'', ''not a date''), (''Version'', ''1.1'')] None []"
        "''1.1''" SAMLVersion_VERSION_11 example_IssueInstantXMLObject initial_factory_state]
    version_check_after_attribute_presence
      [of "Element ''{urn:oasis:names:tc:SAML:2.0:protocol}AttributeQuery''
        [(''IssueInstant'', ''0''), (''Version'', ''2.0'')] None []"
        "''2.0''" SAMLVersion_VERSION_20 example_IssueInstantXMLObject initial_factory_state]
  by (simp add: SAMLVersion_valueOf_11 SAMLVersion_VERSION_11_def SAMLVersion_VERSION_20_def
      getLocalPart_def local_names attrib_names)

theorem version_error_is_not_first_counterexample:
  "ResponseElementTree_parse example_IssueInstantXMLObject
     (Element ''{urn:oasis:names:tc:SAML:2.0:protocol}Response''
        [(''IssueInstant'', ''0''), (''InResponseTo'', ''q1''), (''Version'', ''1.1'')] None []) =
     Inl XMLObjectParseError \<and>
   ResponseElementTree_parse example_IssueInstantXMLObject
     (Element ''{urn:oasis:names:tc:SAML:2.0:protocol}Response''
        [(''IssueInstant'', ''0''), (''InResponseTo'', ''q1''), (''Version'', ''1.1'')] None []) \<noteq>
     Inl NotImplementedError"
  by (simp add: ResponseElementTree_parse_def getLocalPart_def local_names attrib_names)

section \<open>Strict rejection of unrecognised children and missing attributes\<close>

lemma IssuerElementTree_parse_no_Format:
  "map_of (elem_attrib e) Issuer_FORMAT_ATTRIB_NAME = None \<Longrightarrow>
   IssuerElementTree_parse e = Inl XMLObjectParseError"
  by (simp add: IssuerElementTree_parse_def)

lemma NameIdElementTree_parse_no_Format:
  "map_of (elem_attrib e) NameID_FORMAT_ATTRIB_NAME = None \<Longrightarrow>
   NameIdElementTree_parse e = Inl XMLObjectParseError"
  by (simp add: NameIdElementTree_parse_def)

lemma AttributeQuery_parse_children_append:
  "AttributeQuery_parse_children (pre @ rest) q st =
     (case AttributeQuery_parse_children pre q st of
        (Inl e, st') \<Rightarrow> (Inl e, st')
      | (Inr q', st') \<Rightarrow> AttributeQuery_parse_children rest q' st')"
  by (induction pre arbitrary: q st) (simp_all add: Let_def split: sum.splits prod.splits)

lemma AttributeQuery_parse_children_unrecognised:
  "getLocalPart (elem_tag c) \<notin> {Issuer_DEFAULT_ELEMENT_LOCAL_NAME,
      Subject_DEFAULT_ELEMENT_LOCAL_NAME, Attribute_DEFAULT_ELEMENT_LOCAL_NAME} \<Longrightarrow>
   AttributeQuery_parse_children (c # post) q st = (Inl XMLObjectParseError, st)"
  by (simp add: Let_def)

lemma AttributeQuery_parse_children_fails:
  assumes "\<exists>c\<in>set cs. getLocalPart (elem_tag c) \<notin> {Issuer_DEFAULT_ELEMENT_LOCAL_NAME,
      Subject_DEFAULT_ELEMENT_LOCAL_NAME, Attribute_DEFAULT_ELEMENT_LOCAL_NAME}"
  shows "\<exists>err. fst (AttributeQuery_parse_children cs (q :: 'dt AttributeQuery) st) = Inl err"
proof -
  from assms obtain c where c: "c \<in> set cs"
    "getLocalPart (elem_tag c) \<notin> {Issuer_DEFAULT_ELEMENT_LOCAL_NAME,
      Subject_DEFAULT_ELEMENT_LOCAL_NAME, Attribute_DEFAULT_ELEMENT_LOCAL_NAME}"
    by blast
  from c(1) obtain pre post where cs: "cs = pre @ c # post"
    by (auto simp: in_set_conv_decomp)
  obtain res st' where pre: "AttributeQuery_parse_children pre q st = (res, st')"
    by (cases "AttributeQuery_parse_children pre q st")
  show ?thesis
  proof (cases res)
    case (Inl e)
    with pre show ?thesis
      by (simp only: cs AttributeQuery_parse_children_append sum.case prod.case fst_conv) blast
  next
    case (Inr q')
    have "AttributeQuery_parse_children (c # post) q' st' = (Inl XMLObjectParseError, st')"
      using c(2) by (rule AttributeQuery_parse_children_unrecognised)
    with pre Inr show ?thesis
      by (simp only: cs AttributeQuery_parse_children_append sum.case prod.case fst_conv) blast
  qed
qed

lemma AttributeQueryElementTree_parse_Inr_children:
  assumes "fst (AttributeQueryElementTree_parse cls e st) = Inr q"
  obtains q0 where "fst (AttributeQuery_parse_children (elem_children e) q0 st) = Inr q"
  using assms
  by (auto simp: AttributeQueryElementTree_parse_def split: if_splits option.splits sum.splits)

lemma AttributeQueryElementTree_parse_child_fails:
  assumes "\<exists>c\<in>set (elem_children e). getLocalPart (elem_tag c) \<notin>
             {Issuer_DEFAULT_ELEMENT_LOCAL_NAME, Subject_DEFAULT_ELEMENT_LOCAL_NAME,
              Attribute_DEFAULT_ELEMENT_LOCAL_NAME}"
  shows "\<exists>err. fst (AttributeQueryElementTree_parse cls e st) = Inl err"
proof (cases "fst (AttributeQueryElementTree_parse cls e st)")
  case (Inl err)
  then show ?thesis by blast
next
  case (Inr q)
  then obtain q0 where "fst (AttributeQuery_parse_children (elem_children e) q0 st) = Inr q"
    by (rule AttributeQueryElementTree_parse_Inr_children)
  with AttributeQuery_parse_children_fails[OF assms, of q0 st] show ?thesis by simp
qed

lemma AttributeQueryElementTree_parse_unrecognised_after_prefix:
  assumes "fst (AttributeQueryElementTree_parse cls (Element t a x pre) st) = Inr q"
    and "getLocalPart (elem_tag c) \<notin> {Issuer_DEFAULT_ELEMENT_LOCAL_NAME,
      Subject_DEFAULT_ELEMENT_LOCAL_NAME, Attribute_DEFAULT_ELEMENT_LOCAL_NAME}"
  shows "fst (AttributeQueryElementTree_parse cls (Element t a x (pre @ c # post)) st) =
           Inl XMLObjectParseError"
  using assms
  by (auto simp: AttributeQueryElementTree_parse_def AttributeQuery_parse_children_append Let_def
      split: if_splits option.splits sum.splits prod.splits)

lemma ResponseElementTree_parse_unrecognised_after_prefix:
  assumes "ResponseElementTree_parse cls (Element t a x pre) = Inr r"
    and "getLocalPart (elem_tag c) \<notin> {Issuer_DEFAULT_ELEMENT_LOCAL_NAME,
      Status_DEFAULT_ELEMENT_LOCAL_NAME, Subject_DEFAULT_ELEMENT_LOCAL_NAME,
      Assertion_DEFAULT_ELEMENT_LOCAL_NAME}"
  shows "ResponseElementTree_parse cls (Element t a x (pre @ c # post)) =
           Inl XMLObjectParseError"
  using assms
  by (auto simp: ResponseElementTree_parse_def Response_parse_children_append Let_def
      split: if_splits option.splits sum.splits)

lemma parse_attributeValues_append:
  "parse_attributeValues kw (pre @ rest) at st =
     (case parse_attributeValues kw pre at st of
        (Inl e, st') \<Rightarrow> (Inl e, st')
      | (Inr at', st') \<Rightarrow> parse_attributeValues kw rest at' st')"
  by (induction pre arbitrary: at st)
    (simp_all split: sum.splits prod.splits option.splits)

lemma parse_attributeValues_unrecognised:
  "getLocalPart (elem_tag c) \<noteq> AttributeValue_DEFAULT_ELEMENT_LOCAL_NAME \<or>
   find (\<lambda>(attribName, attribVal). getLocalPart attribName = ''type'') (elem_attrib c) = None \<Longrightarrow>
   parse_attributeValues kw (c # post) at st = (Inl XMLObjectParseError, st)"
  by auto

lemma parse_attributeValues_fails:
  assumes "\<exists>c\<in>set cs.
             getLocalPart (elem_tag c) \<noteq> AttributeValue_DEFAULT_ELEMENT_LOCAL_NAME \<or>
             find (\<lambda>(attribName, attribVal). getLocalPart attribName = ''type'')
               (elem_attrib c) = None"
  shows "\<exists>err. fst (parse_attributeValues kw cs at st) = Inl err"
proof -
  from assms obtain c where c: "c \<in> set cs"
    "getLocalPart (elem_tag c) \<noteq> AttributeValue_DEFAULT_ELEMENT_LOCAL_NAME \<or>
     find (\<lambda>(attribName, attribVal). getLocalPart attribName = ''type'') (elem_attrib c) = None"
    by blast
  from c(1) obtain pre post where cs: "cs = pre @ c # post"
    by (auto simp: in_set_conv_decomp)
  obtain res st' where pre: "parse_attributeValues kw pre at st = (res, st')"
    by (cases "parse_attributeValues kw pre at st")
  show ?thesis
  proof (cases res)
    case (Inl e)
    with pre show ?thesis
      by (simp only: cs parse_attributeValues_append sum.case prod.case fst_conv) blast
  next
    case (Inr at')
    have "parse_attributeValues kw (c # post) at' st' = (Inl XMLObjectParseError, st')"
      using c(2) by (rule parse_attributeValues_unrecognised)
    with pre Inr show ?thesis
      by (simp only: cs parse_attributeValues_append sum.case prod.case fst_conv) blast
  qed
qed

lemma parse_attributeValues_names:
  "parse_attributeValues kw cs at st = (Inr at', st') \<Longrightarrow>
   Attribute_name at' = Attribute_name at \<and>
   Attribute_friendlyName at' = Attribute_friendlyName at \<and>
   Attribute_nameFormat at' = Attribute_nameFormat at"
proof (induction cs arbitrary: at st)
  case Nil
  then show ?case by simp
next
  case (Cons c cs)
  from Cons.prems obtain v s1 where
    "parse_attributeValues kw cs
       (at\<lparr>Attribute_attributeValues := Attribute_attributeValues at @ [v]\<rparr>) s1 = (Inr at', st')"
    by (auto split: if_splits option.splits prod.splits sum.splits)
  from Cons.IH[OF this] show ?case by simp
qed

lemma AttributeElementTree_parse_child_fails:
  assumes "\<exists>c\<in>set (elem_children e).
             getLocalPart (elem_tag c) \<noteq> AttributeValue_DEFAULT_ELEMENT_LOCAL_NAME \<or>
             find (\<lambda>(attribName, attribVal). getLocalPart attribName = ''type'')
               (elem_attrib c) = None"
  shows "\<exists>err. fst (AttributeElementTree_parse kw e st) = Inl err"
proof (cases "getLocalPart (elem_tag e) = Attribute_DEFAULT_ELEMENT_LOCAL_NAME")
  case True
  with parse_attributeValues_fails[OF assms] show ?thesis
    by (simp add: AttributeElementTree_parse_def)
next
  case False
  then show ?thesis
    by (simp add: AttributeElementTree_parse_def)
qed

lemma AttributeElementTree_parse_unrecognised_after_prefix:
  assumes "fst (AttributeElementTree_parse kw (Element t a x pre) st) = Inr at"
    and "getLocalPart (elem_tag c) \<noteq> AttributeValue_DEFAULT_ELEMENT_LOCAL_NAME \<or>
         find (\<lambda>(attribName, attribVal). getLocalPart attribName = ''type'')
           (elem_attrib c) = None"
  shows "fst (AttributeElementTree_parse kw (Element t a x (pre @ c # post)) st) =
           Inl XMLObjectParseError"
proof -
  from assms(1) have tag: "getLocalPart t = Attribute_DEFAULT_ELEMENT_LOCAL_NAME"
    by (auto simp: AttributeElementTree_parse_def split: if_splits)
  define at0 where "at0 =
    \<lparr>Attribute_name = map_of a Attribute_NAME_ATTRIB_NAME,
     Attribute_friendlyName = map_of a Attribute_FRIENDLY_NAME_ATTRIB_NAME,
     Attribute_nameFormat = map_of a Attribute_NAME_FORMAT_ATTRIB_NAME,
     Attribute_attributeValues = []\<rparr>"
  from assms(1) tag obtain st' where
    pre: "parse_attributeValues kw pre at0 st = (Inr at, st')"
    by (cases "parse_attributeValues kw pre at0 st")
      (simp add: AttributeElementTree_parse_def at0_def)
  have "parse_attributeValues kw (c # post) at st' = (Inl XMLObjectParseError, st')"
    using assms(2) by (rule parse_attributeValues_unrecognised)
  with pre have "parse_attributeValues kw (pre @ c # post) at0 st = (Inl XMLObjectParseError, st')"
    by (simp only: parse_attributeValues_append sum.case prod.case)
  with tag show ?thesis
    by (simp add: AttributeElementTree_parse_def at0_def)
qed

lemma AttributeElementTree_parse_names:
  assumes "fst (AttributeElementTree_parse kw e st) = Inr at"
  shows "Attribute_name at = map_of (elem_attrib e) Attribute_NAME_ATTRIB_NAME \<and>
         Attribute_friendlyName at = map_of (elem_attrib e) Attribute_FRIENDLY_NAME_ATTRIB_NAME \<and>
         Attribute_nameFormat at = map_of (elem_attrib e) Attribute_NAME_FORMAT_ATTRIB_NAME"
proof -
  define at0 where "at0 =
    \<lparr>Attribute_name = map_of (elem_attrib e) Attribute_NAME_ATTRIB_NAME,
     Attribute_friendlyName = map_of (elem_attrib e) Attribute_FRIENDLY_NAME_ATTRIB_NAME,
     Attribute_nameFormat = map_of (elem_attrib e) Attribute_NAME_FORMAT_ATTRIB_NAME,
     Attribute_attributeValues = []\<rparr>"
  from assms obtain st' where
    "parse_attributeValues kw (elem_children e) at0 st = (Inr at, st')"
    by (cases "parse_attributeValues kw (elem_children e) at0 st")
      (auto simp: AttributeElementTree_parse_def at0_def split: if_splits)
  from parse_attributeValues_names[OF this] show ?thesis
    by (simp add: at0_def)
qed

lemma Subject_parse_unrecognised:
  assumes "\<exists>c\<in>set (elem_children e).
             getLocalPart (elem_tag c) \<noteq> NameID_DEFAULT_ELEMENT_LOCAL_NAME"
  shows "SubjectElementTree_parse e = Inl XMLObjectParseError"
proof (cases "length (elem_children e) = 1")
  case True
  then obtain c where c: "elem_children e = [c]"
    by (cases "elem_children e") auto
  with assms show ?thesis
    by (simp add: SubjectElementTree_parse_def NameIdElementTree_parse_def)
next
  case False
  then show ?thesis
    by (simp add: SubjectElementTree_parse_def)
qed

lemma Status_parse_unrecognised:
  assumes "\<exists>c\<in>set (elem_children e).
             getLocalPart (elem_tag c) \<noteq> StatusCode_DEFAULT_ELEMENT_LOCAL_NAME"
  shows "StatusElementTree_parse e = Inl XMLObjectParseError"
proof (cases "length (elem_children e) = 1")
  case True
  then obtain c where c: "elem_children e = [c]"
    by (cases "elem_children e") auto
  with assms show ?thesis
    by (simp add: StatusElementTree_parse_def StatusCodeElementTree_parse_def)
next
  case False
  then show ?thesis
    by (simp add: StatusElementTree_parse_def)
qed

lemma XSString_parse_no_type:
  "map_of (elem_attrib e) (QName_str (XSI_NS, ''type'')) = None \<Longrightarrow>
   XSStringAttributeValueElementTree_parse e = Inl XMLObjectParseError"
  by (simp add: XSStringAttributeValueElementTree_parse_def
      XSStringAttributeValue_TYPE_LOCAL_NAME_def)

lemma leaf_parse_ignores_children:
  "IssuerElementTree_parse (Element t a x cs) = IssuerElementTree_parse (Element t a x [])"
  "NameIdElementTree_parse (Element t a x cs) = NameIdElementTree_parse (Element t a x [])"
  "StatusCodeElementTree_parse (Element t a x cs) = StatusCodeElementTree_parse (Element t a x [])"
  "XSStringAttributeValueElementTree_parse (Element t a x cs) =
     XSStringAttributeValueElementTree_parse (Element t a x [])"
  by (simp_all add: IssuerElementTree_parse_def NameIdElementTree_parse_def
      StatusCodeElementTree_parse_def XSStringAttributeValueElementTree_parse_def
      split: option.splits)

text \<open>
  Claim C3, as amended: what each \<^verbatim>\<open>parse\<close> of the bindings does with a child it does not
  recognise and with a missing attribute.

  \<^item> The composite bindings never return an object for an element that has a child they
    do not recognise. A Subject element with a child that is not a \<open>NameID\<close>, and a
    Status element with a child that is not a \<open>StatusCode\<close>, fail with
    \<open>XMLObjectParseError\<close>. An Attribute element with a child that is not an
    \<open>AttributeValue\<close> (or is one without a type attribute), an AttributeQuery element
    with a child other than \<open>Issuer\<close>, \<open>Subject\<close>, \<open>Attribute\<close>, and a Response element
    with a child other than \<open>Issuer\<close>, \<open>Status\<close>, \<open>Subject\<close>, \<open>Assertion\<close> fail; the
    children are parsed in document order and the first failure is the one reported, so
    the error is \<open>XMLObjectParseError\<close> when the element would parse without that child
    and the children after it.
  \<^item> The leaf bindings (Issuer, NameID, StatusCode, string attribute value) do not look
    at child elements: the result is that of the element without its children.
  \<^item> An Issuer or NameID without \<open>Format\<close>, a string attribute value without the
    \<open>xsi:type\<close> attribute, a query or response without \<open>Version\<close>, \<open>IssueInstant\<close>, \<open>ID\<close>
    or, for the response, \<open>InResponseTo\<close> fail with \<open>XMLObjectParseError\<close>. An Attribute
    element needs none of its attributes: the \<open>name\<close>, \<open>friendlyName\<close> and \<open>nameFormat\<close>
    of the attribute it is parsed into are the attributes \<open>Name\<close>, \<open>FriendlyName\<close> and
    \<open>NameFormat\<close> of the element, unset where the element has none.
\<close>

theorem strict_parse_rejection:
  "(map_of (elem_attrib e) Issuer_FORMAT_ATTRIB_NAME = None \<longrightarrow>
      IssuerElementTree_parse e = Inl XMLObjectParseError) \<and>
   (map_of (elem_attrib e) NameID_FORMAT_ATTRIB_NAME = None \<longrightarrow>
      NameIdElementTree_parse e = Inl XMLObjectParseError) \<and>
   (map_of (elem_attrib e) (QName_str (XSI_NS, ''type'')) = None \<longrightarrow>
      XSStringAttributeValueElementTree_parse e = Inl XMLObjectParseError) \<and>
   (map_of (elem_attrib e) VERSION_ATTRIB_NAME = None \<or>
    map_of (elem_attrib e) ISSUE_INSTANT_ATTRIB_NAME = None \<or>
    map_of (elem_attrib e) ID_ATTRIB_NAME = None \<longrightarrow>
      fst (AttributeQueryElementTree_parse cls e st) = Inl XMLObjectParseError) \<and>
   (map_of (elem_attrib e) VERSION_ATTRIB_NAME = None \<or>
    map_of (elem_attrib e) ISSUE_INSTANT_ATTRIB_NAME = None \<or>
    map_of (elem_attrib e) ID_ATTRIB_NAME = None \<or>
    map_of (elem_attrib e) IN_RESPONSE_TO_ATTRIB_NAME = None \<longrightarrow>
      ResponseElementTree_parse cls e = Inl XMLObjectParseError) \<and>
   (fst (AttributeElementTree_parse kw e st) = Inr at \<longrightarrow>
      Attribute_name at = map_of (elem_attrib e) Attribute_NAME_ATTRIB_NAME \<and>
      Attribute_friendlyName at = map_of (elem_attrib e) Attribute_FRIENDLY_NAME_ATTRIB_NAME \<and>
      Attribute_nameFormat at = map_of (elem_attrib e) Attribute_NAME_FORMAT_ATTRIB_NAME) \<and>
   ((\<exists>c\<in>set (elem_children e).
        getLocalPart (elem_tag c) \<noteq> NameID_DEFAULT_ELEMENT_LOCAL_NAME) \<longrightarrow>
      SubjectElementTree_parse e = Inl XMLObjectParseError) \<and>
   ((\<exists>c\<in>set (elem_children e).
        getLocalPart (elem_tag c) \<noteq> StatusCode_DEFAULT_ELEMENT_LOCAL_NAME) \<longrightarrow>
      StatusElementTree_parse e = Inl XMLObjectParseError) \<and>
   ((\<exists>c\<in>set (elem_children e).
        getLocalPart (elem_tag c) \<noteq> AttributeValue_DEFAULT_ELEMENT_LOCAL_NAME \<or>
        find (\<lambda>(attribName, attribVal). getLocalPart attribName = ''type'')
          (elem_attrib c) = None) \<longrightarrow>
      (\<exists>err. fst (AttributeElementTree_parse kw e st) = Inl err)) \<and>
   ((\<exists>c\<in>set (elem_children e). getLocalPart (elem_tag c) \<notin>
        {Issuer_DEFAULT_ELEMENT_LOCAL_NAME, Subject_DEFAULT_ELEMENT_LOCAL_NAME,
         Attribute_DEFAULT_ELEMENT_LOCAL_NAME}) \<longrightarrow>
      (\<exists>err. fst (AttributeQueryElementTree_parse cls e st) = Inl err)) \<and>
   ((\<exists>c\<in>set (elem_children e). getLocalPart (elem_tag c) \<notin>
        {Issuer_DEFAULT_ELEMENT_LOCAL_NAME, Status_DEFAULT_ELEMENT_LOCAL_NAME,
         Subject_DEFAULT_ELEMENT_LOCAL_NAME, Assertion_DEFAULT_ELEMENT_LOCAL_NAME}) \<longrightarrow>
      (\<exists>err. ResponseElementTree_parse cls e = Inl err)) \<and>
   ((getLocalPart (elem_tag c) \<noteq> AttributeValue_DEFAULT_ELEMENT_LOCAL_NAME \<or>
     find (\<lambda>(attribName, attribVal). getLocalPart attribName = ''type'')
       (elem_attrib c) = None) \<and>
    fst (AttributeElementTree_parse kw (Element t a x pre) st) = Inr at \<longrightarrow>
      fst (AttributeElementTree_parse kw (Element t a x (pre @ c # post)) st) =
        Inl XMLObjectParseError) \<and>
   (getLocalPart (elem_tag c) \<notin>
        {Issuer_DEFAULT_ELEMENT_LOCAL_NAME, Subject_DEFAULT_ELEMENT_LOCAL_NAME,
         Attribute_DEFAULT_ELEMENT_LOCAL_NAME} \<and>
    fst (AttributeQueryElementTree_parse cls (Element t a x pre) st) = Inr q \<longrightarrow>
      fst (AttributeQueryElementTree_parse cls (Element t a x (pre @ c # post)) st) =
        Inl XMLObjectParseError) \<and>
   (getLocalPart (elem_tag c) \<notin>
        {Issuer_DEFAULT_ELEMENT_LOCAL_NAME, Status_DEFAULT_ELEMENT_LOCAL_NAME,
         Subject_DEFAULT_ELEMENT_LOCAL_NAME, Assertion_DEFAULT_ELEMENT_LOCAL_NAME} \<and>
    ResponseElementTree_parse cls (Element t a x pre) = Inr r \<longrightarrow>
      ResponseElementTree_parse cls (Element t a x (pre @ c # post)) = Inl XMLObjectParseError) \<and>
   IssuerElementTree_parse (Element t a x pre) = IssuerElementTree_parse (Element t a x []) \<and>
   NameIdElementTree_parse (Element t a x pre) = NameIdElementTree_parse (Element t a x []) \<and>
   StatusCodeElementTree_parse (Element t a x pre) =
     StatusCodeElementTree_parse (Element t a x []) \<and>
   XSStringAttributeValueElementTree_parse (Element t a x pre) =
     XSStringAttributeValueElementTree_parse (Element t a x [])"
proof (intro conjI impI)
  assume "map_of (elem_attrib e) Issuer_FORMAT_ATTRIB_NAME = None"
  then show "IssuerElementTree_parse e = Inl XMLObjectParseError"
    by (rule IssuerElementTree_parse_no_Format)
next
  assume "map_of (elem_attrib e) NameID_FORMAT_ATTRIB_NAME = None"
  then show "NameIdElementTree_parse e = Inl XMLObjectParseError"
    by (rule NameIdElementTree_parse_no_Format)
next
  assume "map_of (elem_attrib e) (QName_str (XSI_NS, ''type'')) = None"
  then show "XSStringAttributeValueElementTree_parse e = Inl XMLObjectParseError"
    by (rule XSString_parse_no_type)
next
  assume "map_of (elem_attrib e) VERSION_ATTRIB_NAME = None \<or>
    map_of (elem_attrib e) ISSUE_INSTANT_ATTRIB_NAME = None \<or>
    map_of (elem_attrib e) ID_ATTRIB_NAME = None"
  then show "fst (AttributeQueryElementTree_parse cls e st) = Inl XMLObjectParseError"
    by (simp add: AttributeQueryElementTree_parse_missing_attribute)
next
  assume "map_of (elem_attrib e) VERSION_ATTRIB_NAME = None \<or>
    map_of (elem_attrib e) ISSUE_INSTANT_ATTRIB_NAME = None \<or>
    map_of (elem_attrib e) ID_ATTRIB_NAME = None \<or>
    map_of (elem_attrib e) IN_RESPONSE_TO_ATTRIB_NAME = None"
  then show "ResponseElementTree_parse cls e = Inl XMLObjectParseError"
    by (rule ResponseElementTree_parse_missing_attribute)
next
  assume "fst (AttributeElementTree_parse kw e st) = Inr at"
  then show "Attribute_name at = map_of (elem_attrib e) Attribute_NAME_ATTRIB_NAME"
    by (simp add: AttributeElementTree_parse_names)
next
  assume "fst (AttributeElementTree_parse kw e st) = Inr at"
  then show "Attribute_friendlyName at =
               map_of (elem_attrib e) Attribute_FRIENDLY_NAME_ATTRIB_NAME"
    by (simp add: AttributeElementTree_parse_names)
next
  assume "fst (AttributeElementTree_parse kw e st) = Inr at"
  then show "Attribute_nameFormat at = map_of (elem_attrib e) Attribute_NAME_FORMAT_ATTRIB_NAME"
    by (simp add: AttributeElementTree_parse_names)
next
  assume "\<exists>c\<in>set (elem_children e).
        getLocalPart (elem_tag c) \<noteq> NameID_DEFAULT_ELEMENT_LOCAL_NAME"
  then show "SubjectElementTree_parse e = Inl XMLObjectParseError"
    by (rule Subject_parse_unrecognised)
next
  assume "\<exists>c\<in>set (elem_children e).
        getLocalPart (elem_tag c) \<noteq> StatusCode_DEFAULT_ELEMENT_LOCAL_NAME"
  then show "StatusElementTree_parse e = Inl XMLObjectParseError"
    by (rule Status_parse_unrecognised)
next
  assume "\<exists>c\<in>set (elem_children e).
        getLocalPart (elem_tag c) \<noteq> AttributeValue_DEFAULT_ELEMENT_LOCAL_NAME \<or>
        find (\<lambda>(attribName, attribVal). getLocalPart attribName = ''type'')
          (elem_attrib c) = None"
  then show "\<exists>err. fst (AttributeElementTree_parse kw e st) = Inl err"
    by (rule AttributeElementTree_parse_child_fails)
next
  assume "\<exists>c\<in>set (elem_children e). getLocalPart (elem_tag c) \<notin>
        {Issuer_DEFAULT_ELEMENT_LOCAL_NAME, Subject_DEFAULT_ELEMENT_LOCAL_NAME,
         Attribute_DEFAULT_ELEMENT_LOCAL_NAME}"
  then show "\<exists>err. fst (AttributeQueryElementTree_parse cls e st) = Inl err"
    by (rule AttributeQueryElementTree_parse_child_fails)
next
  assume "\<exists>c\<in>set (elem_children e). getLocalPart (elem_tag c) \<notin>
        {Issuer_DEFAULT_ELEMENT_LOCAL_NAME, Status_DEFAULT_ELEMENT_LOCAL_NAME,
         Subject_DEFAULT_ELEMENT_LOCAL_NAME, Assertion_DEFAULT_ELEMENT_LOCAL_NAME}"
  then have "\<exists>c\<in>set (elem_children e). getLocalPart (elem_tag c) \<notin>
        {Issuer_DEFAULT_ELEMENT_LOCAL_NAME, Status_DEFAULT_ELEMENT_LOCAL_NAME,
         Subject_DEFAULT_ELEMENT_LOCAL_NAME}"
    by auto
  then show "\<exists>err. ResponseElementTree_parse cls e = Inl err"
    by (rule ResponseElementTree_parse_child_fails)
next
  assume "(getLocalPart (elem_tag c) \<noteq> AttributeValue_DEFAULT_ELEMENT_LOCAL_NAME \<or>
     find (\<lambda>(attribName, attribVal). getLocalPart attribName = ''type'')
       (elem_attrib c) = None) \<and>
    fst (AttributeElementTree_parse kw (Element t a x pre) st) = Inr at"
  then show "fst (AttributeElementTree_parse kw (Element t a x (pre @ c # post)) st) =
        Inl XMLObjectParseError"
    by (blast intro: AttributeElementTree_parse_unrecognised_after_prefix)
next
  assume "getLocalPart (elem_tag c) \<notin>
        {Issuer_DEFAULT_ELEMENT_LOCAL_NAME, Subject_DEFAULT_ELEMENT_LOCAL_NAME,
         Attribute_DEFAULT_ELEMENT_LOCAL_NAME} \<and>
    fst (AttributeQueryElementTree_parse cls (Element t a x pre) st) = Inr q"
  then show "fst (AttributeQueryElementTree_parse cls (Element t a x (pre @ c # post)) st) =
        Inl XMLObjectParseError"
    by (blast intro: AttributeQueryElementTree_parse_unrecognised_after_prefix)
next
  assume "getLocalPart (elem_tag c) \<notin>
        {Issuer_DEFAULT_ELEMENT_LOCAL_NAME, Status_DEFAULT_ELEMENT_LOCAL_NAME,
         Subject_DEFAULT_ELEMENT_LOCAL_NAME, Assertion_DEFAULT_ELEMENT_LOCAL_NAME} \<and>
    ResponseElementTree_parse cls (Element t a x pre) = Inr r"
  then show "ResponseElementTree_parse cls (Element t a x (pre @ c # post)) =
      Inl XMLObjectParseError"
    by (blast intro: ResponseElementTree_parse_unrecognised_after_prefix)
next
  show "IssuerElementTree_parse (Element t a x pre) = IssuerElementTree_parse (Element t a x [])"
    by (rule leaf_parse_ignores_children)
next
  show "NameIdElementTree_parse (Element t a x pre) = NameIdElementTree_parse (Element t a x [])"
    by (rule leaf_parse_ignores_children)
next
  show "StatusCodeElementTree_parse (Element t a x pre) =
          StatusCodeElementTree_parse (Element t a x [])"
    by (rule leaf_parse_ignores_children)
next
  show "XSStringAttributeValueElementTree_parse (Element t a x pre) =
          XSStringAttributeValueElementTree_parse (Element t a x [])"
    by (rule leaf_parse_ignores_children)
qed

theorem strict_parse_rejection_witness:
  "IssuerElementTree_parse
     (Element ''{urn:oasis:names:tc:SAML:2.0:assertion}Issuer'' [] (Some ''issuer'') []) =
     Inl XMLObjectParseError \<and>
   NameIdElementTree_parse
     (Element ''{urn:oasis:names:tc:SAML:2.0:assertion}NameID'' [] (Some ''alice'') []) =
     Inl XMLObjectParseError \<and>
   XSStringAttributeValueElementTree_parse
     (Element ''{urn:oasis:names:tc:SAML:2.0:assertion}AttributeValue'' [] (Some ''admin'') []) =
     Inl XMLObjectParseError \<and>
   fst (AttributeQueryElementTree_parse example_IssueInstantXMLObject
     (Element ''{urn:oasis:names:tc:SAML:2.0:protocol}AttributeQuery''
        [(''ID'', ''q1''), (''Version'', ''2.0'')] None []) initial_factory_state) =
     Inl XMLObjectParseError \<and>
   ResponseElementTree_parse example_IssueInstantXMLObject
     (Element ''{urn:oasis:names:tc:SAML:2.0:protocol}Response''
        [(''ID'', ''r1''), (''IssueInstant'', ''0''), (''Version'', ''2.0'')] None []) =
     Inl XMLObjectParseError \<and>
   SubjectElementTree_parse
     (Element ''{urn:oasis:names:tc:SAML:2.0:assertion}Subject'' [] None
        [Element ''{urn:oasis:names:tc:SAML:2.0:assertion}Bogus'' [] None []]) =
     Inl XMLObjectParseError \<and>
   StatusElementTree_parse
     (Element ''{urn:oasis:names:tc:SAML:2.0:protocol}Status'' [] None
        [Element ''{urn:oasis:names:tc:SAML:2.0:assertion}Bogus'' [] None []]) =
     Inl XMLObjectParseError \<and>
   fst (AttributeElementTree_parse no_kw
     (Element ''{urn:oasis:names:tc:SAML:2.0:assertion}Attribute'' [(''Name'', ''urn:role'')] None
        []) initial_factory_state) =
     Inr \<lparr>Attribute_name = Some ''urn:role'', Attribute_friendlyName = None,
          Attribute_nameFormat = None, Attribute_attributeValues = []\<rparr> \<and>
   fst (AttributeElementTree_parse no_kw
     (Element ''{urn:oasis:names:tc:SAML:2.0:assertion}Attribute'' [(''Name'', ''urn:role'')] None
        [Element ''{urn:oasis:names:tc:SAML:2.0:assertion}Bogus'' [] None []])
     initial_factory_state) = Inl XMLObjectParseError \<and>
   fst (AttributeQueryElementTree_parse example_IssueInstantXMLObject
     (Element ''{urn:oasis:names:tc:SAML:2.0:protocol}AttributeQuery''
        [(''ID'', ''q1''), (''IssueInstant'', ''0''), (''Version'', ''2.0'')] None []) 
     initial_factory_state) =
     Inr \<lparr>AttributeQuery_id = ''q1'', AttributeQuery_issueInstant = 0,
          AttributeQuery_version = SAMLVersion_VERSION_20, AttributeQuery_issuer = None,
          AttributeQuery_subject = None, AttributeQuery_attributes = []\<rparr> \<and>
   fst (AttributeQueryElementTree_parse example_IssueInstantXMLObject
     (Element ''{urn:oasis:names:tc:SAML:2.0:protocol}AttributeQuery''
        [(''ID'', ''q1''), (''IssueInstant'', ''0''), (''Version'', ''2.0'')] None
        [Element ''{urn:oasis:names:tc:SAML:2.0:assertion}Bogus'' [] None []])
     initial_factory_state) = Inl XMLObjectParseError \<and>
   ResponseElementTree_parse example_IssueInstantXMLObject
     (Element ''{urn:oasis:names:tc:SAML:2.0:protocol}Response''
        [(''ID'', ''r1''), (''IssueInstant'', ''0''), (''InResponseTo'', ''q1''),
         (''Version'', ''2.0'')] None []) =
     Inr \<lparr>Response_id = ''r1'', Response_issueInstant = 0,
          Response_version = SAMLVersion_VERSION_20, Response_inResponseTo = ''q1'',
          Response_issuer = None, Response_status = None, Response_subject = None,
          Response_assertions = []\<rparr> \<and>
   ResponseElementTree_parse example_IssueInstantXMLObject
     (Element ''{urn:oasis:names:tc:SAML:2.0:protocol}Response''
        [(''ID'', ''r1''), (''IssueInstant'', ''0''), (''InResponseTo'', ''q1''),
         (''Version'', ''2.0'')] None
        [Element ''{urn:oasis:names:tc:SAML:2.0:assertion}Bogus'' [] None []]) =
     Inl XMLObjectParseError"
proof -
  have q: "fst (AttributeQueryElementTree_parse example_IssueInstantXMLObject
     (Element ''{urn:oasis:names:tc:SAML:2.0:protocol}AttributeQuery''
        [(''ID'', ''q1''), (''IssueInstant'', ''0''), (''Version'', ''2.0'')] None []) 
     initial_factory_state) =
     Inr \<lparr>AttributeQuery_id = ''q1'', AttributeQuery_issueInstant = 0,
          AttributeQuery_version = SAMLVersion_VERSION_20, AttributeQuery_issuer = None,
          AttributeQuery_subject = None, AttributeQuery_attributes = []\<rparr>"
    by (simp add: AttributeQueryElementTree_parse_def getLocalPart_def local_names attrib_names
        SAMLVersion_valueOf_20 example_IssueInstantXMLObject_def int_of_str_def isdigit_def)
  have r: "ResponseElementTree_parse example_IssueInstantXMLObject
     (Element ''{urn:oasis:names:tc:SAML:2.0:protocol}Response''
        [(''ID'', ''r1''), (''IssueInstant'', ''0''), (''InResponseTo'', ''q1''),
         (''Version'', ''2.0'')] None []) =
     Inr \<lparr>Response_id = ''r1'', Response_issueInstant = 0,
          Response_version = SAMLVersion_VERSION_20, Response_inResponseTo = ''q1'',
          Response_issuer = None, Response_status = None, Response_subject = None,
          Response_assertions = []\<rparr>"
    by (simp add: ResponseElementTree_parse_def getLocalPart_def local_names attrib_names
        SAMLVersion_valueOf_20 example_IssueInstantXMLObject_def int_of_str_def isdigit_def)
  have at: "fst (AttributeElementTree_parse no_kw
     (Element ''{urn:oasis:names:tc:SAML:2.0:assertion}Attribute'' [(''Name'', ''urn:role'')] None
        []) initial_factory_state) =
     Inr \<lparr>Attribute_name = Some ''urn:role'', Attribute_friendlyName = None,
          Attribute_nameFormat = None, Attribute_attributeValues = []\<rparr>"
    by (simp add: AttributeElementTree_parse_def getLocalPart_def local_names attrib_names)
  have b: "getLocalPart (elem_tag (Element ''{urn:oasis:names:tc:SAML:2.0:assertion}Bogus'' [] None []))
      \<notin> {Issuer_DEFAULT_ELEMENT_LOCAL_NAME, Status_DEFAULT_ELEMENT_LOCAL_NAME,
         Subject_DEFAULT_ELEMENT_LOCAL_NAME, Assertion_DEFAULT_ELEMENT_LOCAL_NAME,
         Attribute_DEFAULT_ELEMENT_LOCAL_NAME, AttributeValue_DEFAULT_ELEMENT_LOCAL_NAME,
         NameID_DEFAULT_ELEMENT_LOCAL_NAME, StatusCode_DEFAULT_ELEMENT_LOCAL_NAME}"
    by (simp add: getLocalPart_def local_names)
  let ?bogus = "Element ''{urn:oasis:names:tc:SAML:2.0:assertion}Bogus'' [] None []"
  have c1: "IssuerElementTree_parse
     (Element ''{urn:oasis:names:tc:SAML:2.0:assertion}Issuer'' [] (Some ''issuer'') []) =
     Inl XMLObjectParseError"
    using strict_parse_rejection
        [where e = "Element ''{urn:oasis:names:tc:SAML:2.0:assertion}Issuer'' [] (Some ''issuer'') []", THEN conjunct1]
    by simp
  have c2: "NameIdElementTree_parse
     (Element ''{urn:oasis:names:tc:SAML:2.0:assertion}NameID'' [] (Some ''alice'') []) =
     Inl XMLObjectParseError"
    using strict_parse_rejection
        [where e = "Element ''{urn:oasis:names:tc:SAML:2.0:assertion}NameID'' [] (Some ''alice'') []", THEN conjunct2, THEN conjunct1]
    by simp
  have c3: "XSStringAttributeValueElementTree_parse
     (Element ''{urn:oasis:names:tc:SAML:2.0:assertion}AttributeValue'' [] (Some ''admin'') []) =
     Inl XMLObjectParseError"
    using strict_parse_rejection
        [where e = "Element ''{urn:oasis:names:tc:SAML:2.0:assertion}AttributeValue'' []
                      (Some ''admin'') []", THEN conjunct2, THEN conjunct2, THEN conjunct1]
    by (simp add: QName_str_def)
  have c4: "fst (AttributeQueryElementTree_parse example_IssueInstantXMLObject
     (Element ''{urn:oasis:names:tc:SAML:2.0:protocol}AttributeQuery''
        [(''ID'', ''q1''), (''Version'', ''2.0'')] None []) initial_factory_state) =
     Inl XMLObjectParseError"
    using strict_parse_rejection
        [where e = "Element ''{urn:oasis:names:tc:SAML:2.0:protocol}AttributeQuery''
               [(''ID'', ''q1''), (''Version'', ''2.0'')] None []"
           and cls = example_IssueInstantXMLObject and st = initial_factory_state, THEN conjunct2, THEN conjunct2, THEN conjunct2, THEN conjunct1]
    by (simp add: attrib_names)
  have c5: "ResponseElementTree_parse example_IssueInstantXMLObject
     (Element ''{urn:oasis:names:tc:SAML:2.0:protocol}Response''
        [(''ID'', ''r1''), (''IssueInstant'', ''0''), (''Version'', ''2.0'')] None []) =
     Inl XMLObjectParseError"
    using strict_parse_rejection
        [where e = "Element ''{urn:oasis:names:tc:SAML:2.0:protocol}Response''
               [(''ID'', ''r1''), (''IssueInstant'', ''0''), (''Version'', ''2.0'')] None []"
           and cls = example_IssueInstantXMLObject, THEN conjunct2, THEN conjunct2, THEN conjunct2, THEN conjunct2, THEN conjunct1]
    by (simp add: attrib_names)
  have c6: "SubjectElementTree_parse
     (Element ''{urn:oasis:names:tc:SAML:2.0:assertion}Subject'' [] None [?bogus]) =
     Inl XMLObjectParseError"
    using b strict_parse_rejection
        [where e = "Element ''{urn:oasis:names:tc:SAML:2.0:assertion}Subject'' [] None [?bogus]", THEN conjunct2, THEN conjunct2, THEN conjunct2, THEN conjunct2, THEN conjunct2, THEN conjunct2, THEN conjunct1]
    by simp
  have c7: "StatusElementTree_parse
     (Element ''{urn:oasis:names:tc:SAML:2.0:protocol}Status'' [] None [?bogus]) =
     Inl XMLObjectParseError"
    using b strict_parse_rejection
        [where e = "Element ''{urn:oasis:names:tc:SAML:2.0:protocol}Status'' [] None [?bogus]", THEN conjunct2, THEN conjunct2, THEN conjunct2, THEN conjunct2, THEN conjunct2, THEN conjunct2, THEN conjunct2, THEN conjunct1]
    by simp
  have c8: "fst (AttributeElementTree_parse no_kw
     (Element ''{urn:oasis:names:tc:SAML:2.0:assertion}Attribute'' [(''Name'', ''urn:role'')] None
        [?bogus]) initial_factory_state) = Inl XMLObjectParseError"
    using at b strict_parse_rejection
        [where kw = no_kw and st = initial_factory_state and c = ?bogus
           and t = "''{urn:oasis:names:tc:SAML:2.0:assertion}Attribute''"
           and a = "[(''Name'', ''urn:role'')]" and x = None and pre = "[]" and post = "[]"
           and at = "\<lparr>Attribute_name = Some ''urn:role'', Attribute_friendlyName = None,
                      Attribute_nameFormat = None, Attribute_attributeValues = []\<rparr>", THEN conjunct2, THEN conjunct2, THEN conjunct2, THEN conjunct2, THEN conjunct2, THEN conjunct2, THEN conjunct2, THEN conjunct2, THEN conjunct2, THEN conjunct2, THEN conjunct2, THEN conjunct1]
    by simp
  have c9: "fst (AttributeQueryElementTree_parse example_IssueInstantXMLObject
     (Element ''{urn:oasis:names:tc:SAML:2.0:protocol}AttributeQuery''
        [(''ID'', ''q1''), (''IssueInstant'', ''0''), (''Version'', ''2.0'')] None [?bogus])
     initial_factory_state) = Inl XMLObjectParseError"
    using q b strict_parse_rejection
        [where cls = example_IssueInstantXMLObject and st = initial_factory_state and c = ?bogus
           and t = "''{urn:oasis:names:tc:SAML:2.0:protocol}AttributeQuery''"
           and a = "[(''ID'', ''q1''), (''IssueInstant'', ''0''), (''Version'', ''2.0'')]"
           and x = None and pre = "[]" and post = "[]"
           and q = "\<lparr>AttributeQuery_id = ''q1'', AttributeQuery_issueInstant = 0,
                     AttributeQuery_version = SAMLVersion_VERSION_20,
                     AttributeQuery_issuer = None, AttributeQuery_subject = None,
                     AttributeQuery_attributes = []\<rparr>", THEN conjunct2, THEN conjunct2, THEN conjunct2, THEN conjunct2, THEN conjunct2, THEN conjunct2, THEN conjunct2, THEN conjunct2, THEN conjunct2, THEN conjunct2, THEN conjunct2, THEN conjunct2, THEN conjunct1]
    by simp
  have c10: "ResponseElementTree_parse example_IssueInstantXMLObject
     (Element ''{urn:oasis:names:tc:SAML:2.0:protocol}Response''
        [(''ID'', ''r1''), (''IssueInstant'', ''0''), (''InResponseTo'', ''q1''),
         (''Version'', ''2.0'')] None [?bogus]) = Inl XMLObjectParseError"
    using r b strict_parse_rejection
        [where cls = example_IssueInstantXMLObject and c = ?bogus
           and t = "''{urn:oasis:names:tc:SAML:2.0:protocol}Response''"
           and a = "[(''ID'', ''r1''), (''IssueInstant'', ''0''), (''InResponseTo'', ''q1''),
              (''Version'', ''2.0'')]" and x = None and pre = "[]" and post = "[]"
           and r = "\<lparr>Response_id = ''r1'', Response_issueInstant = 0,
                     Response_version = SAMLVersion_VERSION_20, Response_inResponseTo = ''q1'',
                     Response_issuer = None, Response_status = None, Response_subject = None,
                     Response_assertions = []\<rparr>", THEN conjunct2, THEN conjunct2, THEN conjunct2, THEN conjunct2, THEN conjunct2, THEN conjunct2, THEN conjunct2, THEN conjunct2, THEN conjunct2, THEN conjunct2, THEN conjunct2, THEN conjunct2, THEN conjunct2, THEN conjunct1]
    by simp
  from c1 c2 c3 c4 c5 c6 c7 at c8 q c9 r c10 show ?thesis
    by (intro conjI)
qed

theorem strict_parse_rejection_counterexample:
  "IssuerElementTree_parse
     (Element ''{urn:oasis:names:tc:SAML:2.0:assertion}Issuer'' [(''Format'', ''urn:f'')]
        (Some ''/O=Site A/CN=PEP'')
        [Element ''{urn:oasis:names:tc:SAML:2.0:assertion}Bogus'' [] None []]) =
     Inr \<lparr>Issuer_format = ''urn:f'', Issuer_value = ''/O=Site A/CN=PEP''\<rparr> \<and>
   fst (AttributeElementTree_parse no_kw
     (Element ''{urn:oasis:names:tc:SAML:2.0:assertion}Attribute'' [] None [])
     initial_factory_state) =
     Inr \<lparr>Attribute_name = None, Attribute_friendlyName = None, Attribute_nameFormat = None,
          Attribute_attributeValues = []\<rparr> \<and>
   fst (AttributeQueryElementTree_parse example_IssueInstantXMLObject
     (Element ''{urn:oasis:names:tc:SAML:2.0:protocol}AttributeQuery''
        [(''ID'', ''q1''), (''IssueInstant'', ''0''), (''Version'', ''2.0'')] None
        [Element ''{urn:oasis:names:tc:SAML:2.0:assertion}Attribute'' [(''Name'', ''urn:role'')] None
           [Element ''{urn:oasis:names:tc:SAML:2.0:assertion}AttributeValue''
              [(''{http://www.w3.org/2001/XMLSchema-instance}type'', ''esg:groupRole'')]
              (Some ''admin'') []],
         Element ''{urn:oasis:names:tc:SAML:2.0:assertion}Bogus'' [] None []])
     initial_factory_state) = Inl TypeError"
proof (intro conjI)
  show "IssuerElementTree_parse
     (Element ''{urn:oasis:names:tc:SAML:2.0:assertion}Issuer'' [(''Format'', ''urn:f'')]
        (Some ''/O=Site A/CN=PEP'')
        [Element ''{urn:oasis:names:tc:SAML:2.0:assertion}Bogus'' [] None []]) =
     Inr \<lparr>Issuer_format = ''urn:f'', Issuer_value = ''/O=Site A/CN=PEP''\<rparr>"
    by (simp add: IssuerElementTree_parse_def getLocalPart_def local_names attrib_names
        strip_def isspace_def)
next
  show "fst (AttributeElementTree_parse no_kw
     (Element ''{urn:oasis:names:tc:SAML:2.0:assertion}Attribute'' [] None [])
     initial_factory_state) =
     Inr \<lparr>Attribute_name = None, Attribute_friendlyName = None, Attribute_nameFormat = None,
          Attribute_attributeValues = []\<rparr>"
    by (simp add: AttributeElementTree_parse_def getLocalPart_def local_names)
next
  show "fst (AttributeQueryElementTree_parse example_IssueInstantXMLObject
     (Element ''{urn:oasis:names:tc:SAML:2.0:protocol}AttributeQuery''
        [(''ID'', ''q1''), (''IssueInstant'', ''0''), (''Version'', ''2.0'')] None
        [Element ''{urn:oasis:names:tc:SAML:2.0:assertion}Attribute'' [(''Name'', ''urn:role'')] None
           [Element ''{urn:oasis:names:tc:SAML:2.0:assertion}AttributeValue''
              [(''{http://www.w3.org/2001/XMLSchema-instance}type'', ''esg:groupRole'')]
              (Some ''admin'') []],
         Element ''{urn:oasis:names:tc:SAML:2.0:assertion}Bogus'' [] None []])
     initial_factory_state) = Inl TypeError"
    by (simp add: AttributeQueryElementTree_parse_def getLocalPart_def local_names attrib_names
        SAMLVersion_valueOf_20 example_IssueInstantXMLObject_def int_of_str_def isdigit_def
        Let_def AttributeElementTree_parse_def AttributeValueElementTreeFactory_init_def no_kw_def
        AttributeValueElementTreeFactory_call_def initial_factory_state_def
        AttributeValueElementTreeFactory_idMap_def)
qed

section \<open>The factory state\<close>

lemma register_classes_result:
  "register_classes ccm m = (Inr u, m') \<Longrightarrow> m' = m ++ map_of (rev ccm)"
proof (induction ccm arbitrary: m)
  case Nil
  then show ?case by simp
next
  case (Cons kc rest)
  obtain k c where kc: "kc = (k, c)" by (cases kc)
  from Cons.prems have sub: "issubclass_AttributeValue k"
    and rest: "register_classes rest (m(k \<mapsto> c)) = (Inr u, m')"
    by (auto simp: kc split: if_splits)
  from Cons.IH[OF rest] have "m' = m(k \<mapsto> c) ++ map_of (rev rest)" .
  then show ?case
    by (simp add: kc map_add_upd_left fun_eq_iff map_add_def split: option.splits)
qed

lemma map_add_twice: "m ++ x ++ x = m ++ x"
  by (auto simp: fun_eq_iff map_add_def split: option.splits)

lemma register_classes_fst:
  "fst (register_classes ccm m) = fst (register_classes ccm m2)"
  by (induction ccm arbitrary: m m2) auto

lemma register_classes_idem:
  assumes "register_classes ccm m = (Inr u, m')"
  shows "register_classes ccm m' = (Inr (), m')"
proof -
  obtain r m'' where again: "register_classes ccm m' = (r, m'')"
    by (cases "register_classes ccm m'")
  from register_classes_fst[of ccm m m'] assms again have r: "r = Inr ()"
    by simp
  from register_classes_result[OF assms] have m': "m' = m ++ map_of (rev ccm)" .
  from register_classes_result[OF again[unfolded r]] have "m'' = m' ++ map_of (rev ccm)" .
  then have "m'' = m'"
    by (simp add: m' map_add_twice)
  with again r show ?thesis by simp
qed

lemma register_ids_result:
  "register_ids cim m = (Inr u, m') \<Longrightarrow>
   m' = m ++ map_of (rev (map (\<lambda>(k, c). ((case k of StrKey s \<Rightarrow> s | NonStrKey \<Rightarrow> []), c)) cim))"
proof (induction cim m rule: register_ids.induct)
  case (1 m)
  then show ?case by simp
next
  case (2 etreeClass rest m)
  then show ?case by simp
next
  case (3 samlId etreeClass rest m)
  from "3.prems" have "register_ids rest (m(samlId \<mapsto> etreeClass)) = (Inr u, m')"
    by simp
  from "3.IH"[OF this] show ?case
    by (simp add: fun_eq_iff map_add_def split: option.splits)
qed

lemma register_ids_fst:
  "fst (register_ids cim m) = fst (register_ids cim m2)"
  by (induction cim m arbitrary: m2 rule: register_ids.induct) auto

lemma register_ids_idem:
  assumes "register_ids cim m = (Inr u, m')"
  shows "register_ids cim m' = (Inr (), m')"
proof -
  obtain r m'' where again: "register_ids cim m' = (r, m'')"
    by (cases "register_ids cim m'")
  from register_ids_fst[of cim m m'] assms again have r: "r = Inr ()"
    by simp
  note m' = register_ids_result[OF assms]
  note m'' = register_ids_result[OF again[unfolded r]]
  have "m'' = m'"
    by (subst m'', subst (1 2) m') (simp add: map_add_twice)
  with again r show ?thesis by simp
qed

lemma factory_init_idem:
  assumes "AttributeValueElementTreeFactory_init kw st = (Inr u, st1)"
  shows "AttributeValueElementTreeFactory_init kw st1 = (Inr (), st1)"
proof -
  from assms obtain cm im where
    cm: "register_classes (customClassMap kw) (classMap st) = (Inr (), cm)" and
    im: "register_ids (customIdMap kw) (idMap st) = (Inr (), im)" and
    st1: "st1 = st\<lparr>classMap := cm, idMap := im\<rparr>"
    by (auto simp: AttributeValueElementTreeFactory_init_def split: prod.splits sum.splits)
  show ?thesis
    by (simp add: AttributeValueElementTreeFactory_init_def st1
        register_classes_idem[OF cm] register_ids_idem[OF im])
qed

lemma factory_init_no_kw: "AttributeValueElementTreeFactory_init no_kw st = (Inr (), st)"
  by (simp add: AttributeValueElementTreeFactory_init_def no_kw_def)

lemma same_or_registered_refl: "same_or_registered kw st0 st0"
  by (simp add: same_or_registered_def)

lemma same_or_registered_init:
  assumes "same_or_registered kw st0 s"
    and "AttributeValueElementTreeFactory_init kw s = (Inr u, s')"
  shows "AttributeValueElementTreeFactory_init kw st0 = (Inr (), s')"
  using assms factory_init_idem[of kw st0 "()" s]
  by (auto simp: same_or_registered_def)

lemma same_or_registered_init_from:
  assumes "same_or_registered kw st0 s"
    and "AttributeValueElementTreeFactory_init kw st0 = (Inr (), st1)"
  shows "AttributeValueElementTreeFactory_init kw s = (Inr (), st1)"
  using assms factory_init_idem[of kw st0 "()" st1]
  by (auto simp: same_or_registered_def)

lemma coherent_create_attributeValue: "coherent kw st0 (create_attributeValue kw)"
  unfolding coherent_def
proof (intro allI impI)
  fix x s t c s2
  assume s: "same_or_registered kw st0 s" and t: "same_or_registered kw st0 t"
    and ok: "create_attributeValue kw x s = (Inr c, s2)"
  from ok obtain u where init_s: "AttributeValueElementTreeFactory_init kw s = (Inr u, s2)"
    by (auto simp: create_attributeValue_def split: prod.splits sum.splits)
  from same_or_registered_init[OF s init_s]
  have init0: "AttributeValueElementTreeFactory_init kw st0 = (Inr (), s2)" .
  from same_or_registered_init_from[OF t init0]
  have init_t: "AttributeValueElementTreeFactory_init kw t = (Inr (), s2)" .
  from init0 have "same_or_registered kw st0 s2"
    by (simp add: same_or_registered_def)
  moreover from ok init_s init_t have "fst (create_attributeValue kw x t) = Inr c"
    by (auto simp: create_attributeValue_def split: sum.splits)
  ultimately show "same_or_registered kw st0 s2 \<and> fst (create_attributeValue kw x t) = Inr c"
    by simp
qed

lemma append_each_coherent:
  assumes "coherent kw st0 f"
    and "same_or_registered kw st0 s" and "same_or_registered kw st0 t"
    and "append_each f xs elem s = (Inr c, s2)"
  shows "same_or_registered kw st0 s2 \<and> fst (append_each f xs elem t) = Inr c"
  using assms(2-)
proof (induction xs arbitrary: elem s t)
  case Nil
  then show ?case by simp
next
  case (Cons x xs)
  from Cons.prems(3) obtain ch s3 where
    fx: "f x s = (Inr ch, s3)" and rest: "append_each f xs (elem_append ch elem) s3 = (Inr c, s2)"
    by (auto split: prod.splits sum.splits)
  from assms(1) Cons.prems(1,2) fx have s3: "same_or_registered kw st0 s3"
    and ft: "fst (f x t) = Inr ch"
    unfolding coherent_def by blast+
  obtain t3 where fxt: "f x t = (Inr ch, t3)"
    using ft by (cases "f x t") auto
  from assms(1) Cons.prems(2) fxt have t3: "same_or_registered kw st0 t3"
    unfolding coherent_def by blast
  from Cons.IH[OF s3 t3 rest] show ?case
    by (simp add: fxt)
qed

lemma coherent_append_each:
  assumes "coherent kw st0 f"
  shows "coherent kw st0 (\<lambda>a. append_each f (items a) (el a))"
  unfolding coherent_def
  using append_each_coherent[OF assms] by blast

lemma coherent_Attribute: "coherent kw st0 (AttributeElementTree_create kw)"
proof -
  have "AttributeElementTree_create kw =
          (\<lambda>a. append_each (create_attributeValue kw) (Attribute_attributeValues a)
             (set_if_true Attribute_NAME_FORMAT_ATTRIB_NAME (Attribute_nameFormat a)
               (set_if_true Attribute_NAME_ATTRIB_NAME (Attribute_name a)
                 (set_if_true Attribute_FRIENDLY_NAME_ATTRIB_NAME (Attribute_friendlyName a)
                    (Element (QName_str Attribute_DEFAULT_ELEMENT_NAME) [] None [])))))"
    by (simp add: fun_eq_iff AttributeElementTree_create_def Let_def)
  then show ?thesis
    by (simp only: coherent_append_each[OF coherent_create_attributeValue])
qed

lemma coherent_AttributeStatement: "coherent kw st0 (AttributeStatementElementTree_create kw)"
proof -
  have "AttributeStatementElementTree_create kw =
          (\<lambda>a. append_each (AttributeElementTree_create kw) (AttributeStatement_attributes a)
             (Element (QName_str AttributeStatement_DEFAULT_ELEMENT_NAME) [] None []))"
    by (simp add: fun_eq_iff AttributeStatementElementTree_create_def)
  then show ?thesis
    by (simp only: coherent_append_each[OF coherent_Attribute])
qed

lemma AssertionElementTree_create_head:
  "AssertionElementTree_create cls kw a st =
     (case Assertion_head cls a of
        Inl e \<Rightarrow> (Inl e, st)
      | Inr elem3 \<Rightarrow>
          append_each (AttributeStatementElementTree_create kw) (Assertion_attributeStatements a)
            elem3 st)"
  by (cases "Assertion_issuer a"; cases "Assertion_subject a"; cases "Assertion_advice a";
      cases "Assertion_conditions a")
    (simp_all add: Assertion_head_def AssertionElementTree_create_def Let_def
      IssuerElementTree_create_def SubjectElementTree_create_def NameIdElementTree_create_def
      ConditionsElementTree_create_def split: option.split)

lemma coherent_Assertion: "coherent kw st0 (AssertionElementTree_create cls kw)"
  unfolding coherent_def
proof (intro allI impI)
  fix a s t c s2
  assume s: "same_or_registered kw st0 s" and t: "same_or_registered kw st0 t"
    and ok: "AssertionElementTree_create cls kw a s = (Inr c, s2)"
  from ok obtain elem3 where head: "Assertion_head cls a = Inr elem3"
    and loop: "append_each (AttributeStatementElementTree_create kw)
                 (Assertion_attributeStatements a) elem3 s = (Inr c, s2)"
    by (auto simp: AssertionElementTree_create_head split: sum.splits)
  from append_each_coherent[OF coherent_AttributeStatement s t loop]
  show "same_or_registered kw st0 s2 \<and> fst (AssertionElementTree_create cls kw a t) = Inr c"
    by (simp add: AssertionElementTree_create_head[of cls kw a t] head)
qed

lemma append_each_children:
  assumes "coherent kw st0 f"
    and "same_or_registered kw st0 s"
    and "append_each f xs elem s = (Inr e', s')"
  shows "map Inr (elem_children e') = map Inr (elem_children elem) @ map (\<lambda>x. fst (f x st0)) xs \<and>
         elem_tag e' = elem_tag elem \<and> elem_attrib e' = elem_attrib elem \<and>
         elem_text e' = elem_text elem"
  using assms(2-)
proof (induction xs arbitrary: elem s)
  case Nil
  then show ?case by simp
next
  case (Cons x xs)
  from Cons.prems(2) obtain ch s3 where
    fx: "f x s = (Inr ch, s3)" and rest: "append_each f xs (elem_append ch elem) s3 = (Inr e', s')"
    by (auto split: prod.splits sum.splits)
  from assms(1) Cons.prems(1) same_or_registered_refl[of kw st0] fx
  have s3: "same_or_registered kw st0 s3" and f0: "fst (f x st0) = Inr ch"
    unfolding coherent_def by blast+
  from Cons.IH[OF s3 rest] show ?case
    by (simp add: elem_append_def f0)
qed

section \<open>Unimplemented parts of the assertion binding\<close>

lemma Assertion_head_TypeError:
  assumes "Assertion_subject a = Some s" and "Subject_nameID s = None"
  shows "Assertion_head cls a = Inl TypeError"
  using assms
  by (cases "Assertion_issuer a")
    (simp_all add: Assertion_head_def AssertionElementTree_create_def Let_def
      IssuerElementTree_create_def SubjectElementTree_create_def NameIdElementTree_create_def)

lemma Subject_create_Inr:
  assumes "\<forall>s. subject = Some s \<longrightarrow> Subject_nameID s \<noteq> None" and "subject \<noteq> None"
  shows "\<exists>e. SubjectElementTree_create subject = Inr e"
  using assms
  by (auto simp: SubjectElementTree_create_def NameIdElementTree_create_def split: option.splits)

lemma Assertion_head_NotImplemented:
  assumes "\<forall>s. Assertion_subject a = Some s \<longrightarrow> Subject_nameID s \<noteq> None"
    and "(\<exists>c. Assertion_conditions a = Some c \<and> Conditions_conditions c \<noteq> []) \<or>
           Assertion_advice a \<noteq> None \<or> Assertion_statements a \<noteq> [] \<or>
           Assertion_authnStatements a \<noteq> [] \<or> Assertion_authzDecisionStatements a \<noteq> []"
  shows "Assertion_head cls a = Inl NotImplementedError"
proof (cases "Assertion_subject a")
  case None
  with assms(2) show ?thesis
    by (cases "Assertion_issuer a"; cases "Assertion_advice a"; cases "Assertion_conditions a")
      (auto simp: Assertion_head_def AssertionElementTree_create_def Let_def
        IssuerElementTree_create_def ConditionsElementTree_create_def)
next
  case (Some s)
  with Subject_create_Inr[OF assms(1)] obtain se where
    se: "SubjectElementTree_create (Some s) = Inr se"
    by auto
  from assms(2) Some show ?thesis
    by (cases "Assertion_issuer a"; cases "Assertion_advice a"; cases "Assertion_conditions a")
      (auto simp: Assertion_head_def AssertionElementTree_create_def Let_def se
        IssuerElementTree_create_def ConditionsElementTree_create_def)
qed

lemma Assertion_head_Inr:
  assumes "\<forall>s. Assertion_subject a = Some s \<longrightarrow> Subject_nameID s \<noteq> None"
    and "\<forall>c. Assertion_conditions a = Some c \<longrightarrow> Conditions_conditions c = []"
    and "Assertion_advice a = None" and "Assertion_statements a = []"
    and "Assertion_authnStatements a = []" and "Assertion_authzDecisionStatements a = []"
  shows "\<exists>elem3. Assertion_head cls a = Inr elem3"
proof (cases "Assertion_subject a")
  case None
  with assms(2-) show ?thesis
    by (cases "Assertion_issuer a"; cases "Assertion_conditions a")
      (auto simp: Assertion_head_def AssertionElementTree_create_def Let_def
        IssuerElementTree_create_def ConditionsElementTree_create_def)
next
  case (Some s)
  with Subject_create_Inr[OF assms(1)] obtain se where
    se: "SubjectElementTree_create (Some s) = Inr se"
    by auto
  from assms(2-) Some show ?thesis
    by (cases "Assertion_issuer a"; cases "Assertion_conditions a")
      (auto simp: Assertion_head_def AssertionElementTree_create_def Let_def se
        IssuerElementTree_create_def ConditionsElementTree_create_def)
qed

lemma append_each_succeeds:
  assumes "\<forall>x\<in>set xs. \<exists>ch. f x st = (Inr ch, st)"
  shows "\<exists>e'. append_each f xs elem st = (Inr e', st)"
  using assms by (induction xs arbitrary: elem) auto

lemma create_attributeValue_no_kw:
  assumes "classMap st (class_of v) = Some c" and "av_create c v = Inr el"
  shows "create_attributeValue no_kw v st = (Inr el, st)"
  using assms
  by (simp add: create_attributeValue_def factory_init_no_kw
      AttributeValueElementTreeFactory_call_def)

lemma Attribute_create_no_kw_succeeds:
  assumes "\<forall>v\<in>set (Attribute_attributeValues a).
             \<exists>c el. classMap st (class_of v) = Some c \<and> av_create c v = Inr el"
  shows "\<exists>e. AttributeElementTree_create no_kw a st = (Inr e, st)"
  unfolding AttributeElementTree_create_def Let_def
  by (rule append_each_succeeds) (use assms in \<open>blast intro: create_attributeValue_no_kw\<close>)

lemma AttributeStatement_create_no_kw_succeeds:
  assumes "\<forall>at\<in>set (AttributeStatement_attributes s). \<forall>v\<in>set (Attribute_attributeValues at).
             \<exists>c el. classMap st (class_of v) = Some c \<and> av_create c v = Inr el"
  shows "\<exists>e. AttributeStatementElementTree_create no_kw s st = (Inr e, st)"
  unfolding AttributeStatementElementTree_create_def
  by (rule append_each_succeeds) (use assms in \<open>blast intro: Attribute_create_no_kw_succeeds\<close>)

lemma Assertion_create_no_kw_succeeds:
  assumes "\<forall>s. Assertion_subject a = Some s \<longrightarrow> Subject_nameID s \<noteq> None"
    and "\<forall>c. Assertion_conditions a = Some c \<longrightarrow> Conditions_conditions c = []"
    and "Assertion_advice a = None" and "Assertion_statements a = []"
    and "Assertion_authnStatements a = []" and "Assertion_authzDecisionStatements a = []"
    and "\<forall>s\<in>set (Assertion_attributeStatements a). \<forall>at\<in>set (AttributeStatement_attributes s).
           \<forall>v\<in>set (Attribute_attributeValues at).
             \<exists>c el. classMap st (class_of v) = Some c \<and> av_create c v = Inr el"
  shows "\<exists>e. AssertionElementTree_create cls no_kw a st = (Inr e, st)"
proof -
  from Assertion_head_Inr[OF assms(1-6)] obtain elem3 where "Assertion_head cls a = Inr elem3"
    by blast
  moreover have "\<exists>e. append_each (AttributeStatementElementTree_create no_kw)
                       (Assertion_attributeStatements a) elem3 st = (Inr e, st)"
    by (rule append_each_succeeds)
      (use assms(7) in \<open>blast intro: AttributeStatement_create_no_kw_succeeds\<close>)
  ultimately show ?thesis
    by (simp add: AssertionElementTree_create_head)
qed

text \<open>
  Claim C5, as amended. \<open>AssertionElementTree_create\<close> writes the issuer and the subject
  first: an assertion whose subject holds no name identifier fails there with
  \<open>TypeError\<close>. Every other assertion that has an advice, a non-empty list of conditions
  in its \<open>Conditions\<close>, or a non-empty \<open>statements\<close>, \<open>authnStatements\<close> or
  \<open>authzDecisionStatements\<close> collection fails with \<open>NotImplementedError\<close>. Both failures
  leave the factory state as it was. An assertion with none of these is serialised
  without error when it is created without custom codec maps and every attribute value
  of its attribute statements has, in the class map, a codec that creates it.
\<close>

theorem Assertion_create_fails_loudly:
  "((\<exists>s. Assertion_subject a = Some s \<and> Subject_nameID s = None) \<longrightarrow>
      AssertionElementTree_create cls kw a st = (Inl TypeError, st)) \<and>
   ((\<forall>s. Assertion_subject a = Some s \<longrightarrow> Subject_nameID s \<noteq> None) \<and>
    ((\<exists>c. Assertion_conditions a = Some c \<and> Conditions_conditions c \<noteq> []) \<or>
     Assertion_advice a \<noteq> None \<or> Assertion_statements a \<noteq> [] \<or>
     Assertion_authnStatements a \<noteq> [] \<or> Assertion_authzDecisionStatements a \<noteq> []) \<longrightarrow>
      AssertionElementTree_create cls kw a st = (Inl NotImplementedError, st)) \<and>
   ((\<forall>s. Assertion_subject a = Some s \<longrightarrow> Subject_nameID s \<noteq> None) \<and>
    (\<forall>c. Assertion_conditions a = Some c \<longrightarrow> Conditions_conditions c = []) \<and>
    Assertion_advice a = None \<and> Assertion_statements a = [] \<and>
    Assertion_authnStatements a = [] \<and> Assertion_authzDecisionStatements a = [] \<and>
    (\<forall>s\<in>set (Assertion_attributeStatements a). \<forall>at\<in>set (AttributeStatement_attributes s).
       \<forall>v\<in>set (Attribute_attributeValues at).
         \<exists>c el. classMap st (class_of v) = Some c \<and> av_create c v = Inr el) \<longrightarrow>
      (\<exists>e. AssertionElementTree_create cls no_kw a st = (Inr e, st)))"
proof (intro conjI impI)
  assume "\<exists>s. Assertion_subject a = Some s \<and> Subject_nameID s = None"
  then have "Assertion_head cls a = Inl TypeError"
    by (blast intro: Assertion_head_TypeError)
  then show "AssertionElementTree_create cls kw a st = (Inl TypeError, st)"
    by (simp add: AssertionElementTree_create_head)
next
  assume "(\<forall>s. Assertion_subject a = Some s \<longrightarrow> Subject_nameID s \<noteq> None) \<and>
    ((\<exists>c. Assertion_conditions a = Some c \<and> Conditions_conditions c \<noteq> []) \<or>
     Assertion_advice a \<noteq> None \<or> Assertion_statements a \<noteq> [] \<or>
     Assertion_authnStatements a \<noteq> [] \<or> Assertion_authzDecisionStatements a \<noteq> [])"
  then have "Assertion_head cls a = Inl NotImplementedError"
    by (intro Assertion_head_NotImplemented) blast+
  then show "AssertionElementTree_create cls kw a st = (Inl NotImplementedError, st)"
    by (simp add: AssertionElementTree_create_head)
next
  assume "(\<forall>s. Assertion_subject a = Some s \<longrightarrow> Subject_nameID s \<noteq> None) \<and>
    (\<forall>c. Assertion_conditions a = Some c \<longrightarrow> Conditions_conditions c = []) \<and>
    Assertion_advice a = None \<and> Assertion_statements a = [] \<and>
    Assertion_authnStatements a = [] \<and> Assertion_authzDecisionStatements a = [] \<and>
    (\<forall>s\<in>set (Assertion_attributeStatements a). \<forall>at\<in>set (AttributeStatement_attributes s).
       \<forall>v\<in>set (Attribute_attributeValues at).
         \<exists>c el. classMap st (class_of v) = Some c \<and> av_create c v = Inr el)"
  then show "\<exists>e. AssertionElementTree_create cls no_kw a st = (Inr e, st)"
    by (intro Assertion_create_no_kw_succeeds) blast+
qed

theorem Assertion_create_fails_loudly_witness:
  "AssertionElementTree_create example_IssueInstantXMLObject no_kw
     (example_assertion\<lparr>Assertion_subject := Some \<lparr>Subject_nameID = None\<rparr>\<rparr>)
     initial_factory_state =
     (Inl TypeError, initial_factory_state) \<and>
   AssertionElementTree_create example_IssueInstantXMLObject no_kw
     (example_assertion\<lparr>Assertion_authzDecisionStatements :=
        [\<lparr>AuthzDecisionStatement_decision = PERMIT,
          AuthzDecisionStatement_resource = RESOURCE_URI,
          AuthzDecisionStatement_actions = []\<rparr>]\<rparr>) initial_factory_state =
     (Inl NotImplementedError, initial_factory_state) \<and>
   (\<exists>e. AssertionElementTree_create example_IssueInstantXMLObject no_kw example_assertion
          initial_factory_state = (Inr e, initial_factory_state))"
  using
    Assertion_create_fails_loudly
      [of "example_assertion\<lparr>Assertion_subject := Some \<lparr>Subject_nameID = None\<rparr>\<rparr>"
          example_IssueInstantXMLObject no_kw initial_factory_state]
    Assertion_create_fails_loudly
      [of "example_assertion\<lparr>Assertion_authzDecisionStatements :=
             [\<lparr>AuthzDecisionStatement_decision = PERMIT,
               AuthzDecisionStatement_resource = RESOURCE_URI,
               AuthzDecisionStatement_actions = []\<rparr>]\<rparr>"
          example_IssueInstantXMLObject no_kw initial_factory_state]
    Assertion_create_fails_loudly
      [of example_assertion example_IssueInstantXMLObject no_kw initial_factory_state]
  by (simp add: example_assertion_def example_attribute_def initial_factory_state_def
      AttributeValueElementTreeFactory_classMap_def XSStringAttributeValueElementTree_def
      XSStringAttributeValueElementTree_create_def AttributeValueElementTreeBase_create_def
      Let_def)

theorem Assertion_with_advice_counterexample:
  "Assertion_statements (example_assertion\<lparr>Assertion_advice := Some (Advice ''see also'')\<rparr>) = [] \<and>
   Assertion_authnStatements (example_assertion\<lparr>Assertion_advice := Some (Advice ''see also'')\<rparr>) = [] \<and>
   Assertion_authzDecisionStatements
     (example_assertion\<lparr>Assertion_advice := Some (Advice ''see also'')\<rparr>) = [] \<and>
   map_option Conditions_conditions
     (Assertion_conditions (example_assertion\<lparr>Assertion_advice := Some (Advice ''see also'')\<rparr>)) =
     Some [] \<and>
   fst (AssertionElementTree_create example_IssueInstantXMLObject no_kw
          (example_assertion\<lparr>Assertion_advice := Some (Advice ''see also'')\<rparr>)
          initial_factory_state) = Inl NotImplementedError \<and>
   Assertion_statements
     (example_assertion\<lparr>Assertion_subject := Some \<lparr>Subject_nameID = None\<rparr>,
                         Assertion_statements := [Statement ''s'']\<rparr>) \<noteq> [] \<and>
   fst (AssertionElementTree_create example_IssueInstantXMLObject no_kw
          (example_assertion\<lparr>Assertion_subject := Some \<lparr>Subject_nameID = None\<rparr>,
                              Assertion_statements := [Statement ''s'']\<rparr>)
          initial_factory_state) = Inl TypeError"
  by (simp add: example_assertion_def AssertionElementTree_create_def Let_def
      IssuerElementTree_create_def SubjectElementTree_create_def NameIdElementTree_create_def)

section \<open>Correlation of the response with the query\<close>

lemma authzDecisionQuery_Inr:
  assumes "AuthzDecisionQuery_subject query = Some s" and "Subject_nameID s = Some n"
  shows "\<exists>R. authzDecisionQuery env query response = Inr R \<and>
             Response_inResponseTo R = AuthzDecisionQuery_id query \<and>
             Response_id R = env_uuid4_first env \<and>
             map Assertion_id (Response_assertions R) =
               map Assertion_id (Response_assertions response) @ [env_uuid4_second env]"
  using assms by (simp add: authzDecisionQuery_def Let_def)

lemma authzDecisionQuery_Inr_iff:
  "(\<exists>R. authzDecisionQuery env query response = Inr R) \<longleftrightarrow>
   (\<exists>s n. AuthzDecisionQuery_subject query = Some s \<and> Subject_nameID s = Some n)"
  by (auto simp: authzDecisionQuery_def Let_def split: option.splits)

text \<open>
  Claim C2. The callback produces a response exactly for the queries whose subject holds
  a name identifier. The response \<open>R\<close> it produces has the id of the query as its
  \<open>inResponseTo\<close>, and the identifier \<^verbatim>\<open>uuid4\<close> has drawn for it as its id: a freshly
  generated one, so that the id of \<open>R\<close> is not the id of the query, nor any other
  identifier in circulation, nor the id of the assertion the callback adds to \<open>R\<close>.
\<close>

theorem callback_correlation:
  "((\<exists>R. authzDecisionQuery env query response = Inr R) \<longleftrightarrow>
    (\<exists>s n. AuthzDecisionQuery_subject query = Some s \<and> Subject_nameID s = Some n)) \<and>
   (authzDecisionQuery env query response = Inr R \<longrightarrow>
      Response_inResponseTo R = AuthzDecisionQuery_id query \<and>
      Response_id R = env_uuid4_first env \<and>
      (uuid4_fresh env issued \<and> AuthzDecisionQuery_id query \<in> set issued \<longrightarrow>
         Response_id R \<noteq> AuthzDecisionQuery_id query \<and>
         Response_id R \<notin> set issued \<and>
         Response_id R \<noteq> Assertion_id (last (Response_assertions R))))"
proof (intro conjI impI)
  show "(\<exists>R. authzDecisionQuery env query response = Inr R) \<longleftrightarrow>
    (\<exists>s n. AuthzDecisionQuery_subject query = Some s \<and> Subject_nameID s = Some n)"
    by (rule authzDecisionQuery_Inr_iff)
next
  assume R: "authzDecisionQuery env query response = Inr R"
  then obtain s n where "AuthzDecisionQuery_subject query = Some s" "Subject_nameID s = Some n"
    using authzDecisionQuery_Inr_iff[of env query response] by blast
  from authzDecisionQuery_Inr[OF this, of env response] R
  have facts: "Response_inResponseTo R = AuthzDecisionQuery_id query"
    "Response_id R = env_uuid4_first env"
    "map Assertion_id (Response_assertions R) =
       map Assertion_id (Response_assertions response) @ [env_uuid4_second env]"
    by simp_all
  show "Response_inResponseTo R = AuthzDecisionQuery_id query"
    by (rule facts(1))
  show "Response_id R = env_uuid4_first env"
    by (rule facts(2))
  have last_id: "Assertion_id (last (Response_assertions R)) = env_uuid4_second env"
  proof -
    from facts(3) have ne: "Response_assertions R \<noteq> []"
      by auto
    then have "Assertion_id (last (Response_assertions R)) =
                 last (map Assertion_id (Response_assertions R))"
      by (simp add: last_map)
    then show ?thesis
      by (simp add: facts(3))
  qed
  assume fresh: "uuid4_fresh env issued \<and> AuthzDecisionQuery_id query \<in> set issued"
  then show "Response_id R \<noteq> AuthzDecisionQuery_id query"
    by (auto simp: facts(2) uuid4_fresh_def)
  from fresh show "Response_id R \<notin> set issued"
    by (simp add: facts(2) uuid4_fresh_def)
  from fresh show "Response_id R \<noteq> Assertion_id (last (Response_assertions R))"
    by (auto simp: facts(2) last_id uuid4_fresh_def)
qed

theorem callback_correlation_witness:
  "uuid4_fresh example_env
     [AuthzDecisionQuery_id example_authz_query, ''a8098c1a-f86e-11da-bd1a-00112444be1e''] \<and>
   (\<exists>R. authzDecisionQuery example_env example_authz_query empty_response = Inr R \<and>
        Response_inResponseTo R = ''0f8fad5b-d9cb-469f-a165-70867728950e'' \<and>
        Response_id R = ''7c9e6679-7425-40de-944b-e07fc1f90ae7'' \<and>
        Response_id R \<noteq> AuthzDecisionQuery_id example_authz_query)"
proof -
  let ?issued = "[AuthzDecisionQuery_id example_authz_query,
                  ''a8098c1a-f86e-11da-bd1a-00112444be1e'']"
  have fresh: "uuid4_fresh example_env ?issued"
    by (simp add: uuid4_fresh_def example_env_def example_authz_query_def)
  have "\<exists>s n. AuthzDecisionQuery_subject example_authz_query = Some s \<and> Subject_nameID s = Some n"
    by (simp add: example_authz_query_def example_subject_def)
  with callback_correlation [of example_env example_authz_query empty_response]
  obtain R where R: "authzDecisionQuery example_env example_authz_query empty_response = Inr R"
    by blast
  have mem: "AuthzDecisionQuery_id example_authz_query \<in> set ?issued"
    by simp
  from callback_correlation [of example_env example_authz_query empty_response R ?issued]
    R fresh mem
  have 1: "Response_inResponseTo R = AuthzDecisionQuery_id example_authz_query"
    and 2: "Response_id R = env_uuid4_first example_env"
    and 3: "Response_id R \<noteq> AuthzDecisionQuery_id example_authz_query"
    by blast+
  have "Response_inResponseTo R = ''0f8fad5b-d9cb-469f-a165-70867728950e''"
    using 1 by (simp add: example_authz_query_def)
  moreover have "Response_id R = ''7c9e6679-7425-40de-944b-e07fc1f90ae7''"
    using 2 by (simp add: example_env_def)
  ultimately show ?thesis
    using fresh R 3 by blast
qed

section \<open>Optional children and the order of repeated children\<close>

lemma set_if_true_sel:
  "elem_children (set_if_true k f e) = elem_children e"
  "elem_tag (set_if_true k f e) = elem_tag e"
  "elem_text (set_if_true k f e) = elem_text e"
  by (simp_all add: set_if_true_def elem_set_def split: option.splits)

lemma Attribute_create_children:
  assumes "AttributeElementTree_create kw a st = (Inr e, st')"
  shows "map Inr (elem_children e) =
           map (\<lambda>v. fst (create_attributeValue kw v st)) (Attribute_attributeValues a)"
proof -
  define elem3 where "elem3 =
    set_if_true Attribute_NAME_FORMAT_ATTRIB_NAME (Attribute_nameFormat a)
      (set_if_true Attribute_NAME_ATTRIB_NAME (Attribute_name a)
        (set_if_true Attribute_FRIENDLY_NAME_ATTRIB_NAME (Attribute_friendlyName a)
          (Element (QName_str Attribute_DEFAULT_ELEMENT_NAME) [] None [])))"
  have c: "elem_children elem3 = []"
    by (simp add: elem3_def set_if_true_sel)
  from assms have
    loop: "append_each (create_attributeValue kw) (Attribute_attributeValues a) elem3 st =
             (Inr e, st')"
    by (simp add: AttributeElementTree_create_def Let_def elem3_def)
  from append_each_children[OF coherent_create_attributeValue same_or_registered_refl loop]
  show ?thesis
    by (simp add: c)
qed

lemma AttributeStatement_create_children:
  assumes "AttributeStatementElementTree_create kw s st = (Inr e, st')"
  shows "map Inr (elem_children e) =
           map (\<lambda>a. fst (AttributeElementTree_create kw a st)) (AttributeStatement_attributes s)"
proof -
  from assms have
    loop: "append_each (AttributeElementTree_create kw) (AttributeStatement_attributes s)
             (Element (QName_str AttributeStatement_DEFAULT_ELEMENT_NAME) [] None []) st =
             (Inr e, st')"
    by (simp add: AttributeStatementElementTree_create_def)
  from append_each_children[OF coherent_Attribute same_or_registered_refl loop]
  show ?thesis
    by simp
qed

lemma Assertion_head_children:
  assumes "Assertion_head cls a = Inr elem3"
  shows "map Inr (elem_children elem3) =
           (case Assertion_issuer a of None \<Rightarrow> [] | Some i \<Rightarrow> [IssuerElementTree_create (Some i)]) @
           (case Assertion_subject a of None \<Rightarrow> [] | Some s \<Rightarrow> [SubjectElementTree_create (Some s)]) @
           (case Assertion_conditions a of None \<Rightarrow> [] | Some c \<Rightarrow> [ConditionsElementTree_create cls c])"
  using assms
  by (cases "Assertion_issuer a"; cases "Assertion_subject a"; cases "Assertion_advice a";
      cases "Assertion_conditions a")
    (auto simp: Assertion_head_def AssertionElementTree_create_def Let_def elem_append_def
      IssuerElementTree_create_def SubjectElementTree_create_def NameIdElementTree_create_def
      ConditionsElementTree_create_def split: if_splits option.splits)

lemma Assertion_create_children:
  assumes "AssertionElementTree_create cls kw a st = (Inr e, st')"
  shows "map Inr (elem_children e) =
           (case Assertion_issuer a of None \<Rightarrow> [] | Some i \<Rightarrow> [IssuerElementTree_create (Some i)]) @
           (case Assertion_subject a of None \<Rightarrow> [] | Some s \<Rightarrow> [SubjectElementTree_create (Some s)]) @
           (case Assertion_conditions a of None \<Rightarrow> [] | Some c \<Rightarrow> [ConditionsElementTree_create cls c]) @
           map (\<lambda>s. fst (AttributeStatementElementTree_create kw s st))
             (Assertion_attributeStatements a)"
proof -
  from assms obtain elem3 where head: "Assertion_head cls a = Inr elem3"
    and loop: "append_each (AttributeStatementElementTree_create kw)
                 (Assertion_attributeStatements a) elem3 st = (Inr e, st')"
    by (auto simp: AssertionElementTree_create_head split: sum.splits)
  from append_each_children[OF coherent_AttributeStatement same_or_registered_refl loop]
  show ?thesis
    by (simp add: Assertion_head_children[OF head])
qed

lemma Response_create_children:
  assumes "ResponseElementTree_create cls kw r st = (Inr e, st')"
  shows "map Inr (elem_children e) =
           IssuerElementTree_create (Response_issuer r) #
           StatusElementTree_create (Response_status r) #
           map (\<lambda>a. fst (AssertionElementTree_create cls kw a st)) (Response_assertions r)"
proof -
  define elem where "elem = Element (QName_str Response_DEFAULT_ELEMENT_NAME)
                [(ID_ATTRIB_NAME, Response_id r),
                 (ISSUE_INSTANT_ATTRIB_NAME, datetime2Str cls (Response_issueInstant r)),
                 (IN_RESPONSE_TO_ATTRIB_NAME, Response_inResponseTo r),
                 (VERSION_ATTRIB_NAME, SAMLVersion_str (Response_version r))] None []"
  have c: "elem_children elem = []"
    by (simp add: elem_def)
  from assms obtain issuerElem statusElem where
    i: "IssuerElementTree_create (Response_issuer r) = Inr issuerElem" and
    s: "StatusElementTree_create (Response_status r) = Inr statusElem" and
    loop: "append_each (AssertionElementTree_create cls kw) (Response_assertions r)
             (elem_append statusElem (elem_append issuerElem elem)) st = (Inr e, st')"
    by (auto simp: ResponseElementTree_create_def Let_def elem_def split: sum.splits)
  from append_each_children[OF coherent_Assertion same_or_registered_refl loop]
  show ?thesis
    by (simp add: i s c elem_append_def)
qed

lemma Response_create_requires:
  assumes "Response_issuer r = None \<or> Response_status r = None"
  shows "ResponseElementTree_create cls kw r st = (Inl TypeError, st)"
  using assms
  by (auto simp: ResponseElementTree_create_def Let_def IssuerElementTree_create_def
      StatusElementTree_create_def split: option.splits sum.splits)

lemma AttributeQuery_create_children:
  assumes "AttributeQueryElementTree_create cls kw q st = (Inr e, st')"
  shows "map Inr (elem_children e) =
           IssuerElementTree_create (AttributeQuery_issuer q) #
           SubjectElementTree_create (AttributeQuery_subject q) #
           map (\<lambda>a. fst (AttributeElementTree_create kw a st)) (AttributeQuery_attributes q)"
proof -
  define elem where "elem = Element (QName_str AttributeQuery_DEFAULT_ELEMENT_NAME)
                [(ID_ATTRIB_NAME, AttributeQuery_id q),
                 (ISSUE_INSTANT_ATTRIB_NAME, datetime2Str cls (AttributeQuery_issueInstant q)),
                 (VERSION_ATTRIB_NAME, SAMLVersion_str (AttributeQuery_version q))] None []"
  have c: "elem_children elem = []"
    by (simp add: elem_def)
  from assms obtain issuerElem subjectElem where
    i: "IssuerElementTree_create (AttributeQuery_issuer q) = Inr issuerElem" and
    s: "SubjectElementTree_create (AttributeQuery_subject q) = Inr subjectElem" and
    loop: "append_each (AttributeElementTree_create kw) (AttributeQuery_attributes q)
             (elem_append subjectElem (elem_append issuerElem elem)) st = (Inr e, st')"
    by (auto simp: AttributeQueryElementTree_create_def Let_def elem_def split: sum.splits)
  from append_each_children[OF coherent_Attribute same_or_registered_refl loop]
  show ?thesis
    by (simp add: i s c elem_append_def)
qed

lemma AttributeQuery_create_requires:
  assumes "AttributeQuery_issuer q = None \<or> AttributeQuery_subject q = None"
  shows "AttributeQueryElementTree_create cls kw q st = (Inl TypeError, st)"
  using assms
  by (auto simp: AttributeQueryElementTree_create_def Let_def IssuerElementTree_create_def
      SubjectElementTree_create_def split: option.splits sum.splits)

text \<open>
  Claim C8, as amended. \<open>AssertionElementTree_create\<close> appends the issuer, subject and
  conditions elements only when the field is present: the children of the element it
  returns are the elements of the present fields, in that order, followed by the
  elements of the attribute statements in the order of the list; an absent field
  contributes no child. \<open>ResponseElementTree_create\<close> requires the issuer and the status,
  and \<open>AttributeQueryElementTree_create\<close> the issuer and the subject: with one of them
  absent they fail with \<open>TypeError\<close> rather than omit the element. When they succeed
  the children are those two elements followed by the elements of the assertions
  (respectively attributes) in the order of the list. Attribute statements and
  attributes likewise keep the order of their attributes and attribute values.
\<close>

theorem create_children_in_order:
  "(AssertionElementTree_create cls kw a st = (Inr ea, sta) \<longrightarrow>
      map Inr (elem_children ea) =
        (case Assertion_issuer a of None \<Rightarrow> [] | Some i \<Rightarrow> [IssuerElementTree_create (Some i)]) @
        (case Assertion_subject a of None \<Rightarrow> [] | Some s \<Rightarrow> [SubjectElementTree_create (Some s)]) @
        (case Assertion_conditions a of None \<Rightarrow> []
         | Some c \<Rightarrow> [ConditionsElementTree_create cls c]) @
        map (\<lambda>s. fst (AttributeStatementElementTree_create kw s st))
          (Assertion_attributeStatements a)) \<and>
   (ResponseElementTree_create cls kw r st = (Inr er, str) \<longrightarrow>
      map Inr (elem_children er) =
        IssuerElementTree_create (Response_issuer r) #
        StatusElementTree_create (Response_status r) #
        map (\<lambda>a. fst (AssertionElementTree_create cls kw a st)) (Response_assertions r)) \<and>
   (Response_issuer r = None \<or> Response_status r = None \<longrightarrow>
      ResponseElementTree_create cls kw r st = (Inl TypeError, st)) \<and>
   (AttributeQueryElementTree_create cls kw q st = (Inr eq, stq) \<longrightarrow>
      map Inr (elem_children eq) =
        IssuerElementTree_create (AttributeQuery_issuer q) #
        SubjectElementTree_create (AttributeQuery_subject q) #
        map (\<lambda>a. fst (AttributeElementTree_create kw a st)) (AttributeQuery_attributes q)) \<and>
   (AttributeQuery_issuer q = None \<or> AttributeQuery_subject q = None \<longrightarrow>
      AttributeQueryElementTree_create cls kw q st = (Inl TypeError, st)) \<and>
   (AttributeStatementElementTree_create kw s st = (Inr es, sts) \<longrightarrow>
      map Inr (elem_children es) =
        map (\<lambda>a. fst (AttributeElementTree_create kw a st)) (AttributeStatement_attributes s)) \<and>
   (AttributeElementTree_create kw at st = (Inr et, stt) \<longrightarrow>
      map Inr (elem_children et) =
        map (\<lambda>v. fst (create_attributeValue kw v st)) (Attribute_attributeValues at))"
  using Assertion_create_children [of cls kw a st ea sta]
    Response_create_children [of cls kw r st er str]
    Response_create_requires [of r cls kw st]
    AttributeQuery_create_children [of cls kw q st eq stq]
    AttributeQuery_create_requires [of q cls kw st]
    AttributeStatement_create_children [of kw s st es sts]
    Attribute_create_children [of kw at st et stt]
  by blast

theorem Response_without_issuer_counterexample:
  "fst (ResponseElementTree_create example_IssueInstantXMLObject no_kw
          (example_response\<lparr>Response_issuer := None\<rparr>) initial_factory_state) = Inl TypeError"
  by (simp add: ResponseElementTree_create_def Let_def IssuerElementTree_create_def)

theorem create_children_in_order_witness:
  "(\<exists>ea. AssertionElementTree_create example_IssueInstantXMLObject no_kw example_assertion
           initial_factory_state = (Inr ea, initial_factory_state) \<and>
         map Inr (elem_children ea) =
           [IssuerElementTree_create (Some example_issuer),
            ConditionsElementTree_create example_IssueInstantXMLObject
              \<lparr>Conditions_notBefore = 1267000000, Conditions_notOnOrAfter = 1267028800,
               Conditions_conditions = []\<rparr>,
            fst (AttributeStatementElementTree_create no_kw
                   \<lparr>AttributeStatement_attributes = [example_attribute]\<rparr> initial_factory_state)]) \<and>
   (\<exists>er. ResponseElementTree_create example_IssueInstantXMLObject no_kw
           (example_response\<lparr>Response_assertions :=
              [example_assertion, example_assertion\<lparr>Assertion_issuer := None\<rparr>]\<rparr>)
           initial_factory_state = (Inr er, initial_factory_state) \<and>
         map Inr (elem_children er) =
           [IssuerElementTree_create (Some example_issuer),
            StatusElementTree_create (Response_status example_response),
            fst (AssertionElementTree_create example_IssueInstantXMLObject no_kw example_assertion
                   initial_factory_state),
            fst (AssertionElementTree_create example_IssueInstantXMLObject no_kw
                   (example_assertion\<lparr>Assertion_issuer := None\<rparr>) initial_factory_state)]) \<and>
   ResponseElementTree_create example_IssueInstantXMLObject no_kw
     (example_response\<lparr>Response_status := None\<rparr>) initial_factory_state =
     (Inl TypeError, initial_factory_state) \<and>
   (\<exists>eq. AttributeQueryElementTree_create example_IssueInstantXMLObject no_kw example_query
           initial_factory_state = (Inr eq, initial_factory_state) \<and>
         map Inr (elem_children eq) =
           IssuerElementTree_create (Some example_issuer) #
           SubjectElementTree_create (Some example_subject) #
           map (\<lambda>a. fst (AttributeElementTree_create no_kw a initial_factory_state))
             (AttributeQuery_attributes example_query)) \<and>
   AttributeQueryElementTree_create example_IssueInstantXMLObject no_kw
     (example_query\<lparr>AttributeQuery_subject := None\<rparr>) initial_factory_state =
     (Inl TypeError, initial_factory_state) \<and>
   (\<exists>es. AttributeStatementElementTree_create no_kw
           \<lparr>AttributeStatement_attributes = [example_attribute]\<rparr> initial_factory_state =
           (Inr es, initial_factory_state) \<and>
         map Inr (elem_children es) =
           [fst (AttributeElementTree_create no_kw example_attribute initial_factory_state)]) \<and>
   (\<exists>et. AttributeElementTree_create no_kw example_attribute initial_factory_state =
           (Inr et, initial_factory_state) \<and>
         map Inr (elem_children et) =
           [fst (create_attributeValue no_kw (XSStringAttributeValue (Some ''alice@example.org''))
                   initial_factory_state)])"
proof -
  let ?cls = example_IssueInstantXMLObject and ?st = initial_factory_state
  let ?a2 = "example_assertion\<lparr>Assertion_issuer := None\<rparr>"
  let ?r = "example_response\<lparr>Response_assertions := [example_assertion, ?a2]\<rparr>"
  let ?s = "\<lparr>AttributeStatement_attributes = [example_attribute]\<rparr>"
  have codec: "\<exists>c el. classMap ?st (class_of (XSStringAttributeValue (Some ''alice@example.org''))) =
                 Some c \<and> av_create c (XSStringAttributeValue (Some ''alice@example.org'')) = Inr el"
    by (simp add: initial_factory_state_def AttributeValueElementTreeFactory_classMap_def
        XSStringAttributeValueElementTree_def XSStringAttributeValueElementTree_create_def
        AttributeValueElementTreeBase_create_def Let_def)
  obtain et where et: "AttributeElementTree_create no_kw example_attribute ?st = (Inr et, ?st)"
    using Attribute_create_no_kw_succeeds[of example_attribute ?st] codec
    by (auto simp: example_attribute_def)
  obtain es where es: "AttributeStatementElementTree_create no_kw ?s ?st = (Inr es, ?st)"
    using AttributeStatement_create_no_kw_succeeds[of ?s ?st] codec
    by (auto simp: example_attribute_def)
  obtain ea where ea: "AssertionElementTree_create ?cls no_kw example_assertion ?st = (Inr ea, ?st)"
    using Assertion_create_no_kw_succeeds[of example_assertion ?st ?cls] codec
    by (auto simp: example_assertion_def example_attribute_def)
  obtain ea2 where ea2: "AssertionElementTree_create ?cls no_kw ?a2 ?st = (Inr ea2, ?st)"
    using Assertion_create_no_kw_succeeds[of ?a2 ?st ?cls] codec
    by (auto simp: example_assertion_def example_attribute_def)
  obtain er where er: "ResponseElementTree_create ?cls no_kw ?r ?st = (Inr er, ?st)"
    using ea ea2
    by (simp add: ResponseElementTree_create_def Let_def example_response_def
        IssuerElementTree_create_def StatusElementTree_create_def StatusCodeElementTree_create_def)
  obtain eq where eq: "AttributeQueryElementTree_create ?cls no_kw example_query ?st = (Inr eq, ?st)"
    by (simp add: AttributeQueryElementTree_create_def Let_def example_query_def
        example_subject_def
        IssuerElementTree_create_def SubjectElementTree_create_def NameIdElementTree_create_def
        AttributeElementTree_create_def)
  show ?thesis
    using
      create_children_in_order [of ?cls no_kw example_assertion ?st ea ?st ?r er ?st
        example_query eq ?st ?s es ?st example_attribute et ?st]
      create_children_in_order [of ?cls no_kw example_assertion ?st ea ?st
        "example_response\<lparr>Response_status := None\<rparr>" er ?st
        "example_query\<lparr>AttributeQuery_subject := None\<rparr>" eq ?st ?s es ?st example_attribute et ?st]
      ea er eq es et
    by (simp add: example_assertion_def example_response_def example_query_def
        example_attribute_def)
qed

section \<open>Registrations in the class maps of the factory\<close>

lemma register_classes_frame:
  "register_classes ccm m = (r, m') \<Longrightarrow> k \<notin> fst ` set ccm \<Longrightarrow> m' k = m k"
  by (induction ccm arbitrary: m) (auto split: if_splits)

lemma register_ids_frame:
  "register_ids cim m = (r, m') \<Longrightarrow> StrKey s \<notin> fst ` set cim \<Longrightarrow> m' s = m s"
  by (induction cim m rule: register_ids.induct) (auto split: if_splits)

lemma register_classes_entry:
  "register_classes ccm m = (Inr u, m') \<Longrightarrow> distinct (map fst ccm) \<Longrightarrow> (k, c) \<in> set ccm \<Longrightarrow>
   m' k = Some c"
proof (induction ccm arbitrary: m)
  case Nil
  then show ?case by simp
next
  case (Cons kc rest)
  obtain k0 c0 where kc: "kc = (k0, c0)" by (cases kc)
  from Cons.prems(1) have rest: "register_classes rest (m(k0 \<mapsto> c0)) = (Inr u, m')"
    by (auto simp: kc split: if_splits)
  show ?case
  proof (cases "(k, c) = (k0, c0)")
    case True
    with Cons.prems(2) have "k \<notin> fst ` set rest"
      by (simp add: kc)
    from register_classes_frame[OF rest this] True show ?thesis by simp
  next
    case False
    with Cons.prems(3) have "(k, c) \<in> set rest"
      by (auto simp: kc)
    with Cons.IH[OF rest] Cons.prems(2) show ?thesis by simp
  qed
qed

lemma register_ids_entry:
  "register_ids cim m = (Inr u, m') \<Longrightarrow> distinct (map fst cim) \<Longrightarrow> (StrKey s, c) \<in> set cim \<Longrightarrow>
   m' s = Some c"
proof (induction cim m rule: register_ids.induct)
  case (1 m)
  then show ?case by simp
next
  case (2 etreeClass rest m)
  then show ?case by simp
next
  case (3 samlId etreeClass rest m)
  from "3.prems"(1) have rest: "register_ids rest (m(samlId \<mapsto> etreeClass)) = (Inr u, m')"
    by simp
  show ?case
  proof (cases "(s, c) = (samlId, etreeClass)")
    case True
    with "3.prems"(2) have "StrKey s \<notin> fst ` set rest"
      by simp
    from register_ids_frame[OF rest this] True show ?thesis by simp
  next
    case False
    with "3.prems"(3) have "(StrKey s, c) \<in> set rest"
      by auto
    with "3.IH"[OF rest] "3.prems"(2) show ?thesis by simp
  qed
qed

lemma factory_init_frame:
  assumes "AttributeValueElementTreeFactory_init kw st = (r, st')"
  shows "k \<notin> fst ` set (customClassMap kw) \<Longrightarrow> classMap st' k = classMap st k"
    and "StrKey s \<notin> fst ` set (customIdMap kw) \<Longrightarrow> idMap st' s = idMap st s"
proof -
  obtain r1 cm where cm: "register_classes (customClassMap kw) (classMap st) = (r1, cm)"
    by (cases "register_classes (customClassMap kw) (classMap st)")
  obtain r2 im where im: "register_ids (customIdMap kw) (idMap st) = (r2, im)"
    by (cases "register_ids (customIdMap kw) (idMap st)")
  from assms cm im have cls: "classMap st' = cm"
    and ids: "idMap st' = im \<or> idMap st' = idMap st"
    by (auto simp: AttributeValueElementTreeFactory_init_def split: sum.splits)
  show "k \<notin> fst ` set (customClassMap kw) \<Longrightarrow> classMap st' k = classMap st k"
    using register_classes_frame[OF cm] cls by simp
  show "StrKey s \<notin> fst ` set (customIdMap kw) \<Longrightarrow> idMap st' s = idMap st s"
    using register_ids_frame[OF im] ids by auto
qed

lemma factory_init_entry:
  assumes "AttributeValueElementTreeFactory_init kw st = (Inr u, st1)"
  shows "distinct (map fst (customClassMap kw)) \<Longrightarrow> (k, c) \<in> set (customClassMap kw) \<Longrightarrow>
           classMap st1 k = Some c"
    and "distinct (map fst (customIdMap kw)) \<Longrightarrow> (StrKey s, c) \<in> set (customIdMap kw) \<Longrightarrow>
           idMap st1 s = Some c"
proof -
  from assms obtain cm im where
    cm: "register_classes (customClassMap kw) (classMap st) = (Inr (), cm)" and
    im: "register_ids (customIdMap kw) (idMap st) = (Inr (), im)" and
    st1: "st1 = st\<lparr>classMap := cm, idMap := im\<rparr>"
    by (auto simp: AttributeValueElementTreeFactory_init_def split: prod.splits sum.splits)
  show "distinct (map fst (customClassMap kw)) \<Longrightarrow> (k, c) \<in> set (customClassMap kw) \<Longrightarrow>
           classMap st1 k = Some c"
    using register_classes_entry[OF cm] by (simp add: st1)
  show "distinct (map fst (customIdMap kw)) \<Longrightarrow> (StrKey s, c) \<in> set (customIdMap kw) \<Longrightarrow>
           idMap st1 s = Some c"
    using register_ids_entry[OF im] by (simp add: st1)
qed



lemma factory_call_class:
  "classMap st (class_of v) = Some c \<Longrightarrow>
   AttributeValueElementTreeFactory_call (AttributeValue_input v) st = Inr c"
  by (simp add: AttributeValueElementTreeFactory_call_def)

lemma factory_call_id:
  "idMap st s = Some c \<Longrightarrow> AttributeValueElementTreeFactory_call (String_input s) st = Inr c"
  by (simp add: AttributeValueElementTreeFactory_call_def)


lemma GroupRole_registered:
  "AttributeValueElementTreeFactory_init GroupRole_kw initial_factory_state =
     (Inr (),
      initial_factory_state
        \<lparr>classMap := (classMap initial_factory_state)
           (CustomAttributeValue_class ''GroupRole'' \<mapsto> GroupRoleElementTree),
         idMap := (idMap initial_factory_state)(''esg:groupRole'' \<mapsto> GroupRoleElementTree)\<rparr>)"
  by (simp add: AttributeValueElementTreeFactory_init_def GroupRole_kw_def)


section \<open>Extending the attribute values with custom codecs\<close>

lemma create_attributeValue_registered:
  assumes "AttributeValueElementTreeFactory_init kw st = (Inr u, st1)"
    and "distinct (map fst (customClassMap kw))"
    and "(class_of v, c) \<in> set (customClassMap kw)"
  shows "create_attributeValue kw v st = (av_create c v, st1)"
  using assms factory_init_entry(1)[OF assms(1,2,3)]
  by (simp add: create_attributeValue_def factory_call_class)

lemma parse_attributeValues_registered:
  assumes "AttributeValueElementTreeFactory_init kw st = (Inr u, st1)"
    and "distinct (map fst (customIdMap kw))"
    and "(StrKey typeId, c) \<in> set (customIdMap kw)"
    and "getLocalPart (elem_tag childElem) = AttributeValue_DEFAULT_ELEMENT_LOCAL_NAME"
    and "find (\<lambda>(attribName, attribVal). getLocalPart attribName = ''type'')
           (elem_attrib childElem) = Some (attribName, typeId)"
  shows "parse_attributeValues kw [childElem] attribute st =
           (map_sum id
              (\<lambda>attributeValue. attribute\<lparr>Attribute_attributeValues :=
                 Attribute_attributeValues attribute @ [attributeValue]\<rparr>)
              (av_parse c childElem), st1)"
  using assms factory_init_entry(2)[OF assms(1,2,3)]
  by (simp add: factory_call_id split: sum.splits)

lemma create_attributeValue_unregistered:
  assumes "classMap st (class_of v) = None"
  shows "create_attributeValue no_kw v st = (Inl TypeError, st)"
  using assms
  by (simp add: create_attributeValue_def factory_init_no_kw
      AttributeValueElementTreeFactory_call_def)

lemma parse_attributeValues_unregistered:
  assumes "idMap st typeId = None"
    and "getLocalPart (elem_tag childElem) = AttributeValue_DEFAULT_ELEMENT_LOCAL_NAME"
    and "find (\<lambda>(attribName, attribVal). getLocalPart attribName = ''type'')
           (elem_attrib childElem) = Some (attribName, typeId)"
  shows "parse_attributeValues no_kw (childElem # rest) attribute st = (Inl TypeError, st)"
  using assms
  by (simp add: factory_init_no_kw AttributeValueElementTreeFactory_call_def)

text \<open>
  Claim C7, as amended. When a factory is constructed with a codec registered under a
  class in \<open>customClassMap\<close> and under a type identifier in \<open>customIdMap\<close>, the attribute
  binding creates a value of that class with the \<open>create\<close> of the codec and parses an
  \<open>AttributeValue\<close> element of that type identifier with its \<open>parse\<close>, so both succeed
  when the codec's do; the entries of the maps under other classes and identifiers are
  what they were. In a state of the class maps that has no entry for the class
  (respectively the type identifier), a factory constructed without custom maps does
  not resolve it: create and parse fail with \<open>TypeError\<close>, and no default codec is
  used.
\<close>

theorem custom_codec_extensibility:
  "(AttributeValueElementTreeFactory_init kw st = (Inr u, st1) \<and>
    distinct (map fst (customClassMap kw)) \<and> distinct (map fst (customIdMap kw)) \<longrightarrow>
      ((class_of v, c) \<in> set (customClassMap kw) \<longrightarrow>
         AttributeValueElementTreeFactory_call (AttributeValue_input v) st1 = Inr c \<and>
         create_attributeValue kw v st = (av_create c v, st1)) \<and>
      ((StrKey typeId, c) \<in> set (customIdMap kw) \<and>
       getLocalPart (elem_tag childElem) = AttributeValue_DEFAULT_ELEMENT_LOCAL_NAME \<and>
       find (\<lambda>(attribName, attribVal). getLocalPart attribName = ''type'')
         (elem_attrib childElem) = Some (attribName, typeId) \<longrightarrow>
         AttributeValueElementTreeFactory_call (String_input typeId) st1 = Inr c \<and>
         parse_attributeValues kw [childElem] attribute st =
           (map_sum id
              (\<lambda>attributeValue. attribute\<lparr>Attribute_attributeValues :=
                 Attribute_attributeValues attribute @ [attributeValue]\<rparr>)
              (av_parse c childElem), st1)) \<and>
      (k \<notin> fst ` set (customClassMap kw) \<longrightarrow> classMap st1 k = classMap st k) \<and>
      (StrKey s \<notin> fst ` set (customIdMap kw) \<longrightarrow> idMap st1 s = idMap st s)) \<and>
   (classMap st (class_of v) = None \<longrightarrow>
      AttributeValueElementTreeFactory_init no_kw st = (Inr (), st) \<and>
      AttributeValueElementTreeFactory_call (AttributeValue_input v) st = Inl TypeError \<and>
      create_attributeValue no_kw v st = (Inl TypeError, st)) \<and>
   (idMap st typeId = None \<longrightarrow>
      AttributeValueElementTreeFactory_call (String_input typeId) st = Inl TypeError \<and>
      (getLocalPart (elem_tag childElem) = AttributeValue_DEFAULT_ELEMENT_LOCAL_NAME \<and>
       find (\<lambda>(attribName, attribVal). getLocalPart attribName = ''type'')
         (elem_attrib childElem) = Some (attribName, typeId) \<longrightarrow>
         parse_attributeValues no_kw [childElem] attribute st = (Inl TypeError, st)))"
proof (intro conjI impI; (elim conjE)?)
  assume init: "AttributeValueElementTreeFactory_init kw st = (Inr u, st1)"
    and d: "distinct (map fst (customClassMap kw))"
    and r: "(class_of v, c) \<in> set (customClassMap kw)"
  from factory_init_entry(1)[OF init d r]
  show "AttributeValueElementTreeFactory_call (AttributeValue_input v) st1 = Inr c"
    by (rule factory_call_class)
  from init d r show "create_attributeValue kw v st = (av_create c v, st1)"
    by (rule create_attributeValue_registered)
next
  assume init: "AttributeValueElementTreeFactory_init kw st = (Inr u, st1)"
    and d: "distinct (map fst (customIdMap kw))"
    and r: "(StrKey typeId, c) \<in> set (customIdMap kw)"
    and t: "getLocalPart (elem_tag childElem) = AttributeValue_DEFAULT_ELEMENT_LOCAL_NAME"
    and f: "find (\<lambda>(attribName, attribVal). getLocalPart attribName = ''type'')
              (elem_attrib childElem) = Some (attribName, typeId)"
  from factory_init_entry(2)[OF init d r]
  show "AttributeValueElementTreeFactory_call (String_input typeId) st1 = Inr c"
    by (rule factory_call_id)
  from init d r t f show "parse_attributeValues kw [childElem] attribute st =
           (map_sum id
              (\<lambda>attributeValue. attribute\<lparr>Attribute_attributeValues :=
                 Attribute_attributeValues attribute @ [attributeValue]\<rparr>)
              (av_parse c childElem), st1)"
    by (rule parse_attributeValues_registered)
next
  assume "AttributeValueElementTreeFactory_init kw st = (Inr u, st1)"
    and "k \<notin> fst ` set (customClassMap kw)"
  then show "classMap st1 k = classMap st k"
    by (rule factory_init_frame(1))
next
  assume "AttributeValueElementTreeFactory_init kw st = (Inr u, st1)"
    and "StrKey s \<notin> fst ` set (customIdMap kw)"
  then show "idMap st1 s = idMap st s"
    by (rule factory_init_frame(2))
next
  show "AttributeValueElementTreeFactory_init no_kw st = (Inr (), st)"
    by (rule factory_init_no_kw)
next
  assume "classMap st (class_of v) = None"
  then show "AttributeValueElementTreeFactory_call (AttributeValue_input v) st = Inl TypeError"
    by (simp add: AttributeValueElementTreeFactory_call_def)
next
  assume "classMap st (class_of v) = None"
  then show "create_attributeValue no_kw v st = (Inl TypeError, st)"
    by (rule create_attributeValue_unregistered)
next
  assume "idMap st typeId = None"
  then show "AttributeValueElementTreeFactory_call (String_input typeId) st = Inl TypeError"
    by (simp add: AttributeValueElementTreeFactory_call_def)
next
  assume "idMap st typeId = None"
    and "getLocalPart (elem_tag childElem) = AttributeValue_DEFAULT_ELEMENT_LOCAL_NAME"
    and "find (\<lambda>(attribName, attribVal). getLocalPart attribName = ''type'')
           (elem_attrib childElem) = Some (attribName, typeId)"
  then show "parse_attributeValues no_kw [childElem] attribute st = (Inl TypeError, st)"
    by (rule parse_attributeValues_unregistered)
qed

theorem custom_codec_extensibility_witness:
  "fst (AttributeValueElementTreeFactory_init GroupRole_kw initial_factory_state) = Inr () \<and>
   fst (create_attributeValue GroupRole_kw
          (CustomAttributeValue ''GroupRole'' [(''group'', ''staff''), (''role'', ''admin'')])
          initial_factory_state) =
     Inr (Element ''{urn:oasis:names:tc:SAML:2.0:assertion}AttributeValue''
            [(''{http://www.w3.org/2001/XMLSchema-instance}type'', ''esg:groupRole''),
             (''group'', ''staff''), (''role'', ''admin'')] None []) \<and>
   fst (parse_attributeValues GroupRole_kw
          [Element ''{urn:oasis:names:tc:SAML:2.0:assertion}AttributeValue''
             [(''{http://www.w3.org/2001/XMLSchema-instance}type'', ''esg:groupRole''),
              (''group'', ''staff''), (''role'', ''admin'')] None []]
          \<lparr>Attribute_name = Some ''urn:esg:role'', Attribute_friendlyName = None,
           Attribute_nameFormat = None, Attribute_attributeValues = []\<rparr>
          initial_factory_state) =
     Inr \<lparr>Attribute_name = Some ''urn:esg:role'', Attribute_friendlyName = None,
          Attribute_nameFormat = None,
          Attribute_attributeValues =
            [CustomAttributeValue ''GroupRole'' [(''group'', ''staff''), (''role'', ''admin'')]]\<rparr> \<and>
   classMap (snd (AttributeValueElementTreeFactory_init GroupRole_kw initial_factory_state))
     XSStringAttributeValue_class = Some XSStringAttributeValueElementTree \<and>
   idMap (snd (AttributeValueElementTreeFactory_init GroupRole_kw initial_factory_state))
     ''xs:string'' = Some XSStringAttributeValueElementTree \<and>
   fst (create_attributeValue no_kw
          (CustomAttributeValue ''GroupRole'' [(''group'', ''staff''), (''role'', ''admin'')])
          initial_factory_state) = Inl TypeError \<and>
   fst (parse_attributeValues no_kw
          [Element ''{urn:oasis:names:tc:SAML:2.0:assertion}AttributeValue''
             [(''{http://www.w3.org/2001/XMLSchema-instance}type'', ''esg:groupRole''),
              (''group'', ''staff''), (''role'', ''admin'')] None []]
          \<lparr>Attribute_name = Some ''urn:esg:role'', Attribute_friendlyName = None,
           Attribute_nameFormat = None, Attribute_attributeValues = []\<rparr>
          initial_factory_state) = Inl TypeError"
proof -
  let ?v = "CustomAttributeValue ''GroupRole'' [(''group'', ''staff''), (''role'', ''admin'')]"
  let ?child = "Element ''{urn:oasis:names:tc:SAML:2.0:assertion}AttributeValue''
             [(''{http://www.w3.org/2001/XMLSchema-instance}type'', ''esg:groupRole''),
              (''group'', ''staff''), (''role'', ''admin'')] None []"
  let ?attr = "\<lparr>Attribute_name = Some ''urn:esg:role'', Attribute_friendlyName = None,
           Attribute_nameFormat = None, Attribute_attributeValues = []\<rparr>"
  have tag: "getLocalPart (elem_tag ?child) = AttributeValue_DEFAULT_ELEMENT_LOCAL_NAME"
    by (simp add: getLocalPart_def local_names)
  have ty: "find (\<lambda>(attribName, attribVal). getLocalPart attribName = ''type'')
          (elem_attrib ?child) =
        Some (''{http://www.w3.org/2001/XMLSchema-instance}type'', ''esg:groupRole'')"
    by (simp add: getLocalPart_def)
  have cr: "av_create GroupRoleElementTree ?v = Inr ?child"
    by (simp add: GroupRoleElementTree_def GroupRole_create_def QName_str_def
        element_names local_names SAML20_NS_def XSI_NS_def)
  have pa: "av_parse GroupRoleElementTree ?child = Inr ?v"
    by (simp add: GroupRoleElementTree_def GroupRole_parse_def tag [simplified])
  have none: "classMap initial_factory_state (class_of ?v) = None"
    "idMap initial_factory_state ''esg:groupRole'' = None"
    by (simp_all add: initial_factory_state_def AttributeValueElementTreeFactory_classMap_def
        AttributeValueElementTreeFactory_idMap_def)
  have old: "classMap initial_factory_state XSStringAttributeValue_class =
        Some XSStringAttributeValueElementTree"
      "idMap initial_factory_state ''xs:string'' = Some XSStringAttributeValueElementTree"
    by (simp_all add: initial_factory_state_def AttributeValueElementTreeFactory_classMap_def
        AttributeValueElementTreeFactory_idMap_def)
  show ?thesis
    using
      custom_codec_extensibility
        [of GroupRole_kw initial_factory_state "()"
            "snd (AttributeValueElementTreeFactory_init GroupRole_kw initial_factory_state)"
            ?v GroupRoleElementTree "''esg:groupRole''" ?child
            "''{http://www.w3.org/2001/XMLSchema-instance}type''" ?attr
            XSStringAttributeValue_class "''xs:string''"]
      custom_codec_extensibility
        [of no_kw initial_factory_state "()" initial_factory_state
            ?v GroupRoleElementTree "''esg:groupRole''" ?child
            "''{http://www.w3.org/2001/XMLSchema-instance}type''" ?attr
            XSStringAttributeValue_class "''xs:string''"]
      tag ty cr pa none old
    by (simp add: GroupRole_registered) (simp add: GroupRole_kw_def)
qed

theorem registration_outlives_factory_counterexample:
  "AttributeValueElementTreeFactory_call (String_input ''esg:groupRole'')
     (snd (AttributeValueElementTreeFactory_init no_kw
        (snd (AttributeValueElementTreeFactory_init GroupRole_kw initial_factory_state)))) =
     Inr GroupRoleElementTree \<and>
   AttributeValueElementTreeFactory_call
     (AttributeValue_input (CustomAttributeValue ''GroupRole'' [(''group'', ''staff'')]))
     (snd (AttributeValueElementTreeFactory_init no_kw
        (snd (AttributeValueElementTreeFactory_init GroupRole_kw initial_factory_state)))) =
     Inr GroupRoleElementTree"
  by (simp add: GroupRole_registered factory_init_no_kw AttributeValueElementTreeFactory_call_def)

section \<open>Round trip\<close>

lemma Issuer_roundtrip:
  "stripped (Issuer_value i) \<Longrightarrow>
   \<exists>e. IssuerElementTree_create (Some i) = Inr e \<and> IssuerElementTree_parse e = Inr i \<and>
       getLocalPart (elem_tag e) = Issuer_DEFAULT_ELEMENT_LOCAL_NAME"
  by (simp add: IssuerElementTree_create_def IssuerElementTree_parse_def local_part_of_names
      stripped_def)

lemma NameID_roundtrip:
  "stripped (NameID_value n) \<Longrightarrow>
   \<exists>e. NameIdElementTree_create (Some n) = Inr e \<and> NameIdElementTree_parse e = Inr n"
  by (simp add: NameIdElementTree_create_def NameIdElementTree_parse_def local_part_of_names
      stripped_def)

lemma Subject_roundtrip:
  assumes "Subject_nameID s = Some n" and "stripped (NameID_value n)"
  shows "\<exists>e. SubjectElementTree_create (Some s) = Inr e \<and> SubjectElementTree_parse e = Inr s \<and>
       getLocalPart (elem_tag e) = Subject_DEFAULT_ELEMENT_LOCAL_NAME"
proof -
  from NameID_roundtrip[OF assms(2)] obtain ne where
    ne: "NameIdElementTree_create (Some n) = Inr ne"
      "NameIdElementTree_parse ne = Inr n"
    by blast
  let ?e = "Element (QName_str Subject_DEFAULT_ELEMENT_NAME) [] None [ne]"
  have "SubjectElementTree_create (Some s) = Inr ?e"
    by (simp add: SubjectElementTree_create_def ne assms(1))
  moreover have "SubjectElementTree_parse ?e = Inr s"
    using assms(1) by (simp add: SubjectElementTree_parse_def local_part_of_names ne)
  moreover have "getLocalPart (elem_tag ?e) = Subject_DEFAULT_ELEMENT_LOCAL_NAME"
    by (simp add: local_part_of_names)
  ultimately show ?thesis by blast
qed

lemma Status_roundtrip:
  assumes "Status_statusCode s = Some c" and "stripped (StatusCode_value c)"
    and "Status_statusMessage s = None"
  shows "\<exists>e. StatusElementTree_create (Some s) = Inr e \<and> StatusElementTree_parse e = Inr s \<and>
       getLocalPart (elem_tag e) = Status_DEFAULT_ELEMENT_LOCAL_NAME"
  using assms
  by (simp add: StatusElementTree_create_def StatusElementTree_parse_def local_part_of_names
      StatusCodeElementTree_create_def StatusCodeElementTree_parse_def stripped_def)

lemma create_attributeValue_roundtrip:
  assumes "AttributeValueElementTreeFactory_init kw st = (Inr u, st1)"
    and "same_or_registered kw st s" and "roundtrip_value st1 v"
  shows "\<exists>el. create_attributeValue kw v s = (Inr el, st1) \<and> parses_back st1 v el"
proof -
  from assms(1) have "AttributeValueElementTreeFactory_init kw st = (Inr (), st1)"
    by simp
  from same_or_registered_init_from[OF assms(2) this]
  have init: "AttributeValueElementTreeFactory_init kw s = (Inr (), st1)" .
  from assms(3) obtain c el where "classMap st1 (class_of v) = Some c"
    "av_create c v = Inr el" "parses_back st1 v el"
    by (auto simp: roundtrip_value_def split: option.splits sum.splits)
  then show ?thesis
    by (simp add: create_attributeValue_def init factory_call_class)
qed

lemma parse_attributeValues_step:
  assumes "parses_back st1 v el"
  shows "parse_attributeValues no_kw (el # rest) a st1 =
           parse_attributeValues no_kw rest
             (a\<lparr>Attribute_attributeValues := Attribute_attributeValues a @ [v]\<rparr>) st1"
  using assms
  by (auto simp: parses_back_def factory_init_no_kw AttributeValueElementTreeFactory_call_def
      split: option.splits)

lemma parse_attributeValues_roundtrip:
  assumes "list_all2 (parses_back st1) vs els"
  shows "parse_attributeValues no_kw els a st1 =
           (Inr (a\<lparr>Attribute_attributeValues := Attribute_attributeValues a @ vs\<rparr>), st1)"
  using assms
proof (induction vs els arbitrary: a rule: list_all2_induct)
  case Nil
  then show ?case by simp
next
  case (Cons v vs el els)
  show ?case
    by (simp only: parse_attributeValues_step[OF Cons.hyps(1)] Cons.IH) simp
qed

lemma same_or_registered_after:
  "AttributeValueElementTreeFactory_init kw st = (Inr u, st1) \<Longrightarrow> same_or_registered kw st st1"
  by (simp add: same_or_registered_def)

lemma append_each_values_roundtrip:
  assumes "AttributeValueElementTreeFactory_init kw st = (Inr u, st1)"
    and "same_or_registered kw st s" and "list_all (roundtrip_value st1) vs"
  shows "\<exists>els s'. append_each (create_attributeValue kw) vs elem s =
                    (Inr (Element (elem_tag elem) (elem_attrib elem) (elem_text elem)
                            (elem_children elem @ els)), s') \<and>
                  list_all2 (parses_back st1) vs els \<and> (if vs = [] then s' = s else s' = st1)"
  using assms(2,3)
proof (induction vs arbitrary: elem s)
  case Nil
  then show ?case by simp
next
  case (Cons v vs)
  from Cons.prems(2) have v: "roundtrip_value st1 v" and vs: "list_all (roundtrip_value st1) vs"
    by simp_all
  from create_attributeValue_roundtrip[OF assms(1) Cons.prems(1) v] obtain el where
    el: "create_attributeValue kw v s = (Inr el, st1)" "parses_back st1 v el"
    by blast
  from Cons.IH[OF same_or_registered_after[OF assms(1)] vs, of "elem_append el elem"]
  obtain els s' where
    rest: "append_each (create_attributeValue kw) vs (elem_append el elem) st1 =
             (Inr (Element (elem_tag (elem_append el elem)) (elem_attrib (elem_append el elem))
                     (elem_text (elem_append el elem))
                     (elem_children (elem_append el elem) @ els)), s')"
      "list_all2 (parses_back st1) vs els" "if vs = [] then s' = st1 else s' = st1"
    by blast
  from rest(3) have s': "s' = st1"
    by (simp split: if_splits)
  have "append_each (create_attributeValue kw) (v # vs) elem s =
          (Inr (Element (elem_tag elem) (elem_attrib elem) (elem_text elem)
                  (elem_children elem @ el # els)), st1)"
    using rest(1) by (simp add: el(1) s' elem_append_def)
  moreover have "list_all2 (parses_back st1) (v # vs) (el # els)"
    using el(2) rest(2) by simp
  ultimately show ?case
    by (intro exI[of _ "el # els"] exI[of _ st1]) simp
qed

lemma Attribute_create_head:
  "AttributeElementTree_create kw a st =
     append_each (create_attributeValue kw) (Attribute_attributeValues a) (Attribute_head a) st"
  by (simp add: AttributeElementTree_create_def Attribute_head_def Let_def)

lemma Attribute_head_tag:
  "getLocalPart (elem_tag (Attribute_head a)) = Attribute_DEFAULT_ELEMENT_LOCAL_NAME"
  "elem_children (Attribute_head a) = []"
  by (simp_all add: Attribute_head_def set_if_true_sel local_part_of_names)

lemma Attribute_head_attrib:
  assumes "roundtrip_Attribute st a"
  shows "map_of (elem_attrib (Attribute_head a)) Attribute_NAME_ATTRIB_NAME = Attribute_name a"
    and "map_of (elem_attrib (Attribute_head a)) Attribute_FRIENDLY_NAME_ATTRIB_NAME =
           Attribute_friendlyName a"
    and "map_of (elem_attrib (Attribute_head a)) Attribute_NAME_FORMAT_ATTRIB_NAME =
           Attribute_nameFormat a"
  using assms
  by (cases "Attribute_name a"; cases "Attribute_friendlyName a"; cases "Attribute_nameFormat a";
      simp add: roundtrip_Attribute_def Attribute_head_def set_if_true_def elem_set_def
        attrib_names)+

lemma Attribute_roundtrip:
  assumes init: "AttributeValueElementTreeFactory_init kw st = (Inr u, st1)"
    and s: "same_or_registered kw st s" and a: "roundtrip_Attribute st1 a"
  shows "\<exists>e s'. AttributeElementTree_create kw a s = (Inr e, s') \<and>
           (if Attribute_attributeValues a = [] then s' = s else s' = st1) \<and>
           getLocalPart (elem_tag e) = Attribute_DEFAULT_ELEMENT_LOCAL_NAME \<and>
           (\<forall>t. (Attribute_attributeValues a \<noteq> [] \<longrightarrow> t = st1) \<longrightarrow>
                AttributeElementTree_parse no_kw e t = (Inr a, t))"
proof -
  from a have vs: "list_all (roundtrip_value st1) (Attribute_attributeValues a)"
    by (simp add: roundtrip_Attribute_def)
  from append_each_values_roundtrip[OF init s vs, of "Attribute_head a"]
  obtain els s' where
    c: "append_each (create_attributeValue kw) (Attribute_attributeValues a) (Attribute_head a) s =
          (Inr (Element (elem_tag (Attribute_head a)) (elem_attrib (Attribute_head a))
                  (elem_text (Attribute_head a)) (elem_children (Attribute_head a) @ els)), s')"
    and p: "list_all2 (parses_back st1) (Attribute_attributeValues a) els"
    and s': "if Attribute_attributeValues a = [] then s' = s else s' = st1"
    by blast
  define e where "e = Element (elem_tag (Attribute_head a)) (elem_attrib (Attribute_head a))
                  (elem_text (Attribute_head a)) els"
  have create: "AttributeElementTree_create kw a s = (Inr e, s')"
    using c by (simp add: Attribute_create_head Attribute_head_tag e_def)
  have tag: "getLocalPart (elem_tag e) = Attribute_DEFAULT_ELEMENT_LOCAL_NAME"
    by (simp add: e_def Attribute_head_tag)
  have parse: "AttributeElementTree_parse no_kw e t = (Inr a, t)"
    if t: "Attribute_attributeValues a \<noteq> [] \<longrightarrow> t = st1" for t
  proof (cases "Attribute_attributeValues a = []")
    case True
    with p have "els = []" by simp
    with True show ?thesis
      by (simp add: AttributeElementTree_parse_def e_def Attribute_head_tag
          Attribute_head_attrib[OF a])
  next
    case False
    with t have t1: "t = st1" by simp
    show ?thesis
      by (simp add: AttributeElementTree_parse_def e_def Attribute_head_tag
          Attribute_head_attrib[OF a] t1 parse_attributeValues_roundtrip[OF p])
  qed
  from create s' tag parse show ?thesis by blast
qed

lemma same_or_registered_step:
  assumes "AttributeValueElementTreeFactory_init kw st = (Inr u, st1)"
    and "same_or_registered kw st s" and "s' = s \<or> s' = st1"
  shows "same_or_registered kw st s'"
  using assms by (auto simp: same_or_registered_def)

lemma append_each_Attributes_roundtrip:
  assumes init: "AttributeValueElementTreeFactory_init kw st = (Inr u, st1)"
    and "same_or_registered kw st s" and "list_all (roundtrip_Attribute st1) as"
  shows "\<exists>es s'. append_each (AttributeElementTree_create kw) as elem s =
                   (Inr (Element (elem_tag elem) (elem_attrib elem) (elem_text elem)
                           (elem_children elem @ es)), s') \<and>
           (s' = s \<or> s' = st1) \<and>
           ((\<exists>a \<in> set as. Attribute_attributeValues a \<noteq> []) \<longrightarrow> s' = st1) \<and>
           (\<forall>t q. ((\<exists>a \<in> set as. Attribute_attributeValues a \<noteq> []) \<longrightarrow> t = st1) \<longrightarrow>
                AttributeQuery_parse_children es q t =
                  (Inr (q\<lparr>AttributeQuery_attributes := AttributeQuery_attributes q @ as\<rparr>), t))"
  using assms(2,3)
proof (induction as arbitrary: elem s)
  case Nil
  show ?case
    by (intro exI[of _ "[]"] exI[of _ s]) simp
next
  case (Cons a as)
  from Cons.prems(2) have a: "roundtrip_Attribute st1 a"
    and as: "list_all (roundtrip_Attribute st1) as"
    by simp_all
  from Attribute_roundtrip[OF init Cons.prems(1) a] obtain e s2 where
    c: "AttributeElementTree_create kw a s = (Inr e, s2)" and
    s2: "if Attribute_attributeValues a = [] then s2 = s else s2 = st1" and
    tag: "getLocalPart (elem_tag e) = Attribute_DEFAULT_ELEMENT_LOCAL_NAME" and
    p: "\<And>t. (Attribute_attributeValues a \<noteq> [] \<longrightarrow> t = st1) \<Longrightarrow>
           AttributeElementTree_parse no_kw e t = (Inr a, t)"
    by blast
  from s2 have s2': "s2 = s \<or> s2 = st1"
    by (simp split: if_splits)
  from Cons.IH[OF same_or_registered_step[OF init Cons.prems(1) s2'] as, of "elem_append e elem"]
  obtain es s' where
    r: "append_each (AttributeElementTree_create kw) as (elem_append e elem) s2 =
          (Inr (Element (elem_tag (elem_append e elem)) (elem_attrib (elem_append e elem))
                  (elem_text (elem_append e elem)) (elem_children (elem_append e elem) @ es)), s')"
    and s': "s' = s2 \<or> s' = st1"
    and s1: "(\<exists>a \<in> set as. Attribute_attributeValues a \<noteq> []) \<longrightarrow> s' = st1"
    and ps: "\<And>t q. ((\<exists>a \<in> set as. Attribute_attributeValues a \<noteq> []) \<longrightarrow> t = st1) \<Longrightarrow>
                AttributeQuery_parse_children es (q :: 'a AttributeQuery) t =
                  (Inr (q\<lparr>AttributeQuery_attributes := AttributeQuery_attributes q @ as\<rparr>), t)"
    by blast
  have create: "append_each (AttributeElementTree_create kw) (a # as) elem s =
                  (Inr (Element (elem_tag elem) (elem_attrib elem) (elem_text elem)
                          (elem_children elem @ e # es)), s')"
    using r by (simp add: c elem_append_def)
  have st_a: "s' = s \<or> s' = st1"
    using s' s2' by blast
  have st_b: "(\<exists>a \<in> set (a # as). Attribute_attributeValues a \<noteq> []) \<longrightarrow> s' = st1"
    using s' s2 s1 by (auto split: if_splits)
  have names: "Attribute_DEFAULT_ELEMENT_LOCAL_NAME \<noteq> Issuer_DEFAULT_ELEMENT_LOCAL_NAME"
    "Attribute_DEFAULT_ELEMENT_LOCAL_NAME \<noteq> Subject_DEFAULT_ELEMENT_LOCAL_NAME"
    by (simp_all add: local_names)
  have parse: "AttributeQuery_parse_children (e # es) q t =
                 (Inr (q\<lparr>AttributeQuery_attributes := AttributeQuery_attributes q @ a # as\<rparr>), t)"
    if t: "(\<exists>a \<in> set (a # as). Attribute_attributeValues a \<noteq> []) \<longrightarrow> t = st1"
    for t and q :: "'a AttributeQuery"
  proof -
    from t have ta: "Attribute_attributeValues a \<noteq> [] \<longrightarrow> t = st1"
      and tas: "(\<exists>a \<in> set as. Attribute_attributeValues a \<noteq> []) \<longrightarrow> t = st1"
      by auto
    show ?thesis
      by (simp add: Let_def tag names p[OF ta] ps[OF tas])
  qed
  from create st_a st_b parse show ?case by blast
qed

lemma AttributeQuery_roundtrip:
  assumes init: "AttributeValueElementTreeFactory_init kw st = (Inr u, st1)"
    and rt: "roundtrip_AttributeQuery cls st1 q"
  shows "\<exists>e st'. AttributeQueryElementTree_create cls kw q st = (Inr e, st') \<and>
             (st' = st \<or> st' = st1) \<and>
             AttributeQueryElementTree_parse cls e st' = (Inr q, st')"
proof -
  from rt obtain i s n where
    i: "AttributeQuery_issuer q = Some i" "stripped (Issuer_value i)" and
    s: "AttributeQuery_subject q = Some s" "Subject_nameID s = Some n"
      "stripped (NameID_value n)" and
    v: "AttributeQuery_version q = SAMLVersion_VERSION_20" and
    t: "str2Datetime cls (datetime2Str cls (AttributeQuery_issueInstant q)) =
          Inr (AttributeQuery_issueInstant q)" and
    as: "list_all (roundtrip_Attribute st1) (AttributeQuery_attributes q)"
    by (auto simp: roundtrip_AttributeQuery_def split: option.splits)
  from Issuer_roundtrip[OF i(2)] obtain ie where
    ie: "IssuerElementTree_create (Some i) = Inr ie" "IssuerElementTree_parse ie = Inr i"
      "getLocalPart (elem_tag ie) = Issuer_DEFAULT_ELEMENT_LOCAL_NAME"
    by blast
  from Subject_roundtrip[OF s(2,3)] obtain se where
    se: "SubjectElementTree_create (Some s) = Inr se" "SubjectElementTree_parse se = Inr s"
      "getLocalPart (elem_tag se) = Subject_DEFAULT_ELEMENT_LOCAL_NAME"
    by blast
  define head where "head = Element (QName_str AttributeQuery_DEFAULT_ELEMENT_NAME)
              [(ID_ATTRIB_NAME, AttributeQuery_id q),
               (ISSUE_INSTANT_ATTRIB_NAME, datetime2Str cls (AttributeQuery_issueInstant q)),
               (VERSION_ATTRIB_NAME, SAMLVersion_str (AttributeQuery_version q))] None
              [ie, se]"
  from append_each_Attributes_roundtrip[OF init same_or_registered_refl as, of head]
  obtain es st' where
    loop: "append_each (AttributeElementTree_create kw) (AttributeQuery_attributes q) head st =
             (Inr (Element (elem_tag head) (elem_attrib head) (elem_text head)
                     (elem_children head @ es)), st')"
    and st': "st' = st \<or> st' = st1"
    and st1: "(\<exists>a \<in> set (AttributeQuery_attributes q). Attribute_attributeValues a \<noteq> []) \<longrightarrow>
                st' = st1"
    and ps: "\<And>t q'. ((\<exists>a \<in> set (AttributeQuery_attributes q).
                          Attribute_attributeValues a \<noteq> []) \<longrightarrow> t = st1) \<Longrightarrow>
                AttributeQuery_parse_children es (q' :: 'a AttributeQuery) t =
                  (Inr (q'\<lparr>AttributeQuery_attributes :=
                           AttributeQuery_attributes q' @ AttributeQuery_attributes q\<rparr>), t)"
    by blast
  let ?e = "Element (QName_str AttributeQuery_DEFAULT_ELEMENT_NAME)
              [(ID_ATTRIB_NAME, AttributeQuery_id q),
               (ISSUE_INSTANT_ATTRIB_NAME, datetime2Str cls (AttributeQuery_issueInstant q)),
               (VERSION_ATTRIB_NAME, SAMLVersion_str (AttributeQuery_version q))] None
              (ie # se # es)"
  have create: "AttributeQueryElementTree_create cls kw q st = (Inr ?e, st')"
    using loop
    by (simp add: AttributeQueryElementTree_create_def Let_def i(1) s(1) ie(1) se(1)
        elem_append_def head_def)
  have names: "Subject_DEFAULT_ELEMENT_LOCAL_NAME \<noteq> Issuer_DEFAULT_ELEMENT_LOCAL_NAME"
    by (simp add: local_names)
  have "AttributeQueryElementTree_parse cls ?e st' =
          (Inr \<lparr>AttributeQuery_id = AttributeQuery_id q,
                 AttributeQuery_issueInstant = AttributeQuery_issueInstant q,
                 AttributeQuery_version = SAMLVersion_VERSION_20,
                 AttributeQuery_issuer = Some i,
                 AttributeQuery_subject = Some s,
                 AttributeQuery_attributes = AttributeQuery_attributes q\<rparr>, st')"
    by (simp add: AttributeQueryElementTree_parse_def local_part_of_names attrib_names v
        SAMLVersion_str_20 SAMLVersion_valueOf_20 t Let_def ie se names ps[OF st1])
  also have "\<lparr>AttributeQuery_id = AttributeQuery_id q,
                 AttributeQuery_issueInstant = AttributeQuery_issueInstant q,
                 AttributeQuery_version = SAMLVersion_VERSION_20,
                 AttributeQuery_issuer = Some i,
                 AttributeQuery_subject = Some s,
                 AttributeQuery_attributes = AttributeQuery_attributes q\<rparr> = q"
    by (simp add: i(1) s(1) v)
  finally have parse: "AttributeQueryElementTree_parse cls ?e st' = (Inr q, st')" .
  from create st' parse show ?thesis by blast
qed

lemma Response_roundtrip:
  assumes "roundtrip_Response cls r"
  shows "\<exists>e. ResponseElementTree_create cls kw r st = (Inr e, st) \<and>
             ResponseElementTree_parse cls e = Inr r"
proof -
  from assms obtain i s c where
    i: "Response_issuer r = Some i" "stripped (Issuer_value i)" and
    s: "Response_status r = Some s" "Status_statusCode s = Some c"
      "stripped (StatusCode_value c)" "Status_statusMessage s = None" and
    v: "Response_version r = SAMLVersion_VERSION_20" and
    t: "str2Datetime cls (datetime2Str cls (Response_issueInstant r)) =
          Inr (Response_issueInstant r)" and
    n: "Response_subject r = None" "Response_assertions r = []"
    by (auto simp: roundtrip_Response_def split: option.splits)
  from Issuer_roundtrip[OF i(2)] obtain ie where
    ie: "IssuerElementTree_create (Some i) = Inr ie" "IssuerElementTree_parse ie = Inr i"
      "getLocalPart (elem_tag ie) = Issuer_DEFAULT_ELEMENT_LOCAL_NAME"
    by blast
  from Status_roundtrip[OF s(2,3,4)] obtain se where
    se: "StatusElementTree_create (Some s) = Inr se" "StatusElementTree_parse se = Inr s"
      "getLocalPart (elem_tag se) = Status_DEFAULT_ELEMENT_LOCAL_NAME"
    by blast
  let ?e = "Element (QName_str Response_DEFAULT_ELEMENT_NAME)
              [(ID_ATTRIB_NAME, Response_id r),
               (ISSUE_INSTANT_ATTRIB_NAME, datetime2Str cls (Response_issueInstant r)),
               (IN_RESPONSE_TO_ATTRIB_NAME, Response_inResponseTo r),
               (VERSION_ATTRIB_NAME, SAMLVersion_str (Response_version r))] None
              [ie, se]"
  have create: "ResponseElementTree_create cls kw r st = (Inr ?e, st)"
    by (simp add: ResponseElementTree_create_def Let_def i(1) s(1) ie(1) se(1) n elem_append_def)
  have names: "Status_DEFAULT_ELEMENT_LOCAL_NAME \<noteq> Issuer_DEFAULT_ELEMENT_LOCAL_NAME"
    by (simp add: local_names)
  have "ResponseElementTree_parse cls ?e =
          Inr \<lparr>Response_id = Response_id r,
               Response_issueInstant = Response_issueInstant r,
               Response_version = SAMLVersion_VERSION_20,
               Response_inResponseTo = Response_inResponseTo r,
               Response_issuer = Some i,
               Response_status = Some s,
               Response_subject = None,
               Response_assertions = []\<rparr>"
    by (simp add: ResponseElementTree_parse_def local_part_of_names attrib_names v
        SAMLVersion_str_20 SAMLVersion_valueOf_20 t Let_def ie se names)
  also have "\<lparr>Response_id = Response_id r,
               Response_issueInstant = Response_issueInstant r,
               Response_version = SAMLVersion_VERSION_20,
               Response_inResponseTo = Response_inResponseTo r,
               Response_issuer = Some i,
               Response_status = Some s,
               Response_subject = None,
               Response_assertions = []\<rparr> = r"
    by (simp add: i(1) s(1) v n)
  finally have parse: "ResponseElementTree_parse cls ?e = Inr r" .
  from create parse show ?thesis by blast
qed

lemma example_instant_roundtrip:
  "datetime2Str example_IssueInstantXMLObject 1267000000 = ''1267000000''"
  "str2Datetime example_IssueInstantXMLObject ''1267000000'' = Inr 1267000000"
  by (simp_all add: example_IssueInstantXMLObject_def str_of_nat.simps char_of_eq_iff
      int_of_str_def isdigit_def)

lemma example_stripped:
  "stripped (Issuer_value example_issuer)"
  "stripped (NameID_value (the (Subject_nameID example_subject)))"
  "stripped StatusCode_SUCCESS_URI"
  by (simp_all add: example_issuer_def example_subject_def StatusCode_SUCCESS_URI_def
      stripped_def strip_def isspace_def)


lemma example_query_roundtrip:
  "roundtrip_AttributeQuery example_IssueInstantXMLObject st example_query"
  using example_stripped
  by (simp add: roundtrip_AttributeQuery_def example_query_def example_instant_roundtrip
      roundtrip_Attribute_def example_subject_def)

lemma GroupRole_roundtrip_value:
  "roundtrip_value
     (initial_factory_state
        \<lparr>classMap := (classMap initial_factory_state)
           (CustomAttributeValue_class ''GroupRole'' \<mapsto> GroupRoleElementTree),
         idMap := (idMap initial_factory_state)(''esg:groupRole'' \<mapsto> GroupRoleElementTree)\<rparr>)
     (CustomAttributeValue ''GroupRole'' fs)"
  by (simp add: roundtrip_value_def parses_back_def GroupRoleElementTree_def GroupRole_create_def
      GroupRole_parse_def getLocalPart_QName_str local_part_of_names)

lemma example_role_query_roundtrip:
  "roundtrip_AttributeQuery example_IssueInstantXMLObject
     (initial_factory_state
        \<lparr>classMap := (classMap initial_factory_state)
           (CustomAttributeValue_class ''GroupRole'' \<mapsto> GroupRoleElementTree),
         idMap := (idMap initial_factory_state)(''esg:groupRole'' \<mapsto> GroupRoleElementTree)\<rparr>)
     example_role_query"
  using example_stripped
  by (simp add: roundtrip_AttributeQuery_def example_role_query_def example_query_def
      example_instant_roundtrip roundtrip_Attribute_def GroupRole_roundtrip_value
      example_subject_def)

lemma example_response_roundtrip: "roundtrip_Response example_IssueInstantXMLObject example_response"
  using example_stripped
  by (simp add: roundtrip_Response_def example_response_def example_instant_roundtrip)

text \<open>
  Claim C1, as amended. Let \<open>st1\<close> be the class maps as the construction of a factory
  with the keyword arguments \<open>kw\<close> leaves them. For an attribute query that satisfies
  \<open>roundtrip_AttributeQuery\<close> on \<open>st1\<close> (version 2.0, an issue instant the string conversion
  gives back, an issuer and a subject with stripped text, attributes whose values have
  codecs in \<open>st1\<close> that parse back what they create), \<^verbatim>\<open>create\<close> succeeds and \<^verbatim>\<open>parse\<close> of the
  element it returns, in the state \<^verbatim>\<open>create\<close> leaves, is the query itself, field for field,
  with the attributes and their values in their order. For a response that satisfies
  \<open>roundtrip_Response\<close> (no assertion), \<^verbatim>\<open>create\<close> succeeds and \<^verbatim>\<open>parse\<close> of the element is the
  response itself.
\<close>

theorem parse_create_roundtrip:
  "(AttributeValueElementTreeFactory_init kw st = (Inr u, st1) \<and>
    roundtrip_AttributeQuery cls st1 q \<longrightarrow>
      (\<exists>e st'. AttributeQueryElementTree_create cls kw q st = (Inr e, st') \<and>
           (st' = st \<or> st' = st1) \<and>
           AttributeQueryElementTree_parse cls e st' = (Inr q, st'))) \<and>
   (roundtrip_Response cls r \<longrightarrow>
      (\<exists>e. ResponseElementTree_create cls kw r st = (Inr e, st) \<and>
           ResponseElementTree_parse cls e = Inr r))"
  using AttributeQuery_roundtrip [of kw st u st1 cls q] Response_roundtrip [of cls r kw st]
  by blast

theorem parse_create_roundtrip_witness:
  "fst (AttributeValueElementTreeFactory_init GroupRole_kw initial_factory_state) = Inr () \<and>
   roundtrip_AttributeQuery example_IssueInstantXMLObject
     (snd (AttributeValueElementTreeFactory_init GroupRole_kw initial_factory_state))
     example_role_query \<and>
   (\<exists>e st'. AttributeQueryElementTree_create example_IssueInstantXMLObject GroupRole_kw
              example_role_query initial_factory_state = (Inr e, st') \<and>
        fst (AttributeQueryElementTree_parse example_IssueInstantXMLObject e st') =
          Inr example_role_query) \<and>
   roundtrip_Response example_IssueInstantXMLObject example_response \<and>
   (\<exists>e. ResponseElementTree_create example_IssueInstantXMLObject GroupRole_kw example_response
          initial_factory_state = (Inr e, initial_factory_state) \<and>
        ResponseElementTree_parse example_IssueInstantXMLObject e = Inr example_response)"
  using parse_create_roundtrip
      [of GroupRole_kw initial_factory_state "()"
          "initial_factory_state
             \<lparr>classMap := (classMap initial_factory_state)
                (CustomAttributeValue_class ''GroupRole'' \<mapsto> GroupRoleElementTree),
              idMap := (idMap initial_factory_state)
                (''esg:groupRole'' \<mapsto> GroupRoleElementTree)\<rparr>"
          example_IssueInstantXMLObject example_role_query example_response]
    example_role_query_roundtrip example_response_roundtrip GroupRole_registered
  by auto


theorem string_attribute_value_roundtrip_counterexample:
  "fst (AttributeQueryElementTree_create example_IssueInstantXMLObject no_kw
          (example_query\<lparr>AttributeQuery_attributes := [example_attribute]\<rparr>)
          initial_factory_state) =
     Inr (Element ''{urn:oasis:names:tc:SAML:2.0:protocol}AttributeQuery''
            [(''ID'', ''q1''), (''IssueInstant'', ''1267000000''), (''Version'', ''2.0'')] None
            [Element ''{urn:oasis:names:tc:SAML:2.0:assertion}Issuer''
               [(''Format'', ''urn:oasis:names:tc:SAML:1.1:nameid-format:X509SubjectName'')]
               (Some ''/O=Site A/CN=PEP'') [],
             Element ''{urn:oasis:names:tc:SAML:2.0:assertion}Subject'' [] None
               [Element ''{urn:oasis:names:tc:SAML:2.0:assertion}NameID''
                  [(''Format'', ''urn:esg:openid'')]
                  (Some ''https://openid.localhost/philip.kershaw'') []],
             Element ''{urn:oasis:names:tc:SAML:2.0:assertion}Attribute''
               [(''FriendlyName'', ''email''), (''Name'', ''urn:esg:email:address'')] None
               [Element ''{urn:oasis:names:tc:SAML:2.0:assertion}AttributeValue''
                  [(''xmlns:xs'', ''http://www.w3.org/2001/XMLSchema''),
                   (''xmlns:xsi'', ''http://www.w3.org/2001/XMLSchema-instance''),
                   (''xsi:type'', ''xs:string'')]
                  (Some ''alice@example.org'') []]]) \<and>
   fst (AttributeQueryElementTree_parse example_IssueInstantXMLObject
          (Element ''{urn:oasis:names:tc:SAML:2.0:protocol}AttributeQuery''
            [(''ID'', ''q1''), (''IssueInstant'', ''1267000000''), (''Version'', ''2.0'')] None
            [Element ''{urn:oasis:names:tc:SAML:2.0:assertion}Issuer''
               [(''Format'', ''urn:oasis:names:tc:SAML:1.1:nameid-format:X509SubjectName'')]
               (Some ''/O=Site A/CN=PEP'') [],
             Element ''{urn:oasis:names:tc:SAML:2.0:assertion}Subject'' [] None
               [Element ''{urn:oasis:names:tc:SAML:2.0:assertion}NameID''
                  [(''Format'', ''urn:esg:openid'')]
                  (Some ''https://openid.localhost/philip.kershaw'') []],
             Element ''{urn:oasis:names:tc:SAML:2.0:assertion}Attribute''
               [(''FriendlyName'', ''email''), (''Name'', ''urn:esg:email:address'')] None
               [Element ''{urn:oasis:names:tc:SAML:2.0:assertion}AttributeValue''
                  [(''xmlns:xs'', ''http://www.w3.org/2001/XMLSchema''),
                   (''xmlns:xsi'', ''http://www.w3.org/2001/XMLSchema-instance''),
                   (''xsi:type'', ''xs:string'')]
                  (Some ''alice@example.org'') []]])
          initial_factory_state) = Inl XMLObjectParseError"
proof (rule conjI)
  show "fst (AttributeQueryElementTree_create example_IssueInstantXMLObject no_kw
          (example_query\<lparr>AttributeQuery_attributes := [example_attribute]\<rparr>)
          initial_factory_state) =
     Inr (Element ''{urn:oasis:names:tc:SAML:2.0:protocol}AttributeQuery''
            [(''ID'', ''q1''), (''IssueInstant'', ''1267000000''), (''Version'', ''2.0'')] None
            [Element ''{urn:oasis:names:tc:SAML:2.0:assertion}Issuer''
               [(''Format'', ''urn:oasis:names:tc:SAML:1.1:nameid-format:X509SubjectName'')]
               (Some ''/O=Site A/CN=PEP'') [],
             Element ''{urn:oasis:names:tc:SAML:2.0:assertion}Subject'' [] None
               [Element ''{urn:oasis:names:tc:SAML:2.0:assertion}NameID''
                  [(''Format'', ''urn:esg:openid'')]
                  (Some ''https://openid.localhost/philip.kershaw'') []],
             Element ''{urn:oasis:names:tc:SAML:2.0:assertion}Attribute''
               [(''FriendlyName'', ''email''), (''Name'', ''urn:esg:email:address'')] None
               [Element ''{urn:oasis:names:tc:SAML:2.0:assertion}AttributeValue''
                  [(''xmlns:xs'', ''http://www.w3.org/2001/XMLSchema''),
                   (''xmlns:xsi'', ''http://www.w3.org/2001/XMLSchema-instance''),
                   (''xsi:type'', ''xs:string'')]
                  (Some ''alice@example.org'') []]])"
    by (simp add: AttributeQueryElementTree_create_def Let_def example_query_def
        example_attribute_def example_issuer_def example_subject_def
        IssuerElementTree_create_def SubjectElementTree_create_def NameIdElementTree_create_def
        AttributeElementTree_create_def create_attributeValue_def factory_init_no_kw
        AttributeValueElementTreeFactory_call_def initial_factory_state_def
        AttributeValueElementTreeFactory_classMap_def XSStringAttributeValueElementTree_def
        XSStringAttributeValueElementTree_create_def AttributeValueElementTreeBase_create_def
        elem_set_def set_if_true_def elem_append_def QName_str_def element_names local_names
        attrib_names SAML20_NS_def SAML20P_NS_def XMLNS_PREFIX_def XSD_PREFIX_def XSI_PREFIX_def
        XSD_NS_def XSI_NS_def XSStringAttributeValue_TYPE_LOCAL_NAME_def Issuer_X509_SUBJECT_def
        example_instant_roundtrip SAMLVersion_str_20)
next
  show "fst (AttributeQueryElementTree_parse example_IssueInstantXMLObject
          (Element ''{urn:oasis:names:tc:SAML:2.0:protocol}AttributeQuery''
            [(''ID'', ''q1''), (''IssueInstant'', ''1267000000''), (''Version'', ''2.0'')] None
            [Element ''{urn:oasis:names:tc:SAML:2.0:assertion}Issuer''
               [(''Format'', ''urn:oasis:names:tc:SAML:1.1:nameid-format:X509SubjectName'')]
               (Some ''/O=Site A/CN=PEP'') [],
             Element ''{urn:oasis:names:tc:SAML:2.0:assertion}Subject'' [] None
               [Element ''{urn:oasis:names:tc:SAML:2.0:assertion}NameID''
                  [(''Format'', ''urn:esg:openid'')]
                  (Some ''https://openid.localhost/philip.kershaw'') []],
             Element ''{urn:oasis:names:tc:SAML:2.0:assertion}Attribute''
               [(''FriendlyName'', ''email''), (''Name'', ''urn:esg:email:address'')] None
               [Element ''{urn:oasis:names:tc:SAML:2.0:assertion}AttributeValue''
                  [(''xmlns:xs'', ''http://www.w3.org/2001/XMLSchema''),
                   (''xmlns:xsi'', ''http://www.w3.org/2001/XMLSchema-instance''),
                   (''xsi:type'', ''xs:string'')]
                  (Some ''alice@example.org'') []]])
          initial_factory_state) = Inl XMLObjectParseError"
    by (simp add: AttributeQueryElementTree_parse_def getLocalPart_def local_names attrib_names
        SAMLVersion_valueOf_20 example_instant_roundtrip Let_def
        IssuerElementTree_parse_def SubjectElementTree_parse_def NameIdElementTree_parse_def
        AttributeElementTree_parse_def)
qed

end
